(* ===== verification/Prelude.thy ===== *)
theory Prelude
  imports Main
begin

text \<open>
  Shared vocabulary of the development: Python's exceptions as the left summand of a
  sum type, the short-circuiting \<open>and\<close>/\<open>or\<close> of Python over computations that may
  raise, list indexing that raises \<open>IndexError\<close>, the string methods the sources call
  (\<open>split\<close>, \<open>join\<close>, \<open>count\<close>, \<open>strip\<close>, \<open>replace\<close>, \<open>lower\<close>, \<open>isdigit\<close>,
  the substring test \<open>in\<close>) and insertion-ordered dictionaries as association lists.
  Strings are \<open>char list\<close>; characters are bytes, so the Unicode behaviour of
  \<open>str.lower\<close>, \<open>str.isdigit\<close> and \<open>str.strip\<close> beyond ASCII is not modelled.
\<close>

named_theorems py_simps "evaluation rules of the Python primitives"

section \<open>Exceptions and the exception monad\<close>

datatype exn = IndexError | KeyError | ValueError | UpstreamError

type_synonym 'a py = "exn + 'a"

definition py_bind :: "'a py \<Rightarrow> ('a \<Rightarrow> 'b py) \<Rightarrow> 'b py" where
  "py_bind m f = (case m of Inl e \<Rightarrow> Inl e | Inr x \<Rightarrow> f x)"

text \<open>\<open>A and B\<close> and \<open>A or B\<close> of Python: the right operand is evaluated (and may
  raise) only when the left one does not decide the result.\<close>

definition py_and :: "bool py \<Rightarrow> bool py \<Rightarrow> bool py" where
  "py_and a b = (case a of Inl e \<Rightarrow> Inl e | Inr x \<Rightarrow> (if x then b else Inr False))"

definition py_or :: "bool py \<Rightarrow> bool py \<Rightarrow> bool py" where
  "py_or a b = (case a of Inl e \<Rightarrow> Inl e | Inr x \<Rightarrow> (if x then Inr True else b))"

text \<open>\<open>try: is_valid = e  except: is_valid = False\<close>: a bare \<open>except\<close> turns every
  exception of the body into the value \<open>False\<close>.\<close>

definition py_catch_false :: "bool py \<Rightarrow> bool" where
  "py_catch_false m = (case m of Inl _ \<Rightarrow> False | Inr b \<Rightarrow> b)"

text \<open>\<open>xs[i]\<close> for a non-negative index.\<close>

definition py_nth :: "'a list \<Rightarrow> nat \<Rightarrow> 'a py" where
  "py_nth xs i = (if i < length xs then Inr (xs ! i) else Inl IndexError)"

text \<open>\<open>xs[i] = v\<close>: assignment to an index out of range raises.\<close>

definition py_list_set :: "'a list \<Rightarrow> nat \<Rightarrow> 'a \<Rightarrow> 'a list py" where
  "py_list_set xs i v = (if i < length xs then Inr (xs[i := v]) else Inl IndexError)"

text \<open>\<open>xs[0:j]\<close>: a negative \<open>j\<close> counts from the end; both ends are clamped
  to the list, so slicing never raises.\<close>

definition py_slice_to :: "'a list \<Rightarrow> int \<Rightarrow> 'a list" where
  "py_slice_to xs j = take (nat (if j < 0 then int (length xs) + j else j)) xs"

text \<open>\<open>xs[i] == s\<close>.\<close>

definition py_field_eq :: "'a list \<Rightarrow> nat \<Rightarrow> 'a \<Rightarrow> bool py" where
  "py_field_eq xs i s = py_bind (py_nth xs i) (\<lambda>x. Inr (x = s))"

text \<open>A \<open>for\<close> loop whose body may raise, threading the loop state.\<close>

fun py_fold :: "('a \<Rightarrow> 's \<Rightarrow> 's py) \<Rightarrow> 'a list \<Rightarrow> 's \<Rightarrow> 's py" where
  "py_fold f [] s = Inr s"
| "py_fold f (x # xs) s = py_bind (f x s) (py_fold f xs)"

text \<open>\<open>[f(x) for x in xs]\<close> (and \<open>map\<close> consumed by \<open>join\<close>): left to right, the
  first exception propagates.\<close>

fun py_mapM :: "('a \<Rightarrow> 'b py) \<Rightarrow> 'a list \<Rightarrow> 'b list py" where
  "py_mapM f [] = Inr []"
| "py_mapM f (x # xs) = py_bind (f x) (\<lambda>y. py_bind (py_mapM f xs) (\<lambda>ys. Inr (y # ys)))"

text \<open>\<open>any(p(x) for x in xs)\<close>: stops at the first true element; an exception of an
  element evaluated before that propagates.\<close>

fun py_any :: "('a \<Rightarrow> bool py) \<Rightarrow> 'a list \<Rightarrow> bool py" where
  "py_any p [] = Inr False"
| "py_any p (x # xs) = py_bind (p x) (\<lambda>b. if b then Inr True else py_any p xs)"

section \<open>Strings\<close>

text \<open>\<open>s.split(c)\<close> for a one-character separator: never empty, empty fields kept.\<close>

fun py_split :: "char \<Rightarrow> string \<Rightarrow> string list" where
  "py_split c [] = [[]]"
| "py_split c (x # xs) =
     (let r = py_split c xs in if x = c then [] # r else (x # hd r) # tl r)"

text \<open>\<open>c.join(ws)\<close> for a one-character separator.\<close>

fun py_join :: "char \<Rightarrow> string list \<Rightarrow> string" where
  "py_join c [] = []"
| "py_join c [w] = w"
| "py_join c (w # ws) = w @ c # py_join c ws"

text \<open>\<open>sep.join(ws)\<close> for a separator of several characters.\<close>

fun py_join_str :: "string \<Rightarrow> string list \<Rightarrow> string" where
  "py_join_str sep [] = []"
| "py_join_str sep [w] = w"
| "py_join_str sep (w # ws) = w @ sep @ py_join_str sep ws"

text \<open>\<open>s.count(c)\<close> for one character is \<open>count_list\<close>.\<close>

abbreviation py_count :: "char \<Rightarrow> string \<Rightarrow> nat" where
  "py_count c s \<equiv> count_list s c"

text \<open>\<open>s.replace(c, r)\<close> for a one-character pattern.\<close>

definition py_replace :: "char \<Rightarrow> string \<Rightarrow> string \<Rightarrow> string" where
  "py_replace c r s = concat (map (\<lambda>x. if x = c then r else [x]) s)"

text \<open>The ASCII characters for which \<open>str.isspace\<close> holds: tab, line feed, vertical tab,
  form feed, carriage return, the separators 28 to 31, and space.\<close>

definition py_isspace :: "char \<Rightarrow> bool" where
  "py_isspace c = (let n = of_char c :: nat in (9 \<le> n \<and> n \<le> 13) \<or> (28 \<le> n \<and> n \<le> 32))"

definition py_strip :: "string \<Rightarrow> string" where
  "py_strip s = rev (dropWhile py_isspace (rev (dropWhile py_isspace s)))"

definition py_lower_char :: "char \<Rightarrow> char" where
  "py_lower_char c = (let n = of_char c :: nat in if 65 \<le> n \<and> n \<le> 90 then char_of (n + 32) else c)"

definition py_lower :: "string \<Rightarrow> string" where
  "py_lower s = map py_lower_char s"

definition is_ascii_digit :: "char \<Rightarrow> bool" where
  "is_ascii_digit c = (c \<in> set ''0123456789'')"

text \<open>\<open>s.isdigit()\<close>: non-empty and every character a digit.\<close>

definition py_isdigit :: "string \<Rightarrow> bool" where
  "py_isdigit s = (s \<noteq> [] \<and> list_all is_ascii_digit s)"

definition digit_value :: "char \<Rightarrow> nat" where
  "digit_value c = of_char c - 48"

text \<open>\<open>n in h\<close> for strings: substring test.\<close>

definition starts_with :: "string \<Rightarrow> string \<Rightarrow> bool" where
  "starts_with n s = (take (length n) s = n)"

fun py_contains :: "string \<Rightarrow> string \<Rightarrow> bool" where
  "py_contains n [] = (n = [])"
| "py_contains n (h # t) = (starts_with n (h # t) \<or> py_contains n t)"

text \<open>\<open>s.replace(old, new)\<close> for a string pattern: scanning left to right, every
  non-overlapping occurrence of \<open>old\<close> is replaced; an empty \<open>old\<close> inserts \<open>new\<close>
  before every character and at the end.\<close>

function py_replace_str :: "string \<Rightarrow> string \<Rightarrow> string \<Rightarrow> string" where
  "py_replace_str old new [] = (if old = [] then new else [])"
| "py_replace_str old new (c # s) =
     (if old = [] then new @ c # py_replace_str old new s
      else if starts_with old (c # s) then new @ py_replace_str old new (drop (length old) (c # s))
      else c # py_replace_str old new s)"
  by pat_completeness auto
termination
  by (relation "measure (\<lambda>(old, new, s). length s)") auto

section \<open>Insertion-ordered dictionaries\<close>

type_synonym ('k, 'v) pydict = "('k \<times> 'v) list"

fun dict_get :: "('k, 'v) pydict \<Rightarrow> 'k \<Rightarrow> 'v py" where
  "dict_get [] k = Inl KeyError"
| "dict_get ((a, b) # ps) k = (if k = a then Inr b else dict_get ps k)"

text \<open>\<open>d[k] = v\<close>: an existing key keeps its position, a new key goes last.\<close>

fun dict_set :: "('k, 'v) pydict \<Rightarrow> 'k \<Rightarrow> 'v \<Rightarrow> ('k, 'v) pydict" where
  "dict_set [] k v = [(k, v)]"
| "dict_set ((a, b) # ps) k v = (if k = a then (a, v) # ps else (a, b) # dict_set ps k v)"

section \<open>Lemmas\<close>

lemma py_bind_simps [simp, py_simps]:
  "py_bind (Inl e) f = Inl e"
  "py_bind (Inr x) f = f x"
  by (simp_all add: py_bind_def)

lemma py_bind_Inr_iff: "py_bind m f = Inr y \<longleftrightarrow> (\<exists>x. m = Inr x \<and> f x = Inr y)"
  by (cases m) auto

lemma py_and_simps [simp, py_simps]:
  "py_and (Inl e) b = Inl e"
  "py_and (Inr x) b = (if x then b else Inr False)"
  by (simp_all add: py_and_def)

lemma py_or_simps [simp, py_simps]:
  "py_or (Inl e) b = Inl e"
  "py_or (Inr x) b = (if x then Inr True else b)"
  by (simp_all add: py_or_def)

lemma py_catch_false_simps [simp, py_simps]:
  "py_catch_false (Inl e) = False"
  "py_catch_false (Inr b) = b"
  by (simp_all add: py_catch_false_def)

lemma py_nth_Inr_iff [simp]: "py_nth xs i = Inr x \<longleftrightarrow> i < length xs \<and> xs ! i = x"
  by (auto simp: py_nth_def)

lemma py_nth_Inl_iff [simp]: "py_nth xs i = Inl e \<longleftrightarrow> length xs \<le> i \<and> e = IndexError"
  by (auto simp: py_nth_def)

lemma py_nth_in_range [py_simps]: "i < length xs \<Longrightarrow> py_nth xs i = Inr (xs ! i)"
  by (simp add: py_nth_def)

lemma py_field_eq_in_range [py_simps]: "i < length xs \<Longrightarrow> py_field_eq xs i s = Inr (xs ! i = s)"
  by (simp add: py_field_eq_def py_nth_def)

lemma py_field_eq_out_of_range [py_simps]: "length xs \<le> i \<Longrightarrow> py_field_eq xs i s = Inl IndexError"
  by (simp add: py_field_eq_def py_nth_def)

lemma py_fold_fun:
  "py_fold f [] = Inr"
  "py_fold f (x # xs) = (\<lambda>s. py_bind (f x s) (py_fold f xs))"
  by (simp_all add: fun_eq_iff)

lemma py_fold_append:
  "py_fold f (xs @ ys) s = py_bind (py_fold f xs s) (py_fold f ys)"
  by (induction xs arbitrary: s) (auto simp: py_bind_def split: sum.splits)

lemma py_fold_total:
  assumes "\<And>x s. x \<in> set xs \<Longrightarrow> \<exists>t. f x s = Inr t"
  shows "\<exists>t. py_fold f xs s = Inr t"
  using assms
proof (induction xs arbitrary: s)
  case (Cons a xs)
  from Cons.prems obtain t where "f a s = Inr t" by (meson list.set_intros(1))
  moreover from Cons have "\<exists>u. py_fold f xs t = Inr u" by auto
  ultimately show ?case by simp
qed simp

lemma py_any_true: "py_any p xs = Inr True \<Longrightarrow> \<exists>x\<in>set xs. p x = Inr True"
  by (induction xs) (auto simp: py_bind_Inr_iff split: if_splits)

lemma py_fold_cong:
  "(\<And>x s. x \<in> set xs \<Longrightarrow> f x s = g x s) \<Longrightarrow> py_fold f xs s = py_fold g xs s"
  by (induction xs arbitrary: s) (simp_all add: py_bind_def split: sum.splits)

lemma py_any_pure: "py_any (\<lambda>x. Inr (p x)) xs = Inr (list_ex p xs)"
  by (induction xs) auto

lemma py_any_raise: "py_any (\<lambda>x. Inl e) xs = (if xs = [] then Inr False else Inl e)"
  by (cases xs) auto

text \<open>A loop whose body raises only \<open>E\<close> raises only \<open>E\<close>; and it does raise when
  one of its items makes the body raise whatever the state.\<close>

lemma py_fold_Inl_only:
  assumes "\<And>x s e. f x s = Inl e \<Longrightarrow> e = E" and "py_fold f xs s = Inl e"
  shows "e = E"
  using assms(2)
proof (induction xs arbitrary: s)
  case (Cons a xs)
  then show ?case by (cases "f a s") (auto dest: assms(1))
qed simp

lemma py_fold_raises:
  assumes only: "\<And>x s e. f x s = Inl e \<Longrightarrow> e = E"
    and x: "x \<in> set xs" and raise: "\<And>s. \<exists>e. f x s = Inl e"
  shows "py_fold f xs s = Inl E"
  using x
proof (induction xs arbitrary: s)
  case (Cons a xs)
  show ?case
  proof (cases "f a s")
    case (Inl e)
    then show ?thesis using only by auto
  next
    case (Inr t)
    with raise have "x \<noteq> a" by (metis Inr_Inl_False)
    with Cons.prems have "x \<in> set xs" by simp
    with Cons.IH Inr show ?thesis by simp
  qed
qed simp

subsection \<open>split, join and count\<close>

lemma py_split_not_Nil [simp]: "py_split c s \<noteq> []"
  by (induction s) (auto simp: Let_def)

lemma length_py_split: "length (py_split c s) = Suc (py_count c s)"
  by (induction s) (auto simp: Let_def)

lemma py_split_no_sep: "w \<in> set (py_split c s) \<Longrightarrow> c \<notin> set w"
proof (induction s arbitrary: w)
  case Nil
  then show ?case by simp
next
  case (Cons x xs)
  obtain r rs where r: "py_split c xs = r # rs"
    by (cases "py_split c xs") auto
  with Cons show ?case by (auto simp: Let_def split: if_splits)
qed

lemma py_join_Cons: "ws \<noteq> [] \<Longrightarrow> py_join c (w # ws) = w @ c # py_join c ws"
  by (cases ws) auto

lemma py_join_split [simp]: "py_join c (py_split c s) = s"
proof (induction s)
  case Nil
  then show ?case by simp
next
  case (Cons x xs)
  obtain r rs where r: "py_split c xs = r # rs"
    by (cases "py_split c xs") auto
  show ?case
  proof (cases "x = c")
    case True
    with Cons r show ?thesis by (simp add: py_join_Cons)
  next
    case False
    with Cons r show ?thesis by (cases rs) auto
  qed
qed

lemma py_split_append_sep:
  "c \<notin> set w \<Longrightarrow> py_split c (w @ c # s) = w # py_split c s"
  by (induction w) (auto simp: Let_def)

lemma py_split_no_sep_id: "c \<notin> set w \<Longrightarrow> py_split c w = [w]"
  by (induction w) (auto simp: Let_def)

lemma py_split_join:
  "ws \<noteq> [] \<Longrightarrow> (\<forall>w\<in>set ws. c \<notin> set w) \<Longrightarrow> py_split c (py_join c ws) = ws"
proof (induction ws rule: py_join.induct)
  case (3 c w v vs)
  then show ?case by (simp add: py_split_append_sep)
qed (auto simp: py_split_no_sep_id)

lemma count_py_join:
  "ws \<noteq> [] \<Longrightarrow> count_list (py_join c ws) d =
     sum_list (map (\<lambda>w. count_list w d) ws) + (if c = d then length ws - 1 else 0)"
  by (induction ws rule: py_join.induct) auto

text \<open>The commas of a string split on semicolons: each field keeps its own.\<close>

lemma count_py_split:
  "c \<noteq> d \<Longrightarrow> sum_list (map (\<lambda>w. count_list w d) (py_split c s)) = count_list s d"
  using count_py_join [of "py_split c s" c d] by simp

subsection \<open>Characters and substrings\<close>

lemma py_isdigit_Cons: "py_isdigit (x # xs) \<longleftrightarrow> is_ascii_digit x \<and> (xs = [] \<or> py_isdigit xs)"
  by (auto simp: py_isdigit_def)

lemma starts_with_iff: "starts_with n s \<longleftrightarrow> (\<exists>t. s = n @ t)"
  by (metis append_eq_conv_conj append_take_drop_id starts_with_def)

lemma py_contains_iff: "py_contains n h \<longleftrightarrow> (\<exists>p q. h = p @ n @ q)"
proof (induction h)
  case Nil
  then show ?case by simp
next
  case (Cons x xs)
  note sw = starts_with_iff [of n "x # xs"]
  show ?case
  proof
    assume "py_contains n (x # xs)"
    then consider "starts_with n (x # xs)" | "py_contains n xs" by auto
    then show "\<exists>p q. x # xs = p @ n @ q"
    proof cases
      case 1
      with sw show ?thesis by (metis append_Nil)
    next
      case 2
      with Cons.IH obtain p q where "xs = p @ n @ q" by blast
      then have "x # xs = (x # p) @ n @ q" by simp
      then show ?thesis by blast
    qed
  next
    assume "\<exists>p q. x # xs = p @ n @ q"
    then obtain p q where pq: "x # xs = p @ n @ q" by blast
    show "py_contains n (x # xs)"
    proof (cases p)
      case Nil
      with pq have "\<exists>q. x # xs = n @ q" by auto
      with sw have "starts_with n (x # xs)" by blast
      then show ?thesis by simp
    next
      case (Cons y ys)
      with pq Cons.IH show ?thesis by auto
    qed
  qed
qed

lemma py_contains_Nil [simp]: "py_contains [] h"
  by (cases h) (auto simp: starts_with_def)

lemma py_replace_str_no_match:
  "old \<noteq> [] \<Longrightarrow> \<not> py_contains old s \<Longrightarrow> py_replace_str old new s = s"
  by (induction old new s rule: py_replace_str.induct) auto

text \<open>An occurrence at the very end is the only one replaced when no occurrence starts
  earlier.\<close>

lemma py_replace_str_suffix:
  assumes "old \<noteq> []" and "\<not> py_contains old (p @ butlast old)"
  shows "py_replace_str old new (p @ old) = p @ new"
  using assms(2)
proof (induction p)
  case Nil
  from assms(1) obtain c s where "old = c # s" by (cases old) auto
  then show ?case by (simp add: starts_with_def)
next
  case (Cons c p)
  have len: "length old \<le> length (c # p @ butlast old)" using assms(1) by simp
  have "\<not> starts_with old (c # p @ old)"
  proof
    assume "starts_with old (c # p @ old)"
    moreover have "c # p @ old = (c # p @ butlast old) @ [last old]" using assms(1) by simp
    ultimately have "take (length old) (c # p @ butlast old) = old"
      using len unfolding starts_with_def by (metis append_Nil2 diff_is_0_eq take0 take_append)
    then have "starts_with old (c # p @ butlast old)" by (simp add: starts_with_def)
    with Cons.prems show False by (cases "p @ butlast old") auto
  qed
  moreover from Cons.prems have "\<not> py_contains old (p @ butlast old)"
    by (cases "p @ butlast old") auto
  ultimately show ?case using assms(1) Cons.IH by simp
qed

subsection \<open>Dictionaries\<close>

lemma dict_get_set: "dict_get (dict_set d k v) k' = (if k' = k then Inr v else dict_get d k')"
  by (induction d k v rule: dict_set.induct) auto

lemma map_fst_dict_set_old: "k \<in> set (map fst d) \<Longrightarrow> map fst (dict_set d k v) = map fst d"
  by (induction d k v rule: dict_set.induct) auto

lemma map_fst_dict_set_new: "k \<notin> set (map fst d) \<Longrightarrow> map fst (dict_set d k v) = map fst d @ [k]"
  by (induction d k v rule: dict_set.induct) auto

lemma dict_set_new: "k \<notin> set (map fst d) \<Longrightarrow> dict_set d k v = d @ [(k, v)]"
  by (induction d k v rule: dict_set.induct) auto

lemma dict_get_distinct_member:
  "distinct (map fst d) \<Longrightarrow> (k, v) \<in> set d \<Longrightarrow> dict_get d k = Inr v"
  by (induction d k rule: dict_get.induct) (auto simp: rev_image_eqI)

lemma dict_get_Inr_iff: "distinct (map fst d) \<Longrightarrow> dict_get d k = Inr v \<longleftrightarrow> (k, v) \<in> set d"
  by (induction d k rule: dict_get.induct) (auto simp: rev_image_eqI)

lemma dict_get_Inr_key: "dict_get d k = Inr v \<Longrightarrow> k \<in> set (map fst d)"
  by (induction d k rule: dict_get.induct) (auto split: if_splits)

lemma dict_get_Inl: "dict_get d k = Inl e \<longleftrightarrow> k \<notin> set (map fst d) \<and> e = KeyError"
  by (induction d k rule: dict_get.induct) auto

lemma dict_set_distinct:
  "distinct (map fst d) \<Longrightarrow> dict_get d k = Inr old \<Longrightarrow>
     dict_set d k v = map (\<lambda>(k', b). (k', if k' = k then v else b)) d"
proof (induction d k v rule: dict_set.induct)
  case (2 a b ps k v)
  have absent: "a \<notin> fst ` set ps \<Longrightarrow> map (\<lambda>(k', b). (k', if k' = a then v else b)) ps = ps"
    by (induction ps) auto
  from 2 absent show ?case by (auto split: if_splits)
qed simp

text \<open>A loop that sets one fresh key per item builds the association list of the items.\<close>

lemma py_fold_dict_set_fresh:
  assumes "\<And>r d. r \<in> set rs \<Longrightarrow> f r d = Inr (dict_set d (K r) (V r))"
    and "distinct (map K rs)" and "set (map K rs) \<inter> set (map fst acc) = {}"
  shows "py_fold f rs acc = Inr (acc @ map (\<lambda>r. (K r, V r)) rs)"
  using assms
proof (induction rs arbitrary: acc)
  case (Cons r rs)
  from Cons.prems have fresh: "K r \<notin> set (map fst acc)" by auto
  from Cons.prems have "set (map K rs) \<inter> set (map fst (acc @ [(K r, V r)])) = {}" by auto
  with Cons.prems Cons.IH [of "acc @ [(K r, V r)]"] fresh show ?case by (simp add: dict_set_new)
qed simp


end
