(* ===== verification/Schedule_Schema.thy ===== *)
theory Schedule_Schema
  imports Prelude
begin

text \<open>
  The schedule record schema: the module constants of the two sources and the wire
  format of a candidate. A candidate is one string; \<open>;\<close> separates its entries and
  \<open>,\<close> the fourteen positional fields of an entry (0 day of week, 1 open time, 2 close
  time, 3 to 6 reserved, 7 information marker, 8 week-of-month ordinal, 9 day-of-month
  ordinal, 10 hour type, 11 to 13 reserved). Both sources re-split the string in every
  rule (\<open>value.split(";")\<close>, then \<open>value.split(",")\<close>); \<open>entries_of\<close> and
  \<open>fields_of\<close> name those two splits; hour types stay the strings the code
  compares.
\<close>

section \<open>Module constants\<close>

text \<open>\<open>DAYS_OF_WEEK\<close> of normalizeHours.py and of clean_hours.py: the same seven
  names.\<close>

definition DAYS_OF_WEEK :: "string list" where
  "DAYS_OF_WEEK = [''Monday'', ''Tuesday'', ''Wednesday'', ''Thursday'', ''Friday'',
                   ''Saturday'', ''Sunday'']"

definition DAYS_OF_WEEK_batch :: "string list" where
  "DAYS_OF_WEEK_batch = [''Monday'', ''Tuesday'', ''Wednesday'', ''Thursday'', ''Friday'',
                         ''Saturday'', ''Sunday'']"

text \<open>normalizeHours.py: five hour types; clean_hours.py: the first four only.\<close>

definition HOUR_TYPES :: "string list" where
  "HOUR_TYPES = [''Weekly'', ''Every Other Week'', ''Day of Month'', ''Week of Month'',
                 ''Call for Information'']"

definition HOUR_TYPES_batch :: "string list" where
  "HOUR_TYPES_batch = [''Weekly'', ''Every Other Week'', ''Day of Month'', ''Week of Month'']"

text \<open>\<open>INT_TO_DAY_OF_MONTH\<close>: ordinal digit to the words that may spell it in the original
  text. The value of the key \<open>""\<close> is the empty string, which iterates as the empty
  sequence; it is the empty list here.\<close>

definition INT_TO_DAY_OF_MONTH :: "(string, string list) pydict" where
  "INT_TO_DAY_OF_MONTH =
     [(''1'', [''1st'', ''First'']), (''2'', [''2nd'', ''Second'']), (''3'', [''3rd'', ''Third'']),
      (''4'', [''4th'', ''Fourth'']), (''5'', [''5th'', ''Fifth'']), ([], [])]"

definition INT_TO_DAY_OF_MONTH_batch :: "(string, string list) pydict" where
  "INT_TO_DAY_OF_MONTH_batch =
     [(''1'', [''1st'', ''First'']), (''2'', [''2nd'']), (''3'', [''3rd'']),
      (''4'', [''4th'']), (''5'', [''5th'']), ([], [])]"

abbreviation CFI :: string where
  "CFI \<equiv> ''Call for Information''"

section \<open>Wire format\<close>

definition entries_of :: "string \<Rightarrow> string list" where
  "entries_of s = py_split CHR '';'' s"

definition fields_of :: "string \<Rightarrow> string list" where
  "fields_of e = py_split CHR '','' e"

text \<open>\<open>a == "" and b == "" and ...\<close> over fields read by index, left to right.\<close>

definition fields_empty :: "string list \<Rightarrow> nat list \<Rightarrow> bool py" where
  "fields_empty v ixs = foldl py_and (Inr True) (map (\<lambda>i. py_field_eq v i []) ixs)"

text \<open>The counting check of \<open>test_valid_entry_format\<close>, identical in both sources.\<close>

definition entry_format_ok :: "string \<Rightarrow> bool" where
  "entry_format_ok s =
     (let sc = py_count CHR '';'' s; cc = py_count CHR '','' s; v = (13 + sc * 13 = cc)
      in (sc < 1 \<and> cc = 13) \<or> ((1 \<le> sc \<and> 13 < cc) \<and> v))"

section \<open>Lemmas\<close>

text \<open>The two copies of the weekday list agree, so the rules of both sources test the
  same names.\<close>

lemma DAYS_OF_WEEK_batch_eq [simp]: "DAYS_OF_WEEK_batch = DAYS_OF_WEEK"
  by (simp add: DAYS_OF_WEEK_batch_def DAYS_OF_WEEK_def)

lemma entries_of_not_Nil [simp]: "entries_of s \<noteq> []"
  by (simp add: entries_of_def)

lemma fields_of_not_Nil [simp]: "fields_of e \<noteq> []"
  by (simp add: fields_of_def)

lemma length_fields_of: "length (fields_of e) = Suc (py_count CHR '','' e)"
  by (simp add: fields_of_def length_py_split)

lemma sum_commas_entries:
  "sum_list (map (py_count CHR '','') (entries_of s)) = py_count CHR '','' s"
  by (simp add: entries_of_def count_py_split)

lemma length_entries_of: "length (entries_of s) = Suc (py_count CHR '';'' s)"
  by (simp add: entries_of_def length_py_split)

lemma fields_empty_Inr_iff:
  "fields_empty v ixs = Inr True \<longleftrightarrow> (\<forall>i\<in>set ixs. i < length v \<and> v ! i = [])"
proof -
  have gen: "foldl py_and a (map (\<lambda>i. py_field_eq v i []) ixs) = Inr True \<longleftrightarrow>
               a = Inr True \<and> (\<forall>i\<in>set ixs. i < length v \<and> v ! i = [])" for a
  proof (induction ixs arbitrary: a)
    case Nil
    then show ?case by simp
  next
    case (Cons i ixs)
    have step: "py_and a (py_field_eq v i []) = Inr True \<longleftrightarrow>
                  a = Inr True \<and> i < length v \<and> v ! i = []"
      by (cases a; cases "i < length v")
         (auto simp: py_and_def py_field_eq_in_range py_field_eq_out_of_range)
    show ?case using Cons.IH [of "py_and a (py_field_eq v i [])"] step by auto
  qed
  show ?thesis by (simp add: fields_empty_def gen)
qed

lemma fields_empty_eq:
  "\<forall>i\<in>set ixs. i < length v \<Longrightarrow> fields_empty v ixs = Inr (\<forall>i\<in>set ixs. v ! i = [])"
proof -
  have "\<forall>i\<in>set ixs. i < length v \<Longrightarrow>
          foldl py_and (Inr b) (map (\<lambda>i. py_field_eq v i []) ixs) = Inr (b \<and> (\<forall>i\<in>set ixs. v ! i = []))" for b
    by (induction ixs arbitrary: b) (auto simp: py_field_eq_in_range)
  then show "\<forall>i\<in>set ixs. i < length v \<Longrightarrow> ?thesis" by (simp add: fields_empty_def)
qed

lemma fields_empty_total:
  "(\<forall>i\<in>set ixs. i < length v) \<Longrightarrow> \<exists>b. fields_empty v ixs = Inr b"
proof -
  have "(\<forall>i\<in>set ixs. i < length v) \<Longrightarrow> (\<exists>b. a = Inr b) \<Longrightarrow>
          \<exists>b. foldl py_and a (map (\<lambda>i. py_field_eq v i []) ixs) = Inr b" for a
  proof (induction ixs arbitrary: a)
    case (Cons i ixs)
    from Cons.prems obtain b0 where a: "a = Inr b0" by blast
    have "\<exists>b. py_and a (py_field_eq v i []) = Inr b"
      using a Cons.prems(1) by (cases b0) (auto simp: py_field_eq_in_range)
    then show ?case using Cons.IH Cons.prems(1) by simp
  qed simp
  then show "(\<forall>i\<in>set ixs. i < length v) \<Longrightarrow> ?thesis" by (simp add: fields_empty_def) blast
qed

text \<open>A loop over entries whose body only ever lowers its accumulator and, when it
  returns true, certifies \<open>P\<close> of the entry.\<close>

lemma py_fold_entries_sound:
  assumes "py_fold (\<lambda>e acc. step (fields_of e) acc) es acc = Inr b" and "b"
    and sound: "\<And>v acc b. step v acc = Inr b \<Longrightarrow> b \<Longrightarrow> acc \<and> P v"
  shows "acc \<and> (\<forall>e\<in>set es. P (fields_of e))"
  using assms(1,2)
proof (induction es arbitrary: acc)
  case (Cons e es)
  from Cons.prems(1) obtain b1 where s1: "step (fields_of e) acc = Inr b1"
    and rest: "py_fold (\<lambda>e acc. step (fields_of e) acc) es b1 = Inr b"
    by (auto simp: py_bind_Inr_iff)
  from Cons.IH [OF rest Cons.prems(2)] have "b1" and "\<forall>e\<in>set es. P (fields_of e)" by auto
  with sound [OF s1] show ?case by simp
qed simp

lemma sum_list_lower: "(\<forall>x\<in>set xs. k \<le> x) \<Longrightarrow> k * length xs \<le> sum_list (xs :: nat list)"
  by (induction xs) auto

lemma sum_list_all_ge_eq:
  assumes "\<forall>x\<in>set xs. k \<le> x" and "sum_list xs = k * length xs"
  shows "\<forall>x\<in>set xs. x = (k :: nat)"
  using assms
proof (induction xs)
  case (Cons x xs)
  have "k * length xs \<le> sum_list xs" using Cons.prems(1) by (simp add: sum_list_lower)
  with Cons.prems have "x = k" and "sum_list xs = k * length xs" by auto
  with Cons show ?case by simp
qed simp

text \<open>The comma count of rule 1 together with a lower bound on every entry's arity
  pins every entry to exactly fourteen fields.\<close>

lemma entries_exact_arity:
  assumes fmt: "entry_format_ok s" and long: "\<forall>e\<in>set (entries_of s). 13 < length (fields_of e)"
  shows "\<forall>e\<in>set (entries_of s). length (fields_of e) = 14"
proof -
  let ?cs = "map (py_count CHR '','') (entries_of s)"
  from fmt have "py_count CHR '','' s = 13 * Suc (py_count CHR '';'' s)"
    by (auto simp: entry_format_ok_def Let_def)
  then have "sum_list ?cs = 13 * length ?cs"
    by (simp add: sum_commas_entries length_entries_of)
  moreover have "\<forall>x\<in>set ?cs. 13 \<le> x"
    using long by (auto simp: length_fields_of)
  ultimately have "\<forall>x\<in>set ?cs. x = 13" by (rule sum_list_all_ge_eq [rotated])
  then show ?thesis by (auto simp: length_fields_of)
qed

text \<open>C5: the two-branch boolean of \<open>test_valid_entry_format\<close> (with Python's
  precedence, \<open>and\<close> before \<open>or\<close>) accepts exactly the strings whose comma count
  is thirteen times the number of entries.\<close>

theorem entry_format_ok_iff:
  "entry_format_ok s \<longleftrightarrow> py_count CHR '','' s = 13 * (py_count CHR '';'' s + 1)"
  by (auto simp: entry_format_ok_def Let_def)

end
