(* ===== verification/Text_Adapter.thy ===== *)
theory Text_Adapter
  imports Schedule_Schema
begin

text \<open>
  The text adapter, the generation client and the candidate assembler of
  src/clean-hours/server/normalizeHours.py: \<open>preprocess_string\<close>,
  \<open>postprocess_string\<close>, \<open>call_oai\<close> and \<open>format_input_string\<close>, which builds the
  response dictionary \<open>{"base", "formatted", "isValid"}\<close> (the record
  \<open>response\<close>). The external completion service is an \<open>generator\<close>: a function of
  the call's position in the run and of the prompt, returning the completion text or
  an exception (\<open>UpstreamError\<close> for any failure of the service). Every property
  below holds for every generator, so nothing is assumed of the model's answers; the
  position argument lets two calls with the same prompt answer differently, as a
  sampling model does. The fixed delay after each call (\<open>time.sleep(0.05)\<close>) has no
  effect on values and is not modelled.
\<close>

type_synonym generator = "nat \<Rightarrow> string \<Rightarrow> string py"

record response =
  base :: string
  formatted :: string
  isValid :: bool

text \<open>Reading a string-valued key of the response dictionary; the only other key,
  \<open>isValid\<close>, holds a bool and is read as the field.\<close>

definition response_get :: "response \<Rightarrow> string \<Rightarrow> string py" where
  "response_get r k =
     (if k = ''base'' then Inr (base r)
      else if k = ''formatted'' then Inr (formatted r)
      else Inl KeyError)"

definition call_oai :: "generator \<Rightarrow> nat \<Rightarrow> string \<Rightarrow> string py" where
  "call_oai gen n prompt = gen n prompt"

definition postprocess_string :: "string \<Rightarrow> string py" where
  "postprocess_string s =
     (let c = fields_of s in
      py_bind (py_and (py_and (py_bind (py_nth c 7) (\<lambda>f7. Inr (f7 \<noteq> [])))
                              (Inr (concat (take 7 c) = [])))
                      (Inr (concat (drop 8 c) = [])))
        (\<lambda>cond1. py_bind (if cond1 then py_list_set c 10 CFI else Inr c)
        (\<lambda>c1. py_bind (py_field_eq c1 7 ''For information'')
        (\<lambda>cond2. py_bind (if cond2 then py_list_set c1 7 CFI else Inr c1)
        (\<lambda>c2. Inr (py_join CHR '','' c2))))))"

definition preprocess_string :: "string \<Rightarrow> string" where
  "preprocess_string s = py_replace CHR ''/'' '', '' (py_strip s)"

text \<open>\<open>map(lambda x: postprocess_string(call_oai(preprocess_string(x))), split_value)\<close>
  consumed by \<open>";".join\<close>: one call per clause, in order, the first exception
  propagating. The argument \<open>n\<close> counts the calls made so far.\<close>

fun format_clauses :: "generator \<Rightarrow> nat \<Rightarrow> string list \<Rightarrow> string list py" where
  "format_clauses gen n [] = Inr []"
| "format_clauses gen n (x # xs) =
     py_bind (call_oai gen n (preprocess_string x)) (\<lambda>raw.
     py_bind (postprocess_string raw) (\<lambda>y.
     py_bind (format_clauses gen (Suc n) xs) (\<lambda>ys. Inr (y # ys))))"

text \<open>The statement \<open>case.replace("/", ", ")\<close> discards its result and has no effect.\<close>

definition format_input_string :: "generator \<Rightarrow> string \<Rightarrow> response py" where
  "format_input_string gen s =
     py_bind (format_clauses gen 0 (py_split CHR '';'' s)) (\<lambda>ys.
       Inr \<lparr>base = s, formatted = py_join CHR '';'' ys, isValid = True\<rparr>)"

section \<open>Lemmas\<close>

lemma fields_of_join:
  "c \<noteq> [] \<Longrightarrow> (\<forall>w\<in>set c. CHR '','' \<notin> set w) \<Longrightarrow> fields_of (py_join CHR '','' c) = c"
  by (simp add: fields_of_def py_split_join)

lemma fields_of_no_comma: "w \<in> set (fields_of s) \<Longrightarrow> CHR '','' \<notin> set w"
  by (simp add: fields_of_def py_split_no_sep)

lemma cond_list_set_Inr:
  assumes "(if b then py_list_set c i v else Inr c) = Inr c1"
  shows "length c1 = length c \<and> (\<forall>j. j \<noteq> i \<longrightarrow> c1 ! j = c ! j) \<and> set c1 \<subseteq> insert v (set c)"
proof (cases b)
  case True
  with assms have "i < length c" and "c1 = c[i := v]"
    by (auto simp: py_list_set_def split: if_splits)
  then show ?thesis using set_update_subset_insert [of c i v] by auto
qed (use assms in auto)

text \<open>The shape of a successful postprocessing: the fields of the input with at most
  fields 10 and 7 overwritten, rejoined.\<close>

lemma postprocess_string_Inr:
  assumes "postprocess_string s = Inr t"
  shows "\<exists>c2. t = py_join CHR '','' c2 \<and> length c2 = length (fields_of s) \<and>
            (\<forall>w\<in>set c2. CHR '','' \<notin> set w) \<and>
            (\<forall>i. i \<noteq> 7 \<and> i \<noteq> 10 \<longrightarrow> c2 ! i = fields_of s ! i)"
proof -
  let ?c = "fields_of s"
  from assms obtain cond1 c1 cond2 c2 where
    s1: "(if cond1 then py_list_set ?c 10 CFI else Inr ?c) = Inr c1" and
    s2: "(if cond2 then py_list_set c1 7 CFI else Inr c1) = Inr c2" and
    t: "t = py_join CHR '','' c2"
    unfolding postprocess_string_def Let_def by (auto simp: py_bind_Inr_iff)
  have nc: "\<forall>w\<in>set ?c. CHR '','' \<notin> set w" by (simp add: fields_of_no_comma)
  note e1 = cond_list_set_Inr [OF s1] and e2 = cond_list_set_Inr [OF s2]
  have "set c2 \<subseteq> insert CFI (set ?c)" using e1 e2 by blast
  moreover have "CHR '','' \<notin> set CFI" by simp
  ultimately have "\<forall>w\<in>set c2. CHR '','' \<notin> set w" using nc by blast
  with e1 e2 t show ?thesis by auto
qed

lemma format_input_string_Inr:
  "format_input_string gen s = Inr r \<Longrightarrow>
     base r = s \<and> isValid r \<and>
     (\<exists>ys. formatted r = py_join CHR '';'' ys \<and> format_clauses gen 0 (py_split CHR '';'' s) = Inr ys)"
  by (auto simp: format_input_string_def py_bind_def split: sum.splits)

text \<open>C6: \<open>postprocess_string\<close> is not total, as the design says the text adapter is:
  a generated clause with fewer than eight comma-separated fields makes it raise
  \<open>IndexError\<close> at \<open>case[7]\<close>, which \<open>normalize_input_string\<close> passes to its caller.\<close>

theorem postprocess_string_short_raises:
  assumes "length (fields_of s) < 8"
  shows "postprocess_string s = Inl IndexError"
  using assms by (simp add: postprocess_string_def Let_def py_nth_def)

theorem postprocess_string_short_raises_witness:
  "length (fields_of ''Monday,9:00'') < 8 \<and> postprocess_string ''Monday,9:00'' = Inl IndexError"
proof -
  have h: "length (fields_of ''Monday,9:00'') < 8" by code_simp
  show ?thesis using h postprocess_string_short_raises [OF h] by simp
qed

text \<open>C7: a generated clause that signals "no regular hours" only through field 7 (all
  other fields empty) gets hour type Call for Information in field 10.\<close>

theorem postprocess_string_info_marker:
  assumes "10 < length (fields_of s)" and "fields_of s ! 7 \<noteq> []"
    and "\<forall>i<length (fields_of s). i \<noteq> 7 \<longrightarrow> fields_of s ! i = []"
  shows "\<exists>t. postprocess_string s = Inr t \<and> fields_of t ! 10 = CFI"
proof -
  let ?c = "fields_of s"
  have t7: "concat (take 7 ?c) = []"
    using assms(3) by (auto simp: in_set_conv_nth)
  have d8: "concat (drop 8 ?c) = []"
    using assms(3) by (auto simp: in_set_conv_nth)
  let ?c1 = "?c[10 := CFI]"
  let ?c2 = "if ?c1 ! 7 = ''For information'' then ?c1[7 := CFI] else ?c1"
  have pp: "postprocess_string s = Inr (py_join CHR '','' ?c2)"
    using assms(1,2) t7 d8
    by (simp add: postprocess_string_def Let_def py_nth_def py_list_set_def py_field_eq_def)
  have sub: "set ?c2 \<subseteq> insert CFI (set ?c)"
    using set_update_subset_insert [of ?c 10 CFI] set_update_subset_insert [of ?c1 7 CFI] by auto
  have "CHR '','' \<notin> set CFI" by simp
  then have nc: "\<forall>w\<in>set ?c2. CHR '','' \<notin> set w"
    using sub fields_of_no_comma [of _ s] by blast
  have ne: "?c2 \<noteq> []" using assms(1) by auto
  have "fields_of (py_join CHR '','' ?c2) ! 10 = CFI"
    using fields_of_join [OF ne nc] assms(1) by simp
  with pp show ?thesis by blast
qed

theorem postprocess_string_info_marker_witness:
  "10 < length (fields_of '',,,,,,,For information,,,,,,'') \<and>
   fields_of '',,,,,,,For information,,,,,,'' ! 7 \<noteq> [] \<and>
   postprocess_string '',,,,,,,For information,,,,,,'' = Inr '',,,,,,,Call for Information,,,Call for Information,,,''"
proof -
  have a: "10 < length (fields_of '',,,,,,,For information,,,,,,'')" by code_simp
  have b: "fields_of '',,,,,,,For information,,,,,,'' ! 7 \<noteq> []" by code_simp
  have c: "\<forall>i<length (fields_of '',,,,,,,For information,,,,,,''). i \<noteq> 7 \<longrightarrow> fields_of '',,,,,,,For information,,,,,,'' ! i = []"
    by code_simp
  have d: "postprocess_string '',,,,,,,For information,,,,,,'' = Inr '',,,,,,,Call for Information,,,Call for Information,,,''"
    by code_simp
  from postprocess_string_info_marker [OF a b c] a b c d show ?thesis by simp
qed

text \<open>C19: the correction of the adapter fires only when field 10 is empty too:
  \<open>"".join(case[8:])\<close> includes field 10. A clause whose only other non-empty field
  is an hour type keeps that type, although the design asks for Call for Information
  whenever field 7 is the only non-empty field besides field 10.\<close>

theorem postprocess_keeps_typed_marker:
  assumes "length c = 14" and "\<forall>w\<in>set c. CHR '','' \<notin> set w"
    and "c ! 7 \<noteq> []" and "c ! 7 \<noteq> ''For information''" and "c ! 10 \<noteq> []"
  shows "postprocess_string (py_join CHR '','' c) = Inr (py_join CHR '','' c)"
proof -
  from assms(1,2) have f: "fields_of (py_join CHR '','' c) = c" by (intro fields_of_join) auto
  from assms(1) have "drop 8 c ! 2 = c ! 10" and "2 < length (drop 8 c)" by simp_all
  then have "c ! 10 \<in> set (drop 8 c)" by (metis nth_mem)
  with assms(5) have nd: "concat (drop 8 c) \<noteq> []" by auto
  with f assms(1,4) show ?thesis
    by (simp add: postprocess_string_def Let_def py_nth_def py_field_eq_def del: concat_eq_Nil_conv)
qed

theorem postprocess_keeps_typed_marker_witness:
  "postprocess_string '',,,,,,,Closed,,,Weekly,,,'' = Inr '',,,,,,,Closed,,,Weekly,,,''"
proof -
  have j: "py_join CHR '','' (fields_of '',,,,,,,Closed,,,Weekly,,,'') = '',,,,,,,Closed,,,Weekly,,,''" by code_simp
  have "length (fields_of '',,,,,,,Closed,,,Weekly,,,'') = 14" by code_simp
  moreover have "\<forall>w\<in>set (fields_of '',,,,,,,Closed,,,Weekly,,,''). CHR '','' \<notin> set w" by code_simp
  moreover have "fields_of '',,,,,,,Closed,,,Weekly,,,'' ! 7 \<noteq> []" by code_simp
  moreover have "fields_of '',,,,,,,Closed,,,Weekly,,,'' ! 7 \<noteq> ''For information''" by code_simp
  moreover have "fields_of '',,,,,,,Closed,,,Weekly,,,'' ! 10 \<noteq> []" by code_simp
  ultimately show ?thesis using postprocess_keeps_typed_marker [of "fields_of '',,,,,,,Closed,,,Weekly,,,''"] j
    by simp
qed

end
