(* ===== verification/Time_Format.thy ===== *)
theory Time_Format
  imports Prelude
begin

text \<open>
  The two readings of an open or close time that the validation rules use.
  \<^item> \<open>time_regex_search\<close>: \<open>re.search\<close> with the pattern
    \<^verbatim>\<open>^([01]?[0-9]|2[0-3]):[0-5][0-9]$\<close> of \<open>test_valid_open_closed_hours\<close>
    (src/clean-hours/server/normalizeHours.py and src/clean_hours.py). Without the
    MULTILINE flag \<open>^\<close> matches only at the start, and \<open>$\<close> matches at the end or
    just before a final line feed.
  \<^item> \<open>strptime_hm\<close>: \<open>datetime.strptime(s, "%H:%M")\<close> of
    \<open>test_close_hour_greater_than_open_hour\<close>. CPython compiles the format to
    \<^verbatim>\<open>(?P<H>2[0-3]|[0-1]\d|\d):(?P<M>[0-5]\d|\d)\<close>, applies \<open>re.match\<close> and
    raises \<open>ValueError\<close> when there is no match or unconverted data remains. The parser
    below takes the alternatives in the regex's order; backtracking into an earlier
    alternative can never succeed here (a failed \<open>:\<close> after two digits leaves a digit
    where the shorter alternative needs the colon), so the first alternative that
    matches decides, as in \<open>re.match\<close>. Unicode digits, which \<open>\d\<close> also accepts,
    are not modelled.
  The results are compared as \<open>datetime\<close> values of the same day: lexicographically
  on hour and minute.
\<close>

section \<open>The regular expression of rule 3\<close>

definition re_hour :: "string \<Rightarrow> bool" where
  "re_hour h = (case h of
      [d] \<Rightarrow> is_ascii_digit d
    | [a, b] \<Rightarrow> (a \<in> set ''01'' \<and> is_ascii_digit b) \<or> (a = CHR ''2'' \<and> b \<in> set ''0123'')
    | _ \<Rightarrow> False)"

definition re_minute :: "string \<Rightarrow> bool" where
  "re_minute m = (case m of [a, b] \<Rightarrow> a \<in> set ''012345'' \<and> is_ascii_digit b | _ \<Rightarrow> False)"

fun time_body :: "string \<Rightarrow> bool" where
  "time_body [h, c, m1, m2] = (c = CHR '':'' \<and> re_hour [h] \<and> re_minute [m1, m2])"
| "time_body [h1, h2, c, m1, m2] = (c = CHR '':'' \<and> re_hour [h1, h2] \<and> re_minute [m1, m2])"
| "time_body _ = False"

definition time_regex_search :: "string \<Rightarrow> bool" where
  "time_regex_search s =
     (time_body s \<or> (s \<noteq> [] \<and> last s = CHR ''\<newline>'' \<and> time_body (butlast s)))"

section \<open>strptime with format %H:%M\<close>

fun parse_H :: "string \<Rightarrow> (nat \<times> string) option" where
  "parse_H (a # b # rest) =
     (if a = CHR ''2'' \<and> b \<in> set ''0123'' then Some (20 + digit_value b, rest)
      else if a \<in> set ''01'' \<and> is_ascii_digit b then Some (10 * digit_value a + digit_value b, rest)
      else if is_ascii_digit a then Some (digit_value a, b # rest)
      else None)"
| "parse_H [a] = (if is_ascii_digit a then Some (digit_value a, []) else None)"
| "parse_H [] = None"

fun parse_M :: "string \<Rightarrow> (nat \<times> string) option" where
  "parse_M (a # b # rest) =
     (if a \<in> set ''012345'' \<and> is_ascii_digit b then Some (10 * digit_value a + digit_value b, rest)
      else if is_ascii_digit a then Some (digit_value a, b # rest)
      else None)"
| "parse_M [a] = (if is_ascii_digit a then Some (digit_value a, []) else None)"
| "parse_M [] = None"

definition strptime_hm :: "string \<Rightarrow> (nat \<times> nat) py" where
  "strptime_hm s =
     (case parse_H s of
        None \<Rightarrow> Inl ValueError
      | Some (h, r) \<Rightarrow>
          (case r of
             c # r' \<Rightarrow>
               (if c = CHR '':'' then
                  (case parse_M r' of
                     None \<Rightarrow> Inl ValueError
                   | Some (m, r'') \<Rightarrow> (if r'' = [] then Inr (h, m) else Inl ValueError))
                else Inl ValueError)
           | [] \<Rightarrow> Inl ValueError))"

text \<open>\<open>datetime\<close> comparison of two times of the same day.\<close>

fun time_gt :: "nat \<times> nat \<Rightarrow> nat \<times> nat \<Rightarrow> bool" where
  "time_gt (h2, m2) (h1, m1) = (h1 < h2 \<or> (h1 = h2 \<and> m1 < m2))"

section \<open>Lemmas\<close>

text \<open>C9: every time that the regular expression of rule 3 accepts without a trailing
  line feed is also parsed by \<open>strptime\<close> in rule 4.\<close>

theorem time_regex_strptime:
  assumes "time_body s"
  shows "\<exists>h m. strptime_hm s = Inr (h, m)"
  using assms
  by (cases s rule: time_body.cases)
     (auto simp: strptime_hm_def re_hour_def re_minute_def is_ascii_digit_def split: list.splits)

theorem time_regex_strptime_witness: "time_body ''09:30'' \<and> strptime_hm ''09:30'' = Inr (9, 30)"
proof -
  have b: "time_body ''09:30''" by code_simp
  obtain h m where "strptime_hm ''09:30'' = Inr (h, m)" using time_regex_strptime [OF b] by blast
  moreover have "strptime_hm ''09:30'' = Inr (9, 30)" by code_simp
  ultimately show ?thesis using b by simp
qed



end
