(* ===== verification/Server_Rules.thy ===== *)
theory Server_Rules
  imports Text_Adapter Time_Format
begin

text \<open>
  The ten validation rules of src/clean-hours/server/normalizeHours.py (the
  \<open>test_*\<close> functions, lines 86 to 261). Each takes the response record and returns
  it with \<open>isValid\<close> possibly lowered, or raises. Every rule returns at once when
  \<open>isValid\<close> is already false. Eight rules share one shape (\<open>run_entry_rule\<close>):
  split \<open>formatted\<close> on \<open>;\<close>, split each entry on \<open>,\<close>, thread a local
  \<open>is_valid\<close> through the entries, then AND it into the response; their per-entry
  bodies are \<open>*_step\<close> functions. \<open>test_valid_day_of_week\<close> writes the response flag
  inside its loop, \<open>test_valid_open_closed_hours\<close> writes it after each entry and
  skips Call-for-Information entries with a \<open>continue\<close> that sits outside its
  \<open>try\<close>, and \<open>test_valid_entry_format\<close> only counts separators; these three are
  written out on their own.
\<close>

section \<open>The common loop\<close>

definition run_entry_rule :: "(string list \<Rightarrow> bool \<Rightarrow> bool py) \<Rightarrow> response \<Rightarrow> response py" where
  "run_entry_rule step r =
     (if \<not> isValid r then Inr r
      else py_bind (py_fold (\<lambda>e acc. step (fields_of e) acc) (entries_of (formatted r)) True)
             (\<lambda>ok. Inr (r\<lparr>isValid := isValid r \<and> ok\<rparr>)))"

section \<open>Rules 5 and 6: day-of-month and week-of-month ordinals\<close>

text \<open>\<open>any(x.lower() in response["original"].lower() for x in INT_TO_DAY_OF_MONTH[f])\<close>.
  The dictionary lookup happens when the generator is created; each element then
  reads \<open>response["original"]\<close>.\<close>

definition ordinal_in_original :: "response \<Rightarrow> string \<Rightarrow> bool py" where
  "ordinal_in_original r f =
     py_bind (dict_get INT_TO_DAY_OF_MONTH f) (\<lambda>ords.
       py_any (\<lambda>x. py_bind (response_get r ''original'') (\<lambda>orig.
                    Inr (py_contains (py_lower x) (py_lower orig)))) ords)"

text \<open>The body of the \<open>try\<close> of both ordinal rules: the hour-type label, the index
  \<open>k\<close> of the ordinal field and the index \<open>other\<close> of the field that must be empty
  (9 and 8 for Day of Month, 8 and 9 for Week of Month).\<close>

definition ordinal_body :: "response \<Rightarrow> string \<Rightarrow> nat \<Rightarrow> nat \<Rightarrow> string list \<Rightarrow> bool \<Rightarrow> bool py" where
  "ordinal_body r label k other v acc =
     py_bind (py_field_eq v 10 label) (\<lambda>hit.
       if \<not> hit then Inr acc
       else py_bind (py_and (py_and (py_bind (py_nth v k) (\<lambda>f. Inr (py_isdigit f)))
                                    (py_field_eq v other []))
                            (Inr acc)) (\<lambda>acc1.
            py_and (py_or (py_bind (py_nth v k) (ordinal_in_original r)) (py_field_eq v k []))
                   (Inr acc1)))"

definition test_day_of_month_formatting :: "response \<Rightarrow> response py" where
  "test_day_of_month_formatting r =
     run_entry_rule (\<lambda>v acc. Inr (py_catch_false (ordinal_body r ''Day of Month'' 9 8 v acc))) r"

definition test_week_of_month_formatting :: "response \<Rightarrow> response py" where
  "test_week_of_month_formatting r =
     run_entry_rule (\<lambda>v acc. Inr (py_catch_false (ordinal_body r ''Week of Month'' 8 9 v acc))) r"

section \<open>Rule 7: Weekly and Every Other Week\<close>

definition weekly_step :: "string list \<Rightarrow> bool \<Rightarrow> bool py" where
  "weekly_step v acc =
     Inr (py_catch_false
       (py_bind (py_or (py_field_eq v 10 ''Weekly'') (py_field_eq v 10 ''Every Other Week'')) (\<lambda>w.
          if w then py_and (py_and (py_field_eq v 8 []) (py_field_eq v 9 [])) (Inr acc)
          else Inr acc)))"

definition test_weekly_formatting :: "response \<Rightarrow> response py" where
  "test_weekly_formatting r = run_entry_rule weekly_step r"

section \<open>Rule 8: Call for Information\<close>

definition cfi_step :: "string list \<Rightarrow> bool \<Rightarrow> bool py" where
  "cfi_step v acc =
     Inr (py_catch_false
       (py_bind (py_field_eq v 10 CFI) (\<lambda>c.
          if c then py_and (py_and (py_and (Inr (length (concat (take 7 v)) = 0))
                                           (Inr (length (concat (take 2 (drop 8 v))) = 0)))
                                   (Inr (length (concat (drop 11 v)) = 0)))
                           (Inr acc)
          else Inr acc)))"

definition test_call_for_information_formatting :: "response \<Rightarrow> response py" where
  "test_call_for_information_formatting r = run_entry_rule cfi_step r"

section \<open>Rule 9: reserved fields empty\<close>

definition reserved_fields :: "nat list" where
  "reserved_fields = [3, 4, 5, 6, 11, 12, 13]"

definition null_step :: "string list \<Rightarrow> bool \<Rightarrow> bool py" where
  "null_step v acc = Inr (py_catch_false (py_and (fields_empty v reserved_fields) (Inr acc)))"

definition test_all_null_values_empty_string :: "response \<Rightarrow> response py" where
  "test_all_null_values_empty_string r = run_entry_rule null_step r"

section \<open>Rule 10: hour-type membership\<close>

definition hour_types_step :: "string list \<Rightarrow> bool \<Rightarrow> bool py" where
  "hour_types_step v acc =
     Inr (py_catch_false (py_and (py_bind (py_nth v 10) (\<lambda>f. Inr (f \<in> set HOUR_TYPES))) (Inr acc)))"

definition test_valid_hour_types :: "response \<Rightarrow> response py" where
  "test_valid_hour_types r = run_entry_rule hour_types_step r"

section \<open>Rule 4: close after open\<close>

text \<open>\<open>strptime(value[2]) > strptime(value[1])\<close>, evaluated left to right.\<close>

definition close_body :: "string list \<Rightarrow> bool \<Rightarrow> bool py" where
  "close_body v acc =
     py_bind (py_nth v 2) (\<lambda>f2. py_bind (strptime_hm f2) (\<lambda>t2.
     py_bind (py_nth v 1) (\<lambda>f1. py_bind (strptime_hm f1) (\<lambda>t1.
     py_and (Inr (time_gt t2 t1)) (Inr acc)))))"

text \<open>\<open>except ValueError:\<close> reads \<open>value[10]\<close> outside any handler of its own, so an
  \<open>IndexError\<close> there escapes the rule; \<open>except:\<close> catches the rest.\<close>

definition close_step :: "string list \<Rightarrow> bool \<Rightarrow> bool py" where
  "close_step v acc =
     (case close_body v acc of
        Inr b \<Rightarrow> Inr b
      | Inl ValueError \<Rightarrow> py_and (py_field_eq v 10 CFI) (Inr acc)
      | Inl _ \<Rightarrow> Inr False)"

definition test_close_hour_greater_than_open_hour :: "response \<Rightarrow> response py" where
  "test_close_hour_greater_than_open_hour r = run_entry_rule close_step r"

section \<open>Rule 2: day of week\<close>

text \<open>\<open>response["isValid"] = value[0] in DAYS_OF_WEEK or (value[0] == "" and
  value[10] == "Call for Information") and response["isValid"]\<close>: \<open>and\<close> binds
  tighter than \<open>or\<close>, and the flag is overwritten for every entry.\<close>

definition day_of_week_step :: "string list \<Rightarrow> bool \<Rightarrow> bool" where
  "day_of_week_step v flag =
     py_catch_false
       (py_or (py_bind (py_nth v 0) (\<lambda>f0. Inr (f0 \<in> set DAYS_OF_WEEK)))
              (py_and (py_and (py_field_eq v 0 []) (py_field_eq v 10 CFI)) (Inr flag)))"

definition test_valid_day_of_week :: "response \<Rightarrow> response py" where
  "test_valid_day_of_week r =
     (if \<not> isValid r then Inr r
      else Inr (r\<lparr>isValid := fold (\<lambda>e flag. day_of_week_step (fields_of e) flag)
                                   (entries_of (formatted r)) (isValid r)\<rparr>))"

section \<open>Rule 3: time syntax\<close>

definition open_closed_body :: "string list \<Rightarrow> bool \<Rightarrow> bool py" where
  "open_closed_body v acc =
     py_bind (py_nth v 1) (\<lambda>f1. py_bind (py_nth v 2) (\<lambda>f2.
       py_and (py_and (Inr (time_regex_search f1 \<or> f1 = [])) (Inr (time_regex_search f2 \<or> f2 = [])))
              (Inr acc)))"

text \<open>The loop state is the local \<open>is_valid\<close> and the response flag.\<close>

definition open_closed_step :: "string list \<Rightarrow> bool \<times> bool \<Rightarrow> (bool \<times> bool) py" where
  "open_closed_step v st =
     (case st of (acc, flag) \<Rightarrow>
        py_bind (py_field_eq v 10 CFI) (\<lambda>skip.
          if skip then Inr (acc, flag)
          else (let acc' = py_catch_false (open_closed_body v acc) in Inr (acc', flag \<and> acc'))))"

definition test_valid_open_closed_hours :: "response \<Rightarrow> response py" where
  "test_valid_open_closed_hours r =
     (if \<not> isValid r then Inr r
      else py_bind (py_fold (\<lambda>e st. open_closed_step (fields_of e) st)
                            (entries_of (formatted r)) (True, isValid r))
             (\<lambda>st. Inr (r\<lparr>isValid := snd st\<rparr>)))"

section \<open>Rule 1: entry format\<close>

definition test_valid_entry_format :: "response \<Rightarrow> response py" where
  "test_valid_entry_format r =
     (if \<not> isValid r then Inr r
      else Inr (r\<lparr>isValid := isValid r \<and> entry_format_ok (formatted r)\<rparr>))"

section \<open>What each rule decides\<close>

text \<open>Per-entry predicates for the two rules whose verdict depends on parsing.\<close>

definition close_ok :: "string list \<Rightarrow> bool" where
  "close_ok v =
     (case (strptime_hm (v ! 2), strptime_hm (v ! 1)) of
        (Inr t2, Inr t1) \<Rightarrow> time_gt t2 t1
      | _ \<Rightarrow> v ! 10 = CFI)"

definition time_syntax_ok :: "string list \<Rightarrow> bool" where
  "time_syntax_ok v =
     ((time_regex_search (v ! 1) \<or> v ! 1 = []) \<and> (time_regex_search (v ! 2) \<or> v ! 2 = []))"

text \<open>All entries long enough to have an hour-type field.\<close>

definition entries_have_type :: "string \<Rightarrow> bool" where
  "entries_have_type s = (\<forall>e\<in>set (entries_of s). 10 < length (fields_of e))"

section \<open>Lemmas\<close>

lemma py_fold_conj:
  assumes "\<And>e acc. e \<in> set es \<Longrightarrow> step (fields_of e) acc = Inr (acc \<and> g (fields_of e))"
  shows "py_fold (\<lambda>e acc. step (fields_of e) acc) es acc = Inr (acc \<and> (\<forall>e\<in>set es. g (fields_of e)))"
  using assms by (induction es arbitrary: acc) auto

lemma run_entry_rule_conj:
  assumes "\<And>e acc. e \<in> set (entries_of (formatted r)) \<Longrightarrow>
             step (fields_of e) acc = Inr (acc \<and> g (fields_of e))"
  shows "run_entry_rule step r =
           Inr (r\<lparr>isValid := isValid r \<and> (\<forall>e\<in>set (entries_of (formatted r)). g (fields_of e))\<rparr>)"
proof -
  have "py_fold (\<lambda>e acc. step (fields_of e) acc) (entries_of (formatted r)) True =
          Inr (\<forall>e\<in>set (entries_of (formatted r)). g (fields_of e))"
    using py_fold_conj [of "entries_of (formatted r)" step g] assms by simp
  then show ?thesis by (simp add: run_entry_rule_def)
qed

lemma weekly_step_conj:
  "weekly_step v acc = Inr (acc \<and> 10 < length v \<and>
     (v ! 10 = ''Weekly'' \<or> v ! 10 = ''Every Other Week'' \<longrightarrow> v ! 8 = [] \<and> v ! 9 = []))"
  by (cases "10 < length v") (auto simp: weekly_step_def py_field_eq_def py_nth_def py_or_def py_and_def)

lemma cfi_step_conj:
  "cfi_step v acc = Inr (acc \<and> 10 < length v \<and>
     (v ! 10 = CFI \<longrightarrow> concat (take 7 v) = [] \<and> concat (take 2 (drop 8 v)) = [] \<and> concat (drop 11 v) = []))"
  by (cases "10 < length v") (auto simp: cfi_step_def py_field_eq_def py_nth_def py_and_def)

lemma null_step_conj:
  "null_step v acc = Inr (acc \<and> (\<forall>i\<in>set reserved_fields. i < length v \<and> v ! i = []))"
proof -
  have "py_catch_false (py_and (fields_empty v reserved_fields) (Inr acc)) =
          (acc \<and> fields_empty v reserved_fields = Inr True)"
    by (cases "fields_empty v reserved_fields") (auto simp: py_and_def)
  then show ?thesis by (simp add: null_step_def fields_empty_Inr_iff)
qed

lemma hour_types_step_conj:
  "hour_types_step v acc = Inr (acc \<and> 10 < length v \<and> v ! 10 \<in> set HOUR_TYPES)"
  by (cases "10 < length v") (auto simp: hour_types_step_def py_nth_def py_and_def)

lemma day_of_week_step_eq:
  "v \<noteq> [] \<Longrightarrow> day_of_week_step v flag =
     (v ! 0 \<in> set DAYS_OF_WEEK \<or> (v ! 0 = [] \<and> 10 < length v \<and> v ! 10 = CFI \<and> flag))"
  by (cases "10 < length v") (auto simp: day_of_week_step_def py_field_eq_def py_nth_def py_or_def py_and_def)

lemma close_step_conj:
  "10 < length v \<Longrightarrow> close_step v acc = Inr (acc \<and>
     (case (strptime_hm (v ! 2), strptime_hm (v ! 1)) of
        (Inr t2, Inr t1) \<Rightarrow> time_gt t2 t1
      | _ \<Rightarrow> v ! 10 = CFI))"
  by (auto simp: close_step_def close_body_def py_field_eq_def py_nth_def py_and_def strptime_hm_def
           split: sum.splits option.splits list.splits prod.splits)


lemma response_get_original [simp]: "response_get r ''original'' = Inl KeyError"
  by (simp add: response_get_def)

lemma py_any_raising: "(\<And>x. p x = Inl e) \<Longrightarrow> py_any p xs = Inr b \<Longrightarrow> xs = [] \<and> \<not> b"
  by (cases xs) auto

lemma dict_get_ordinals_Nil:
  "dict_get INT_TO_DAY_OF_MONTH f = Inr [] \<Longrightarrow> f = []"
  by (auto simp: INT_TO_DAY_OF_MONTH_def split: if_splits)

text \<open>The server reads a key the response does not have: a successful ordinal lookup
  happens only for the empty ordinal, and finds nothing.\<close>

lemma ordinal_in_original_Inr: "ordinal_in_original r f = Inr b \<Longrightarrow> f = [] \<and> \<not> b"
proof -
  assume a: "ordinal_in_original r f = Inr b"
  then obtain ords where d: "dict_get INT_TO_DAY_OF_MONTH f = Inr ords" and
    any: "py_any (\<lambda>x. py_bind (response_get r ''original'') (\<lambda>orig.
                 Inr (py_contains (py_lower x) (py_lower orig)))) ords = Inr b"
    by (auto simp: ordinal_in_original_def py_bind_Inr_iff)
  from py_any_raising [OF _ any] have "ords = [] \<and> \<not> b" by simp
  with d show ?thesis by (auto dest: dict_get_ordinals_Nil)
qed

lemma ordinal_check_fails:
  "\<not> py_catch_false (py_and (py_or (ordinal_in_original r f) (Inr (f = []))) (Inr (py_isdigit f \<and> c)))"
proof (cases "ordinal_in_original r f")
  case (Inr b)
  from ordinal_in_original_Inr [OF Inr] have "f = []" and "\<not> b" by auto
  with Inr show ?thesis by (simp add: py_isdigit_def)
qed simp

lemma ordinal_body_conj:
  assumes "k < 10" and "other < 10"
  shows "py_catch_false (ordinal_body r label k other v acc) = (acc \<and> 10 < length v \<and> v ! 10 \<noteq> label)"
proof (cases "10 < length v \<and> v ! 10 = label")
  case True
  have "py_and (py_and (Inr (py_isdigit (v ! k))) (py_field_eq v other [])) (Inr acc) =
          Inr (py_isdigit (v ! k) \<and> v ! other = [] \<and> acc)"
    using True assms by (simp add: py_field_eq_def py_nth_def)
  with True assms ordinal_check_fails [of r "v ! k" "v ! other = [] \<and> acc"] show ?thesis
    by (simp add: ordinal_body_def py_field_eq_def py_nth_def del: py_and_simps)
next
  case False
  then show ?thesis
    by (cases "10 < length v") (auto simp: ordinal_body_def py_field_eq_def py_nth_def)
qed

lemma open_closed_step_eq:
  "10 < length v \<Longrightarrow> open_closed_step v (acc, flag) =
     Inr (if v ! 10 = CFI then (acc, flag)
          else (let ok = acc \<and> (time_regex_search (v ! 1) \<or> v ! 1 = []) \<and>
                              (time_regex_search (v ! 2) \<or> v ! 2 = [])
                in (ok, flag \<and> ok)))"
  by (auto simp: open_closed_step_def open_closed_body_def py_field_eq_def py_nth_def py_and_def Let_def)


lemma test_week_of_month_formatting_eq:
  "test_week_of_month_formatting r =
     Inr (r\<lparr>isValid := isValid r \<and> (\<forall>e\<in>set (entries_of (formatted r)).
            10 < length (fields_of e) \<and> fields_of e ! 10 \<noteq> ''Week of Month'')\<rparr>)"
  unfolding test_week_of_month_formatting_def
  by (rule run_entry_rule_conj) (simp add: ordinal_body_conj)

lemma test_weekly_formatting_eq:
  "test_weekly_formatting r =
     Inr (r\<lparr>isValid := isValid r \<and> (\<forall>e\<in>set (entries_of (formatted r)).
            10 < length (fields_of e) \<and>
            (fields_of e ! 10 = ''Weekly'' \<or> fields_of e ! 10 = ''Every Other Week'' \<longrightarrow>
               fields_of e ! 8 = [] \<and> fields_of e ! 9 = []))\<rparr>)"
  unfolding test_weekly_formatting_def by (rule run_entry_rule_conj) (rule weekly_step_conj)

lemma test_call_for_information_formatting_eq:
  "test_call_for_information_formatting r =
     Inr (r\<lparr>isValid := isValid r \<and> (\<forall>e\<in>set (entries_of (formatted r)).
            10 < length (fields_of e) \<and>
            (fields_of e ! 10 = CFI \<longrightarrow> concat (take 7 (fields_of e)) = [] \<and>
               concat (take 2 (drop 8 (fields_of e))) = [] \<and> concat (drop 11 (fields_of e)) = []))\<rparr>)"
  unfolding test_call_for_information_formatting_def by (rule run_entry_rule_conj) (rule cfi_step_conj)

lemma test_all_null_values_empty_string_eq:
  "test_all_null_values_empty_string r =
     Inr (r\<lparr>isValid := isValid r \<and> (\<forall>e\<in>set (entries_of (formatted r)).
            \<forall>i\<in>set reserved_fields. i < length (fields_of e) \<and> fields_of e ! i = [])\<rparr>)"
  unfolding test_all_null_values_empty_string_def by (rule run_entry_rule_conj) (rule null_step_conj)

lemma test_valid_hour_types_eq:
  "test_valid_hour_types r =
     Inr (r\<lparr>isValid := isValid r \<and> (\<forall>e\<in>set (entries_of (formatted r)).
            10 < length (fields_of e) \<and> fields_of e ! 10 \<in> set HOUR_TYPES)\<rparr>)"
  unfolding test_valid_hour_types_def by (rule run_entry_rule_conj) (rule hour_types_step_conj)

lemma test_close_hour_eq:
  "entries_have_type (formatted r) \<Longrightarrow>
     test_close_hour_greater_than_open_hour r =
       Inr (r\<lparr>isValid := isValid r \<and> (\<forall>e\<in>set (entries_of (formatted r)). close_ok (fields_of e))\<rparr>)"
  unfolding test_close_hour_greater_than_open_hour_def entries_have_type_def
  by (rule run_entry_rule_conj) (simp add: close_step_conj close_ok_def)

lemma open_closed_fold:
  assumes "\<forall>e\<in>set es. 10 < length (fields_of e)"
  shows "py_fold (\<lambda>e st. open_closed_step (fields_of e) st) es (acc, acc) =
           Inr (let x = acc \<and> (\<forall>e\<in>set es. fields_of e ! 10 \<noteq> CFI \<longrightarrow> time_syntax_ok (fields_of e))
                in (x, x))"
  using assms
  by (induction es arbitrary: acc) (auto simp: open_closed_step_eq time_syntax_ok_def Let_def)

lemma test_valid_open_closed_hours_eq:
  "entries_have_type (formatted r) \<Longrightarrow>
     test_valid_open_closed_hours r =
       Inr (r\<lparr>isValid := isValid r \<and> (\<forall>e\<in>set (entries_of (formatted r)).
              fields_of e ! 10 \<noteq> CFI \<longrightarrow> time_syntax_ok (fields_of e))\<rparr>)"
  using open_closed_fold [of "entries_of (formatted r)" True]
  by (auto simp: test_valid_open_closed_hours_def entries_have_type_def Let_def)

lemma test_valid_entry_format_eq:
  "test_valid_entry_format r = Inr (r\<lparr>isValid := isValid r \<and> entry_format_ok (formatted r)\<rparr>)"
  by (simp add: test_valid_entry_format_def)

lemma test_day_of_month_formatting_eq:
  "test_day_of_month_formatting r =
     Inr (r\<lparr>isValid := isValid r \<and> (\<forall>e\<in>set (entries_of (formatted r)).
            10 < length (fields_of e) \<and> fields_of e ! 10 \<noteq> ''Day of Month'')\<rparr>)"
  unfolding test_day_of_month_formatting_def
  by (rule run_entry_rule_conj) (simp add: ordinal_body_conj)

lemma test_valid_day_of_week_flag:
  "test_valid_day_of_week r = Inr r' \<Longrightarrow> base r' = base r \<and> formatted r' = formatted r \<and>
     (isValid r' \<longrightarrow> isValid r)"
  by (auto simp: test_valid_day_of_week_def split: if_splits)

lemma close_step_Inl: "close_step v acc = Inl err \<Longrightarrow> err = IndexError"
  by (auto simp: close_step_def py_field_eq_def py_nth_def split: sum.splits exn.splits if_splits)

lemma close_step_short_raises:
  assumes "2 < length v" and "length v \<le> 10" and "strptime_hm (v ! 2) = Inl ValueError"
  shows "\<exists>err. close_step v acc = Inl err"
  using assms by (simp add: close_step_def close_body_def py_nth_def py_field_eq_def)

text \<open>C3: the day-of-month rule of the service rejects every candidate that has a
  Day-of-Month entry, whatever its ordinal and whatever the original text: the rule
  looks the original text up under the key \<open>"original"\<close>, which the response built
  by \<open>format_input_string\<close> does not have (it stores it under \<open>"base"\<close>), and the
  resulting \<open>KeyError\<close> is caught as a failure.\<close>

theorem day_of_month_entry_rejected:
  assumes "e \<in> set (entries_of (formatted r))" and "fields_of e ! 10 = ''Day of Month''"
    and "test_day_of_month_formatting r = Inr r'"
  shows "\<not> isValid r'"
  using assms by (auto simp: test_day_of_month_formatting_eq)

theorem day_of_month_entry_rejected_witness:
  "''Tuesday,09:00,10:00,,,,,,,3,Day of Month,,,'' \<in>
     set (entries_of ''Tuesday,09:00,10:00,,,,,,,3,Day of Month,,,'') \<and>
   fields_of ''Tuesday,09:00,10:00,,,,,,,3,Day of Month,,,'' ! 10 = ''Day of Month'' \<and>
   test_day_of_month_formatting
     \<lparr>base = ''3rd Tuesday, 9am-10am'', formatted = ''Tuesday,09:00,10:00,,,,,,,3,Day of Month,,,'',
      isValid = True\<rparr> =
   Inr \<lparr>base = ''3rd Tuesday, 9am-10am'', formatted = ''Tuesday,09:00,10:00,,,,,,,3,Day of Month,,,'',
      isValid = False\<rparr> \<and>
   \<not> isValid \<lparr>base = ''3rd Tuesday, 9am-10am'', formatted = ''Tuesday,09:00,10:00,,,,,,,3,Day of Month,,,'',
      isValid = False\<rparr>"
proof -
  have e: "''Tuesday,09:00,10:00,,,,,,,3,Day of Month,,,'' \<in>
     set (entries_of ''Tuesday,09:00,10:00,,,,,,,3,Day of Month,,,'')" by code_simp
  have f: "fields_of ''Tuesday,09:00,10:00,,,,,,,3,Day of Month,,,'' ! 10 = ''Day of Month''" by code_simp
  have t: "test_day_of_month_formatting
     \<lparr>base = ''3rd Tuesday, 9am-10am'', formatted = ''Tuesday,09:00,10:00,,,,,,,3,Day of Month,,,'',
      isValid = True\<rparr> =
   Inr \<lparr>base = ''3rd Tuesday, 9am-10am'', formatted = ''Tuesday,09:00,10:00,,,,,,,3,Day of Month,,,'',
      isValid = False\<rparr>" by code_simp
  from day_of_month_entry_rejected [of _ _ _, OF _ f t] e e f t show ?thesis by simp
qed

text \<open>C4: the day-of-week rule of the service overwrites the flag for every entry, so
  a valid weekday in the last entry makes the rule pass whatever the earlier entries
  hold: an entry with an unknown day (\<open>Mursday\<close>) is accepted when it is followed by
  one with a known day.\<close>

theorem day_of_week_masked_by_last:
  assumes "isValid r" and "entries_of (formatted r) = es @ [e]"
    and "fields_of e ! 0 \<in> set DAYS_OF_WEEK"
  shows "test_valid_day_of_week r = Inr r"
proof -
  have "fields_of e \<noteq> []" by simp
  with assms(3) have "day_of_week_step (fields_of e) flag" for flag
    by (simp add: day_of_week_step_eq)
  with assms show ?thesis by (simp add: test_valid_day_of_week_def)
qed

theorem day_of_week_masked_by_last_witness:
  "isValid \<lparr>base = ''x'', formatted = ''Mursday,09:00,10:00,,,,,,,,Weekly,,,;Monday,09:00,10:00,,,,,,,,Weekly,,,'',
            isValid = True\<rparr> \<and>
   entries_of ''Mursday,09:00,10:00,,,,,,,,Weekly,,,;Monday,09:00,10:00,,,,,,,,Weekly,,,'' =
     [''Mursday,09:00,10:00,,,,,,,,Weekly,,,''] @ [''Monday,09:00,10:00,,,,,,,,Weekly,,,''] \<and>
   fields_of ''Monday,09:00,10:00,,,,,,,,Weekly,,,'' ! 0 \<in> set DAYS_OF_WEEK \<and>
   ''Mursday'' \<notin> set DAYS_OF_WEEK \<and>
   test_valid_day_of_week
     \<lparr>base = ''x'', formatted = ''Mursday,09:00,10:00,,,,,,,,Weekly,,,;Monday,09:00,10:00,,,,,,,,Weekly,,,'',
      isValid = True\<rparr> =
   Inr \<lparr>base = ''x'', formatted = ''Mursday,09:00,10:00,,,,,,,,Weekly,,,;Monday,09:00,10:00,,,,,,,,Weekly,,,'',
      isValid = True\<rparr>"
proof -
  have s: "entries_of ''Mursday,09:00,10:00,,,,,,,,Weekly,,,;Monday,09:00,10:00,,,,,,,,Weekly,,,'' =
     [''Mursday,09:00,10:00,,,,,,,,Weekly,,,''] @ [''Monday,09:00,10:00,,,,,,,,Weekly,,,'']" by code_simp
  have d: "fields_of ''Monday,09:00,10:00,,,,,,,,Weekly,,,'' ! 0 \<in> set DAYS_OF_WEEK" by code_simp
  have m: "''Mursday'' \<notin> set DAYS_OF_WEEK" by (simp add: DAYS_OF_WEEK_def)
  have v: "isValid \<lparr>base = ''x'', formatted = ''Mursday,09:00,10:00,,,,,,,,Weekly,,,;Monday,09:00,10:00,,,,,,,,Weekly,,,'',
            isValid = True\<rparr>" by simp
  from day_of_week_masked_by_last [OF v _ d] s d m v show ?thesis by simp
qed

text \<open>C18: the open-before-close rule of the service is not total, as the design asks
  every rule to be: on a live response, an entry with three to ten fields whose close
  time \<open>strptime\<close> rejects sends the rule into its \<open>except ValueError\<close> handler, which
  reads \<open>value[10]\<close> and raises \<open>IndexError\<close> out of the rule. Only the order of the
  battery, which runs the day-of-month rule first, keeps this from the caller.\<close>

theorem close_rule_raises_on_short_entry:
  assumes "isValid r" and "e \<in> set (entries_of (formatted r))"
    and "2 < length (fields_of e)" and "length (fields_of e) \<le> 10"
    and "strptime_hm (fields_of e ! 2) = Inl ValueError"
  shows "test_close_hour_greater_than_open_hour r = Inl IndexError"
proof -
  have "py_fold (\<lambda>e acc. close_step (fields_of e) acc) (entries_of (formatted r)) True = Inl IndexError"
    by (rule py_fold_raises [OF _ assms(2)], erule close_step_Inl, rule close_step_short_raises [OF assms(3-5)])
  with assms(1) show ?thesis
    by (simp add: test_close_hour_greater_than_open_hour_def run_entry_rule_def)
qed

theorem close_rule_raises_on_short_entry_witness:
  "test_close_hour_greater_than_open_hour \<lparr>base = ''Mondays 9am to 5pm'', formatted = ''Monday,9am,5pm'', isValid = True\<rparr> =
     Inl IndexError"
proof -
  have e: "''Monday,9am,5pm'' \<in> set (entries_of ''Monday,9am,5pm'')" by code_simp
  have l: "2 < length (fields_of ''Monday,9am,5pm'')" "length (fields_of ''Monday,9am,5pm'') \<le> 10" by code_simp+
  have t: "strptime_hm (fields_of ''Monday,9am,5pm'' ! 2) = Inl ValueError" by code_simp
  show ?thesis
    by (rule close_rule_raises_on_short_entry [OF _ _ l t]) (simp_all add: e)
qed

end
