(* ===== verification/Server_Pipeline.thy ===== *)
theory Server_Pipeline
  imports Server_Rules
begin

text \<open>
  \<open>normalize_input_string\<close> of src/clean-hours/server/normalizeHours.py (lines 267 to
  284): format the input through the generator, then run the ten rules in the listed
  order, each on the response the previous one returned; an exception of any rule ends
  the run. The main lemma, \<open>run_validation_eq\<close>, computes the whole battery in closed
  form: the flag becomes the conjunction of its start value with \<open>server_verdict\<close>,
  a pure predicate of the formatted string. The ordering argument behind it is that
  the first rule, \<open>test_day_of_month_formatting\<close>, catches every entry with fewer than
  eleven fields, so that the two later rules that read field 10 outside a handler
  never see one.
\<close>

definition validation_tests :: "(response \<Rightarrow> response py) list" where
  "validation_tests =
     [test_day_of_month_formatting, test_week_of_month_formatting, test_weekly_formatting,
      test_valid_hour_types, test_valid_day_of_week, test_valid_open_closed_hours,
      test_close_hour_greater_than_open_hour, test_all_null_values_empty_string,
      test_valid_entry_format, test_call_for_information_formatting]"

definition run_validation :: "response \<Rightarrow> response py" where
  "run_validation r = py_fold (\<lambda>t r. t r) validation_tests r"

definition normalize_input_string :: "generator \<Rightarrow> string \<Rightarrow> response py" where
  "normalize_input_string gen s = py_bind (format_input_string gen s) run_validation"

section \<open>The verdict in closed form\<close>

text \<open>What the day-of-week rule computes from a true flag.\<close>

definition dow_verdict :: "string \<Rightarrow> bool" where
  "dow_verdict s = fold (\<lambda>e flag. day_of_week_step (fields_of e) flag) (entries_of s) True"

text \<open>The per-entry conditions of the eight other entry rules, in pipeline order.\<close>

definition server_entry_checks :: "string list \<Rightarrow> bool" where
  "server_entry_checks v =
     (10 < length v \<and> v ! 10 \<noteq> ''Day of Month'' \<and> v ! 10 \<noteq> ''Week of Month'' \<and>
      (v ! 10 = ''Weekly'' \<or> v ! 10 = ''Every Other Week'' \<longrightarrow> v ! 8 = [] \<and> v ! 9 = []) \<and>
      v ! 10 \<in> set HOUR_TYPES \<and>
      (v ! 10 \<noteq> CFI \<longrightarrow> time_syntax_ok v) \<and>
      close_ok v \<and>
      (\<forall>i\<in>set reserved_fields. i < length v \<and> v ! i = []) \<and>
      (v ! 10 = CFI \<longrightarrow> concat (take 7 v) = [] \<and> concat (take 2 (drop 8 v)) = [] \<and>
                        concat (drop 11 v) = []))"

definition server_verdict :: "string \<Rightarrow> bool" where
  "server_verdict s =
     ((\<forall>e\<in>set (entries_of s). server_entry_checks (fields_of e)) \<and> dow_verdict s \<and> entry_format_ok s)"

section \<open>Lemmas\<close>

lemma tests_early_exit [simp]:
  assumes "\<not> isValid r"
  shows "test_day_of_month_formatting r = Inr r" "test_week_of_month_formatting r = Inr r"
    "test_weekly_formatting r = Inr r" "test_valid_hour_types r = Inr r"
    "test_valid_day_of_week r = Inr r" "test_valid_open_closed_hours r = Inr r"
    "test_close_hour_greater_than_open_hour r = Inr r" "test_all_null_values_empty_string r = Inr r"
    "test_valid_entry_format r = Inr r" "test_call_for_information_formatting r = Inr r"
  using assms
  by (simp_all add: test_day_of_month_formatting_def test_week_of_month_formatting_def
      test_weekly_formatting_def test_valid_hour_types_def test_valid_day_of_week_def
      test_valid_open_closed_hours_def test_close_hour_greater_than_open_hour_def
      test_all_null_values_empty_string_def test_valid_entry_format_def
      test_call_for_information_formatting_def run_entry_rule_def)

lemma test_valid_day_of_week_eq:
  "test_valid_day_of_week r = Inr (r\<lparr>isValid := isValid r \<and> dow_verdict (formatted r)\<rparr>)"
  by (simp add: test_valid_day_of_week_def dow_verdict_def)

lemma run_validation_unfold:
  "run_validation r =
     py_bind (test_day_of_month_formatting r) (\<lambda>r. py_bind (test_week_of_month_formatting r) (\<lambda>r.
     py_bind (test_weekly_formatting r) (\<lambda>r. py_bind (test_valid_hour_types r) (\<lambda>r.
     py_bind (test_valid_day_of_week r) (\<lambda>r. py_bind (test_valid_open_closed_hours r) (\<lambda>r.
     py_bind (test_close_hour_greater_than_open_hour r) (\<lambda>r.
     py_bind (test_all_null_values_empty_string r) (\<lambda>r.
     py_bind (test_valid_entry_format r) (\<lambda>r. py_bind (test_call_for_information_formatting r) Inr)))))))))"
  by (simp add: run_validation_def validation_tests_def py_fold_fun)

lemma server_verdict_entries_have_type:
  "server_verdict s \<Longrightarrow> entries_have_type s"
  by (simp add: server_verdict_def server_entry_checks_def entries_have_type_def)

lemma run_validation_eq:
  "run_validation r = Inr (r\<lparr>isValid := isValid r \<and> server_verdict (formatted r)\<rparr>)"
proof (cases "isValid r \<and> entries_have_type (formatted r)")
  case True
  then have ht: "entries_have_type (formatted r)" by simp
  show ?thesis
    using True
    by (simp add: run_validation_unfold test_day_of_month_formatting_eq test_week_of_month_formatting_eq
        test_weekly_formatting_eq test_valid_hour_types_eq test_valid_day_of_week_eq
        test_valid_open_closed_hours_eq test_close_hour_eq ht
        test_all_null_values_empty_string_eq test_valid_entry_format_eq
        test_call_for_information_formatting_eq server_verdict_def server_entry_checks_def
        ball_conj_distrib conj_ac)
next
  case False
  show ?thesis
  proof (cases "isValid r")
    case True
    with False have "\<not> entries_have_type (formatted r)" by simp
    then have nv: "\<not> server_verdict (formatted r)" using server_verdict_entries_have_type by blast
    have "\<not> (\<forall>e\<in>set (entries_of (formatted r)).
              10 < length (fields_of e) \<and> fields_of e ! 10 \<noteq> ''Day of Month'')"
      using \<open>\<not> entries_have_type (formatted r)\<close> by (auto simp: entries_have_type_def)
    with True have "test_day_of_month_formatting r = Inr (r\<lparr>isValid := False\<rparr>)"
      by (simp only: test_day_of_month_formatting_eq) simp
    with nv show ?thesis by (simp add: run_validation_unfold)
  next
    case False
    then show ?thesis by (simp add: run_validation_unfold)
  qed
qed

lemma concat_take_Nil: "concat (take n v) = [] \<Longrightarrow> i < n \<Longrightarrow> i < length v \<Longrightarrow> v ! i = []"
  using nth_mem [of i "take n v"] by auto

lemma concat_drop_Nil: "concat (drop n v) = [] \<Longrightarrow> n \<le> i \<Longrightarrow> i < length v \<Longrightarrow> v ! i = []"
  using nth_mem [of "i - n" "drop n v"] by auto

lemma server_verdict_entry:
  assumes "server_verdict s" and "e \<in> set (entries_of s)"
  shows "length (fields_of e) = 14 \<and>
     fields_of e ! 10 \<in> {''Weekly'', ''Every Other Week'', CFI} \<and>
     (\<forall>i\<in>set reserved_fields. fields_of e ! i = []) \<and>
     (fields_of e ! 10 \<noteq> CFI \<longrightarrow> fields_of e ! 8 = [] \<and> fields_of e ! 9 = [] \<and>
        (\<exists>t1 t2. strptime_hm (fields_of e ! 1) = Inr t1 \<and> strptime_hm (fields_of e ! 2) = Inr t2 \<and>
                 time_gt t2 t1)) \<and>
     (fields_of e ! 10 = CFI \<longrightarrow> (\<forall>i<14. i \<noteq> 7 \<and> i \<noteq> 10 \<longrightarrow> fields_of e ! i = []))"
proof -
  let ?v = "fields_of e"
  from assms have chk: "server_entry_checks ?v" and fmt: "entry_format_ok s"
    by (auto simp: server_verdict_def)
  from assms have "\<forall>e\<in>set (entries_of s). 13 < length (fields_of e)"
    by (auto simp: server_verdict_def server_entry_checks_def reserved_fields_def)
  with fmt assms(2) have len: "length ?v = 14" using entries_exact_arity by blast
  from chk have ty: "?v ! 10 \<in> {''Weekly'', ''Every Other Week'', CFI}"
    by (auto simp: server_entry_checks_def HOUR_TYPES_def)
  from chk have res: "\<forall>i\<in>set reserved_fields. ?v ! i = []"
    by (simp add: server_entry_checks_def)
  have nc: "?v ! 8 = [] \<and> ?v ! 9 = [] \<and>
        (\<exists>t1 t2. strptime_hm (?v ! 1) = Inr t1 \<and> strptime_hm (?v ! 2) = Inr t2 \<and> time_gt t2 t1)"
    if "?v ! 10 \<noteq> CFI"
    using chk that ty by (auto simp: server_entry_checks_def close_ok_def split: sum.splits)
  have cf: "\<forall>i<14. i \<noteq> 7 \<and> i \<noteq> 10 \<longrightarrow> ?v ! i = []" if "?v ! 10 = CFI"
  proof (intro allI impI)
    fix i :: nat assume i: "i < 14" "i \<noteq> 7 \<and> i \<noteq> 10"
    from chk that have a: "concat (take 7 ?v) = []" and b: "concat (take 2 (drop 8 ?v)) = []"
      and c: "concat (drop 11 ?v) = []" by (auto simp: server_entry_checks_def)
    consider "i < 7" | "i = 8 \<or> i = 9" | "11 \<le> i" using i by linarith
    then show "?v ! i = []"
    proof cases
      case 1 then show ?thesis using concat_take_Nil [OF a] len by simp
    next
      case 2 then show ?thesis using concat_take_Nil [OF b, of "i - 8"] len by auto
    next
      case 3 then show ?thesis using concat_drop_Nil [OF c] len i by simp
    qed
  qed
  from len ty res nc cf show ?thesis by blast
qed


text \<open>C1: the validation battery of the service never raises: on every response, and
  so on every string the generator may return, the ten rules run to the end and
  produce a verdict.\<close>

theorem run_validation_total: "\<exists>r'. run_validation r = Inr r'"
  by (simp add: run_validation_eq)

text \<open>C2: a response the service accepts has the fixed shape: every entry has exactly
  fourteen fields, hour type Weekly, Every Other Week or Call for Information, empty
  reserved fields; a regular entry has no ordinals and open and close times that parse
  with close after open; a Call-for-Information entry has every field but 7 and 10
  empty.\<close>

theorem normalize_accepts_sound:
  assumes "normalize_input_string gen s = Inr r" and "isValid r"
  shows "\<forall>e\<in>set (entries_of (formatted r)).
     length (fields_of e) = 14 \<and>
     fields_of e ! 10 \<in> {''Weekly'', ''Every Other Week'', CFI} \<and>
     (\<forall>i\<in>set reserved_fields. fields_of e ! i = []) \<and>
     (fields_of e ! 10 \<noteq> CFI \<longrightarrow> fields_of e ! 8 = [] \<and> fields_of e ! 9 = [] \<and>
        (\<exists>t1 t2. strptime_hm (fields_of e ! 1) = Inr t1 \<and> strptime_hm (fields_of e ! 2) = Inr t2 \<and>
                 time_gt t2 t1)) \<and>
     (fields_of e ! 10 = CFI \<longrightarrow> (\<forall>i<14. i \<noteq> 7 \<and> i \<noteq> 10 \<longrightarrow> fields_of e ! i = []))"
proof -
  from assms(1) obtain r0 where "run_validation r0 = Inr r"
    by (auto simp: normalize_input_string_def py_bind_Inr_iff)
  with assms(2) have "server_verdict (formatted r)"
    by (auto simp: run_validation_eq)
  then show ?thesis using server_verdict_entry by blast
qed

theorem normalize_accepts_sound_witness:
  "normalize_input_string (\<lambda>_ _. Inr ''Monday,15:00,17:00,,,,,,,,Weekly,,,'') ''Every Monday, from 3pm-5pm'' =
     Inr \<lparr>base = ''Every Monday, from 3pm-5pm'', formatted = ''Monday,15:00,17:00,,,,,,,,Weekly,,,'',
          isValid = True\<rparr> \<and>
   length (fields_of ''Monday,15:00,17:00,,,,,,,,Weekly,,,'') = 14"
proof -
  have h: "normalize_input_string (\<lambda>_ _. Inr ''Monday,15:00,17:00,,,,,,,,Weekly,,,'') ''Every Monday, from 3pm-5pm'' =
     Inr \<lparr>base = ''Every Monday, from 3pm-5pm'', formatted = ''Monday,15:00,17:00,,,,,,,,Weekly,,,'',
          isValid = True\<rparr>" by code_simp
  have e: "''Monday,15:00,17:00,,,,,,,,Weekly,,,'' \<in> set (entries_of ''Monday,15:00,17:00,,,,,,,,Weekly,,,'')"
    by code_simp
  from normalize_accepts_sound [OF h] e h show ?thesis by simp
qed

text \<open>C8: the battery changes nothing but the flag, and the flag only goes from true
  to false: the original text and the candidate are returned as they came.\<close>

theorem run_validation_frame:
  assumes "run_validation r = Inr r'"
  shows "base r' = base r \<and> formatted r' = formatted r \<and> (isValid r' \<longrightarrow> isValid r)"
  using assms by (auto simp: run_validation_eq)

theorem run_validation_frame_witness:
  "run_validation \<lparr>base = ''y'', formatted = '',,,,,,,For information,,,,,,'', isValid = True\<rparr> =
     Inr \<lparr>base = ''y'', formatted = '',,,,,,,For information,,,,,,'', isValid = False\<rparr> \<and>
   base \<lparr>base = ''y'', formatted = '',,,,,,,For information,,,,,,'', isValid = False\<rparr> = ''y''"
proof -
  have h: "run_validation \<lparr>base = ''y'', formatted = '',,,,,,,For information,,,,,,'', isValid = True\<rparr> =
     Inr \<lparr>base = ''y'', formatted = '',,,,,,,For information,,,,,,'', isValid = False\<rparr>"
    by code_simp
  show ?thesis using h run_validation_frame [OF h] by simp
qed

end
