(* ===== verification/Service_App.thy ===== *)
theory Service_App
  imports Server_Pipeline
begin

text \<open>
  The Flask app of src/clean-hours/server/app.py: the route
  \<open>GET /normalizeHours/<inputString>\<close> calls \<open>normalize_input_string\<close> and turns any
  exception \<open>e\<close> into \<open>abort(400, description=str(e))\<close>; the 400 handler answers
  \<open>{"Error": str(e)}\<close> for that HTTP exception, whose text is
  \<open>"400 Bad Request: "\<close> followed by the description. The text \<open>str(e)\<close> of a Python
  exception is chosen by the raising library, so the model takes it as a parameter
  \<open>exn_str\<close>. A reply is its status code and its body. Flask's dispatch is modelled for
  \<open>GET\<close> with Werkzeug's defaults: one path segment for \<open><inputString>\<close>, and
  \<open>merge_slashes\<close>, which redirects (308) a path with repeated slashes to its merged
  form when that form matches a rule.
\<close>

datatype json_body = Normalized response | Message string | Error_text string | Redirect_to string

record http_reply =
  status :: nat
  body :: json_body

text \<open>The handlers registered for 400, 404 and 500; the argument is the text \<open>str(e)\<close> of
  the HTTP exception Flask passes them.\<close>

definition bad_request :: "string \<Rightarrow> http_reply" where
  "bad_request e = \<lparr>status = 400, body = Error_text e\<rparr>"

definition not_found :: "string \<Rightarrow> http_reply" where
  "not_found e = \<lparr>status = 404, body = Error_text e\<rparr>"

definition internal_server_error :: "string \<Rightarrow> http_reply" where
  "internal_server_error e = \<lparr>status = 500, body = Error_text e\<rparr>"

text \<open>\<open>GET /\<close>.\<close>

definition root :: http_reply where
  "root = \<lparr>status = 200, body = Message ''Hello, World!''\<rparr>"

text \<open>\<open>GET /normalizeHours/<inputString>\<close>: \<open>abort(400, description=str(e))\<close> raises
  \<open>BadRequest\<close>, whose \<open>str\<close> is \<open>"400 Bad Request: " + description\<close>.\<close>

definition normalize_hours :: "generator \<Rightarrow> (exn \<Rightarrow> string) \<Rightarrow> string \<Rightarrow> http_reply" where
  "normalize_hours gen exn_str input_string =
     (case normalize_input_string gen input_string of
        Inl e \<Rightarrow> bad_request (''400 Bad Request: '' @ exn_str e)
      | Inr r \<Rightarrow> \<lparr>status = 200, body = Normalized r\<rparr>)"

text \<open>Werkzeug's routing for the two rules of the app. \<open>match_route\<close> matches a path as
  it is; \<open>merge_slashes\<close> collapses every run of slashes into one. A path that matches
  no rule as it is but whose merged form does is redirected there with 308
  (\<open>RequestRedirect\<close>, which Flask returns as it is, not through a handler); any other
  path raises \<open>NotFound\<close>, which the 404 handler answers.\<close>

datatype route = Root_route | Normalize_route string

definition match_route :: "string \<Rightarrow> route option" where
  "match_route path =
     (if path = ''/'' then Some Root_route
      else if starts_with ''/normalizeHours/'' path \<and> drop 16 path \<noteq> [] \<and> CHR ''/'' \<notin> set (drop 16 path)
      then Some (Normalize_route (drop 16 path))
      else None)"

fun merge_slashes :: "string \<Rightarrow> string" where
  "merge_slashes (a # b # rest) =
     (if a = CHR ''/'' \<and> b = CHR ''/'' then merge_slashes (b # rest) else a # merge_slashes (b # rest))"
| "merge_slashes s = s"

definition not_found_text :: string where
  "not_found_text = ''404 Not Found: The requested URL was not found on the server. '' @
     ''If you entered the URL manually please check your spelling and try again.''"

definition app_dispatch :: "generator \<Rightarrow> (exn \<Rightarrow> string) \<Rightarrow> string \<Rightarrow> http_reply" where
  "app_dispatch gen exn_str path =
     (case match_route path of
        Some Root_route \<Rightarrow> root
      | Some (Normalize_route s) \<Rightarrow> normalize_hours gen exn_str s
      | None \<Rightarrow>
          (case match_route (merge_slashes path) of
             Some _ \<Rightarrow> \<lparr>status = 308, body = Redirect_to (merge_slashes path)\<rparr>
           | None \<Rightarrow> not_found not_found_text))"

section \<open>Properties of the route\<close>

text \<open>Werkzeug's routing on three paths: a doubled slash before the segment is
  redirected, a slash inside the segment is not found.\<close>

lemma app_dispatch_merge_examples:
  "app_dispatch gen exn_str ''//'' = \<lparr>status = 308, body = Redirect_to ''/''\<rparr>"
  "app_dispatch gen exn_str ''/normalizeHours//9am'' = \<lparr>status = 308, body = Redirect_to ''/normalizeHours/9am''\<rparr>"
  "app_dispatch gen exn_str ''/normalizeHours/9am/5pm'' = not_found not_found_text"
  by (simp_all add: app_dispatch_def match_route_def starts_with_def)

text \<open>C17: the route answers 400 exactly when formatting raises (the model call or
  \<open>postprocess_string\<close>), with the text of that exception after
  \<open>"400 Bad Request: "\<close>, and otherwise 200 with the formatted response whose flag is
  the battery's verdict on the candidate; it never answers 500, because the validation
  battery never raises.\<close>

theorem normalize_hours_reply:
  "normalize_hours gen exn_str s =
     (case format_input_string gen s of
        Inl e \<Rightarrow> \<lparr>status = 400, body = Error_text (''400 Bad Request: '' @ exn_str e)\<rparr>
      | Inr r \<Rightarrow> \<lparr>status = 200, body = Normalized (r\<lparr>isValid := server_verdict (formatted r)\<rparr>)\<rparr>)"
proof (cases "format_input_string gen s")
  case (Inl e)
  then show ?thesis by (simp add: normalize_hours_def normalize_input_string_def bad_request_def)
next
  case (Inr r)
  with format_input_string_Inr [OF Inr] show ?thesis
    by (simp add: normalize_hours_def normalize_input_string_def run_validation_eq)
qed

end
