(* ===== verification/Batch_Rules.thy ===== *)
theory Batch_Rules
  imports Schedule_Schema Time_Format
begin

text \<open>
  The nine validation rules of the batch script src/clean_hours.py (lines 275 to 642).
  Unlike the service, each rule works on three dictionaries keyed by program id (the
  original hours \<open>id_hours_dict\<close>, the generated candidates
  \<open>cleaned_hours_dict\<close> and the flags \<open>is_valid_dict\<close>), iterates over the
  candidates in insertion order, never returns early, and ANDs its local verdict into
  \<open>is_valid_dict[key]\<close>. Most indexing is outside any \<open>try\<close>, so an entry with
  too few fields raises \<open>IndexError\<close> out of the rule and out of the script. The
  day/week-of-month rules read the original text under the program's id, case
  sensitively, and the ordinal words of \<open>INT_TO_DAY_OF_MONTH_batch\<close>.
  \<open>batch_rule\<close> is the shared loop over programs and entries; each rule's per-entry
  body is a \<open>*_batch_step\<close> that receives the lookup \<open>id_hours_dict[key]\<close>.
\<close>

type_synonym hours_dict = "(string, string) pydict"
type_synonym valid_dict = "(string, bool) pydict"

section \<open>The common loop\<close>

definition batch_rule ::
  "(string py \<Rightarrow> string list \<Rightarrow> bool \<Rightarrow> bool py) \<Rightarrow> hours_dict \<Rightarrow> hours_dict \<Rightarrow> valid_dict \<Rightarrow> valid_dict py" where
  "batch_rule step ids cleaned vd0 =
     py_fold (\<lambda>(key, value) vd.
        py_bind (py_fold (\<lambda>e acc. step (dict_get ids key) (fields_of e) acc) (entries_of value) True) (\<lambda>ok.
        py_bind (dict_get vd key) (\<lambda>old. Inr (dict_set vd key (old \<and> ok)))))
       cleaned vd0"

section \<open>The rules\<close>

text \<open>Rules 5 and 6 (\<open>test_day_of_month_formatting\<close>, \<open>test_week_of_month_formatting\<close>):
  the hour-type test and the shape check are outside the \<open>try\<close>; the ordinal
  cross-reference, for every entry whatever its type, is inside it.\<close>

definition batch_ordinal_in :: "string py \<Rightarrow> string \<Rightarrow> bool py" where
  "batch_ordinal_in orig f =
     py_bind (dict_get INT_TO_DAY_OF_MONTH_batch f) (\<lambda>ords.
       py_any (\<lambda>x. py_bind orig (\<lambda>txt. Inr (py_contains x txt))) ords)"

definition batch_ordinal_step :: "string \<Rightarrow> nat \<Rightarrow> nat \<Rightarrow> string py \<Rightarrow> string list \<Rightarrow> bool \<Rightarrow> bool py" where
  "batch_ordinal_step label k other orig v acc =
     py_bind (py_field_eq v 10 label) (\<lambda>hit.
     py_bind (if hit then py_and (py_and (py_bind (py_nth v k) (\<lambda>f. Inr (py_isdigit f)))
                                         (py_field_eq v other []))
                                 (Inr acc)
              else Inr acc) (\<lambda>acc1.
     Inr (py_catch_false
            (py_and (py_or (py_bind (py_nth v k) (batch_ordinal_in orig)) (py_field_eq v k []))
                    (Inr acc1)))))"

definition test_day_of_month_formatting_batch :: "hours_dict \<Rightarrow> hours_dict \<Rightarrow> valid_dict \<Rightarrow> valid_dict py" where
  "test_day_of_month_formatting_batch = batch_rule (batch_ordinal_step ''Day of Month'' 9 8)"

definition test_week_of_month_formatting_batch :: "hours_dict \<Rightarrow> hours_dict \<Rightarrow> valid_dict \<Rightarrow> valid_dict py" where
  "test_week_of_month_formatting_batch = batch_rule (batch_ordinal_step ''Week of Month'' 8 9)"

text \<open>Rule 7 (\<open>test_weekly_formatting\<close>), unprotected.\<close>

definition weekly_batch_step :: "string py \<Rightarrow> string list \<Rightarrow> bool \<Rightarrow> bool py" where
  "weekly_batch_step orig v acc =
     py_bind (py_or (py_field_eq v 10 ''Weekly'') (py_field_eq v 10 ''Every Other Week'')) (\<lambda>w.
       if w then py_and (py_and (py_field_eq v 8 []) (py_field_eq v 9 [])) (Inr acc) else Inr acc)"

definition test_weekly_formatting_batch :: "hours_dict \<Rightarrow> hours_dict \<Rightarrow> valid_dict \<Rightarrow> valid_dict py" where
  "test_weekly_formatting_batch = batch_rule weekly_batch_step"

text \<open>Rule 9 (\<open>test_all_null_values_empty_string\<close>), unprotected.\<close>

definition null_batch_step :: "string py \<Rightarrow> string list \<Rightarrow> bool \<Rightarrow> bool py" where
  "null_batch_step orig v acc = py_and (fields_empty v [3, 4, 5, 6, 11, 12, 13]) (Inr acc)"

definition test_all_null_values_empty_string_batch :: "hours_dict \<Rightarrow> hours_dict \<Rightarrow> valid_dict \<Rightarrow> valid_dict py" where
  "test_all_null_values_empty_string_batch = batch_rule null_batch_step"

text \<open>Rule 10 (\<open>test_valid_hour_types\<close>): four labels, no Call for Information.\<close>

definition hour_types_batch_step :: "string py \<Rightarrow> string list \<Rightarrow> bool \<Rightarrow> bool py" where
  "hour_types_batch_step orig v acc =
     py_and (py_bind (py_nth v 10) (\<lambda>f. Inr (f \<in> set HOUR_TYPES_batch))) (Inr acc)"

definition test_valid_hour_types_batch :: "hours_dict \<Rightarrow> hours_dict \<Rightarrow> valid_dict \<Rightarrow> valid_dict py" where
  "test_valid_hour_types_batch = batch_rule hour_types_batch_step"

text \<open>Rule 2 (\<open>test_valid_day_of_week\<close>): a correct AND over the entries.\<close>

definition day_of_week_batch_step :: "string py \<Rightarrow> string list \<Rightarrow> bool \<Rightarrow> bool py" where
  "day_of_week_batch_step orig v acc =
     py_and (py_bind (py_nth v 0) (\<lambda>f. Inr (f \<in> set DAYS_OF_WEEK_batch))) (Inr acc)"

definition test_valid_day_of_week_batch :: "hours_dict \<Rightarrow> hours_dict \<Rightarrow> valid_dict \<Rightarrow> valid_dict py" where
  "test_valid_day_of_week_batch = batch_rule day_of_week_batch_step"

text \<open>Rule 3 (\<open>test_valid_open_closed_hours\<close>): both times non-empty, then both
  matched by the regular expression; all reads unprotected.\<close>

definition open_closed_batch_step :: "string py \<Rightarrow> string list \<Rightarrow> bool \<Rightarrow> bool py" where
  "open_closed_batch_step orig v acc =
     py_bind (py_and (py_and (py_bind (py_nth v 1) (\<lambda>f. Inr (f \<noteq> [])))
                             (py_bind (py_nth v 2) (\<lambda>f. Inr (f \<noteq> []))))
                     (Inr acc)) (\<lambda>acc1.
     py_bind (py_nth v 1) (\<lambda>f1. py_bind (py_nth v 2) (\<lambda>f2.
     Inr (time_regex_search f1 \<and> time_regex_search f2 \<and> acc1))))"

definition test_valid_open_closed_hours_batch :: "hours_dict \<Rightarrow> hours_dict \<Rightarrow> valid_dict \<Rightarrow> valid_dict py" where
  "test_valid_open_closed_hours_batch = batch_rule open_closed_batch_step"

text \<open>Rule 4 (\<open>test_close_hour_greater_than_open_hour\<close>): a bare \<open>except\<close>.\<close>

definition close_batch_step :: "string py \<Rightarrow> string list \<Rightarrow> bool \<Rightarrow> bool py" where
  "close_batch_step orig v acc =
     Inr (py_catch_false
       (py_bind (py_nth v 2) (\<lambda>f2. py_bind (strptime_hm f2) (\<lambda>t2.
        py_bind (py_nth v 1) (\<lambda>f1. py_bind (strptime_hm f1) (\<lambda>t1.
        py_and (Inr (time_gt t2 t1)) (Inr acc)))))))"

definition test_close_hour_greater_than_open_hour_batch :: "hours_dict \<Rightarrow> hours_dict \<Rightarrow> valid_dict \<Rightarrow> valid_dict py" where
  "test_close_hour_greater_than_open_hour_batch = batch_rule close_batch_step"

text \<open>Rule 1 (\<open>test_valid_entry_format\<close>): per program, no entry loop.\<close>

definition test_valid_entry_format_batch :: "hours_dict \<Rightarrow> hours_dict \<Rightarrow> valid_dict \<Rightarrow> valid_dict py" where
  "test_valid_entry_format_batch ids cleaned vd0 =
     py_fold (\<lambda>(key, value) vd.
        py_bind (dict_get vd key) (\<lambda>old. Inr (dict_set vd key (old \<and> entry_format_ok value))))
       cleaned vd0"

text \<open>The battery of the script's main block, in its order.\<close>

definition validation_tests_batch :: "(hours_dict \<Rightarrow> hours_dict \<Rightarrow> valid_dict \<Rightarrow> valid_dict py) list" where
  "validation_tests_batch =
     [test_day_of_month_formatting_batch, test_week_of_month_formatting_batch,
      test_weekly_formatting_batch, test_valid_hour_types_batch, test_valid_day_of_week_batch,
      test_valid_open_closed_hours_batch, test_close_hour_greater_than_open_hour_batch,
      test_all_null_values_empty_string_batch, test_valid_entry_format_batch]"

definition run_validation_batch :: "hours_dict \<Rightarrow> hours_dict \<Rightarrow> valid_dict \<Rightarrow> valid_dict py" where
  "run_validation_batch ids cleaned vd = py_fold (\<lambda>t vd. t ids cleaned vd) validation_tests_batch vd"

section \<open>What the battery decides\<close>

text \<open>The per-entry conditions that the nine rules together certify, as executable
  predicates: an ordinal field is empty or one of its ordinal words occurs in the
  program's original text.\<close>

definition batch_ordinal_ok :: "string py \<Rightarrow> string \<Rightarrow> bool" where
  "batch_ordinal_ok orig f =
     (f = [] \<or> (case (dict_get INT_TO_DAY_OF_MONTH_batch f, orig) of
                  (Inr ords, Inr txt) \<Rightarrow> list_ex (\<lambda>x. py_contains x txt) ords
                | _ \<Rightarrow> False))"

definition batch_entry_checks :: "string py \<Rightarrow> string list \<Rightarrow> bool" where
  "batch_entry_checks orig v =
     (13 < length v \<and> v ! 0 \<in> set DAYS_OF_WEEK \<and>
      time_regex_search (v ! 1) \<and> time_regex_search (v ! 2) \<and>
      (case (strptime_hm (v ! 1), strptime_hm (v ! 2)) of
         (Inr t1, Inr t2) \<Rightarrow> time_gt t2 t1 | _ \<Rightarrow> False) \<and>
      v ! 10 \<in> set HOUR_TYPES_batch \<and>
      list_all (\<lambda>i. v ! i = []) [3, 4, 5, 6, 11, 12, 13] \<and>
      (v ! 10 = ''Weekly'' \<or> v ! 10 = ''Every Other Week'' \<longrightarrow> v ! 8 = [] \<and> v ! 9 = []) \<and>
      (v ! 10 = ''Day of Month'' \<longrightarrow> py_isdigit (v ! 9) \<and> v ! 8 = []) \<and>
      (v ! 10 = ''Week of Month'' \<longrightarrow> py_isdigit (v ! 8) \<and> v ! 9 = []) \<and>
      batch_ordinal_ok orig (v ! 9) \<and> batch_ordinal_ok orig (v ! 8))"

text \<open>The verdict of the battery on a program: its candidate passes the counting check
  and every entry passes the entry checks (a program without a candidate is not
  touched).\<close>

definition batch_verdict :: "hours_dict \<Rightarrow> hours_dict \<Rightarrow> string \<Rightarrow> bool" where
  "batch_verdict ids cleaned k =
     (case dict_get cleaned k of
        Inr cv \<Rightarrow> entry_format_ok cv \<and> list_all (\<lambda>e. batch_entry_checks (dict_get ids k) (fields_of e)) (entries_of cv)
      | Inl _ \<Rightarrow> True)"

text \<open>What a run of a rule from flags \<open>vd\<close> to flags \<open>vd'\<close> guarantees: the same
  programs, and every program still flagged valid was valid before and its candidate
  satisfies \<open>Q\<close>.\<close>

abbreviation batch_certifies ::
  "hours_dict \<Rightarrow> valid_dict \<Rightarrow> valid_dict \<Rightarrow> (string \<Rightarrow> string \<Rightarrow> bool) \<Rightarrow> bool" where
  "batch_certifies cleaned vd vd' Q \<equiv>
     map fst vd' = map fst vd \<and>
     (\<forall>k. dict_get vd' k = Inr True \<longrightarrow> dict_get vd k = Inr True \<and>
        (\<forall>value. dict_get cleaned k = Inr value \<longrightarrow> Q k value))"

text \<open>A rule without exceptions ANDs a verdict \<open>V\<close> into every flag; the per-entry
  verdict of a rule with body condition \<open>P\<close>.\<close>

abbreviation flags_and :: "(string \<Rightarrow> bool) \<Rightarrow> valid_dict \<Rightarrow> valid_dict" where
  "flags_and V vd \<equiv> map (\<lambda>(k, b). (k, b \<and> V k)) vd"

abbreviation entries_all :: "hours_dict \<Rightarrow> hours_dict \<Rightarrow> (string py \<Rightarrow> string list \<Rightarrow> bool) \<Rightarrow> string \<Rightarrow> bool" where
  "entries_all ids cleaned P k \<equiv>
     (case dict_get cleaned k of
        Inr cv \<Rightarrow> (\<forall>e\<in>set (entries_of cv). P (dict_get ids k) (fields_of e))
      | Inl _ \<Rightarrow> True)"

section \<open>Lemmas\<close>

text \<open>The per-program loop: when a rule returns, every program whose flag is still true
  had its flag true before, and every entry of its candidate satisfies what the rule's
  body certifies.\<close>

lemma batch_rule_sound:
  assumes run: "batch_rule step ids cleaned vd = Inr vd'"
    and sound: "\<And>orig v acc b. step orig v acc = Inr b \<Longrightarrow> b \<Longrightarrow> acc \<and> P orig v"
  shows "map fst vd' = map fst vd \<and>
         (\<forall>k. dict_get vd' k = Inr True \<longrightarrow> dict_get vd k = Inr True \<and>
            (\<forall>value. dict_get cleaned k = Inr value \<longrightarrow>
               (\<forall>e\<in>set (entries_of value). P (dict_get ids k) (fields_of e))))"
  using run unfolding batch_rule_def
proof (induction cleaned arbitrary: vd)
  case Nil
  then show ?case by simp
next
  case (Cons kv rest)
  obtain key cval where kv: "kv = (key, cval)" by (cases kv)
  from Cons.prems kv obtain ok old where
    inner: "py_fold (\<lambda>e acc. step (dict_get ids key) (fields_of e) acc) (entries_of cval) True = Inr ok" and
    old: "dict_get vd key = Inr old" and
    rest: "py_fold (\<lambda>(key, value) vd.
              py_bind (py_fold (\<lambda>e acc. step (dict_get ids key) (fields_of e) acc) (entries_of value) True)
                (\<lambda>ok. py_bind (dict_get vd key) (\<lambda>old. Inr (dict_set vd key (old \<and> ok)))))
            rest (dict_set vd key (old \<and> ok)) = Inr vd'"
    by (auto simp: py_bind_Inr_iff)
  let ?vd1 = "dict_set vd key (old \<and> ok)"
  from dict_get_Inr_key [OF old] have keys: "map fst ?vd1 = map fst vd"
    by (rule map_fst_dict_set_old)
  note IH = Cons.IH [OF rest]
  have ent: "\<forall>e\<in>set (entries_of cval). P (dict_get ids key) (fields_of e)" if "ok"
    using py_fold_entries_sound [OF inner that, of "P (dict_get ids key)"] sound by blast
  have "map fst vd' = map fst vd" using IH keys by simp
  moreover have "\<forall>k. dict_get vd' k = Inr True \<longrightarrow> dict_get vd k = Inr True \<and>
          (\<forall>value'. dict_get (kv # rest) k = Inr value' \<longrightarrow>
             (\<forall>e\<in>set (entries_of value'). P (dict_get ids k) (fields_of e)))"
  proof (intro allI impI)
    fix k assume t: "dict_get vd' k = Inr True"
    with IH have t1: "dict_get ?vd1 k = Inr True" and
      r1: "\<forall>value. dict_get rest k = Inr value \<longrightarrow>
              (\<forall>e\<in>set (entries_of value). P (dict_get ids k) (fields_of e))" by auto
    show "dict_get vd k = Inr True \<and>
          (\<forall>value'. dict_get (kv # rest) k = Inr value' \<longrightarrow>
             (\<forall>e\<in>set (entries_of value'). P (dict_get ids k) (fields_of e)))"
    proof (cases "k = key")
      case True
      with t1 old have "old" and "ok" by (auto simp: dict_get_set)
      with True old ent kv show ?thesis by simp
    next
      case False
      with t1 r1 kv show ?thesis by (simp add: dict_get_set)
    qed
  qed
  ultimately show ?case by blast
qed

text \<open>What each rule's body certifies of an entry when it returns true.\<close>

lemma batch_ordinal_in_true:
  "batch_ordinal_in orig f = Inr True \<Longrightarrow>
     \<exists>ords txt. dict_get INT_TO_DAY_OF_MONTH_batch f = Inr ords \<and> orig = Inr txt \<and>
                (\<exists>x\<in>set ords. py_contains x txt)"
  by (fastforce simp: batch_ordinal_in_def py_bind_Inr_iff dest!: py_any_true)

lemma batch_ordinal_step_sound:
  assumes "k < 10" and "other < 10" and "batch_ordinal_step label k other orig v acc = Inr b" and "b"
  shows "acc \<and> 10 < length v \<and> (v ! 10 = label \<longrightarrow> py_isdigit (v ! k) \<and> v ! other = []) \<and>
         batch_ordinal_ok orig (v ! k)"
proof -
  from assms(3) have len: "10 < length v"
    by (cases "10 < length v") (auto simp: batch_ordinal_step_def py_field_eq_def py_nth_def)
  let ?acc1 = "if v ! 10 = label then py_isdigit (v ! k) \<and> v ! other = [] \<and> acc else acc"
  from assms(3) len assms(1,2) have
    b: "b = py_catch_false (py_and (py_or (batch_ordinal_in orig (v ! k)) (Inr (v ! k = []))) (Inr ?acc1))"
    by (cases "v ! 10 = label"; cases "py_isdigit (v ! k)"; cases "v ! other = []")
       (auto simp: batch_ordinal_step_def py_field_eq_def py_nth_def)
  with assms(4) have "?acc1" and
    "batch_ordinal_in orig (v ! k) = Inr True \<or> v ! k = []"
    by (auto simp: py_or_def py_and_def split: sum.splits if_splits)
  with len show ?thesis
    by (auto simp: batch_ordinal_ok_def list_ex_iff split: if_splits dest!: batch_ordinal_in_true)
qed

lemma weekly_batch_step_sound:
  "weekly_batch_step orig v acc = Inr b \<Longrightarrow> b \<Longrightarrow>
     acc \<and> 10 < length v \<and> (v ! 10 = ''Weekly'' \<or> v ! 10 = ''Every Other Week'' \<longrightarrow> v ! 8 = [] \<and> v ! 9 = [])"
  by (cases "10 < length v")
     (auto simp: weekly_batch_step_def py_field_eq_def py_nth_def split: if_splits)

lemma null_batch_step_sound:
  assumes "null_batch_step orig v acc = Inr b" and "b"
  shows "acc \<and> (\<forall>i\<in>set [3, 4, 5, 6, 11, 12, 13]. i < length v \<and> v ! i = [])"
proof -
  from assms have "fields_empty v [3, 4, 5, 6, 11, 12, 13] = Inr True \<and> acc"
    by (cases "fields_empty v [3, 4, 5, 6, 11, 12, 13]") (auto simp: null_batch_step_def split: if_splits)
  then show ?thesis unfolding fields_empty_Inr_iff by blast
qed

lemma hour_types_batch_step_sound:
  "hour_types_batch_step orig v acc = Inr b \<Longrightarrow> b \<Longrightarrow>
     acc \<and> 10 < length v \<and> v ! 10 \<in> set HOUR_TYPES_batch"
  by (cases "10 < length v") (auto simp: hour_types_batch_step_def py_nth_def split: if_splits)

lemma day_of_week_batch_step_sound:
  "day_of_week_batch_step orig v acc = Inr b \<Longrightarrow> b \<Longrightarrow>
     acc \<and> 0 < length v \<and> v ! 0 \<in> set DAYS_OF_WEEK"
  by (cases "0 < length v") (auto simp: day_of_week_batch_step_def py_nth_def split: if_splits)

lemma open_closed_batch_step_sound:
  "open_closed_batch_step orig v acc = Inr b \<Longrightarrow> b \<Longrightarrow>
     acc \<and> 2 < length v \<and> time_regex_search (v ! 1) \<and> time_regex_search (v ! 2)"
  by (cases "2 < length v")
     (auto simp: open_closed_batch_step_def py_nth_def py_bind_Inr_iff split: if_splits)

lemma close_batch_step_sound:
  "close_batch_step orig v acc = Inr b \<Longrightarrow> b \<Longrightarrow>
     acc \<and> 2 < length v \<and> (\<exists>t1 t2. strptime_hm (v ! 1) = Inr t1 \<and> strptime_hm (v ! 2) = Inr t2 \<and>
                                  time_gt t2 t1)"
  by (cases "2 < length v")
     (auto simp: close_batch_step_def py_nth_def py_catch_false_def py_bind_Inr_iff split: sum.splits if_splits)

lemma entry_format_batch_sound:
  assumes "test_valid_entry_format_batch ids cleaned vd = Inr vd'"
  shows "map fst vd' = map fst vd \<and>
         (\<forall>k. dict_get vd' k = Inr True \<longrightarrow> dict_get vd k = Inr True \<and>
            (\<forall>value. dict_get cleaned k = Inr value \<longrightarrow> entry_format_ok value))"
  using assms unfolding test_valid_entry_format_batch_def
proof (induction cleaned arbitrary: vd)
  case Nil
  then show ?case by simp
next
  case (Cons kv rest)
  obtain key cval where kv: "kv = (key, cval)" by (cases kv)
  from Cons.prems kv obtain old where old: "dict_get vd key = Inr old" and
    rest: "py_fold (\<lambda>(key, value) vd.
              py_bind (dict_get vd key) (\<lambda>old. Inr (dict_set vd key (old \<and> entry_format_ok value))))
            rest (dict_set vd key (old \<and> entry_format_ok cval)) = Inr vd'"
    by (auto simp: py_bind_Inr_iff)
  from dict_get_Inr_key [OF old] have keys: "map fst (dict_set vd key (old \<and> entry_format_ok cval)) = map fst vd"
    by (rule map_fst_dict_set_old)
  note IH = Cons.IH [OF rest]
  have "\<forall>k. dict_get vd' k = Inr True \<longrightarrow> dict_get vd k = Inr True \<and>
          (\<forall>value. dict_get (kv # rest) k = Inr value \<longrightarrow> entry_format_ok value)"
  proof (intro allI impI)
    fix k assume "dict_get vd' k = Inr True"
    with IH have t1: "dict_get (dict_set vd key (old \<and> entry_format_ok cval)) k = Inr True"
      and r1: "\<forall>value. dict_get rest k = Inr value \<longrightarrow> entry_format_ok value" by auto
    show "dict_get vd k = Inr True \<and> (\<forall>value. dict_get (kv # rest) k = Inr value \<longrightarrow> entry_format_ok value)"
      using t1 r1 old kv by (cases "k = key") (auto simp: dict_get_set)
  qed
  with IH keys show ?case by simp
qed

text \<open>Two rules run one after the other certify both their conditions.\<close>

lemma batch_sound_compose:
  assumes "batch_certifies cleaned vd vd1 P" and "batch_certifies cleaned vd1 vd2 Q"
  shows "batch_certifies cleaned vd vd2 (\<lambda>k value. Q k value \<and> P k value)"
  using assms by auto

text \<open>What the nine rules certify of an entry, put together.\<close>

lemma batch_entry_checks_intro:
  assumes
    "10 < length v \<and> (v ! 10 = ''Day of Month'' \<longrightarrow> py_isdigit (v ! 9) \<and> v ! 8 = []) \<and> batch_ordinal_ok orig (v ! 9)"
    "10 < length v \<and> (v ! 10 = ''Week of Month'' \<longrightarrow> py_isdigit (v ! 8) \<and> v ! 9 = []) \<and> batch_ordinal_ok orig (v ! 8)"
    "10 < length v \<and> (v ! 10 = ''Weekly'' \<or> v ! 10 = ''Every Other Week'' \<longrightarrow> v ! 8 = [] \<and> v ! 9 = [])"
    "10 < length v \<and> v ! 10 \<in> set HOUR_TYPES_batch" "0 < length v \<and> v ! 0 \<in> set DAYS_OF_WEEK"
    "2 < length v \<and> time_regex_search (v ! 1) \<and> time_regex_search (v ! 2)"
    "2 < length v \<and> (\<exists>t1 t2. strptime_hm (v ! 1) = Inr t1 \<and> strptime_hm (v ! 2) = Inr t2 \<and> time_gt t2 t1)"
    "\<forall>i\<in>set [3, 4, 5, 6, 11, 12, 13]. i < length v \<and> v ! i = []"
  shows "batch_entry_checks orig v"
  using assms by (auto simp: batch_entry_checks_def)

lemma batch_certifies_mono:
  assumes "batch_certifies cleaned vd vd' P" and "\<And>k value. P k value \<Longrightarrow> Q k value"
  shows "batch_certifies cleaned vd vd' Q"
  using assms by blast

lemma run_validation_batch_steps:
  assumes "run_validation_batch ids cleaned vd = Inr vd'"
  obtains vd1 vd2 vd3 vd4 vd5 vd6 vd7 vd8 where
    "batch_rule (batch_ordinal_step ''Day of Month'' 9 8) ids cleaned vd = Inr vd1"
    "batch_rule (batch_ordinal_step ''Week of Month'' 8 9) ids cleaned vd1 = Inr vd2"
    "batch_rule weekly_batch_step ids cleaned vd2 = Inr vd3"
    "batch_rule hour_types_batch_step ids cleaned vd3 = Inr vd4"
    "batch_rule day_of_week_batch_step ids cleaned vd4 = Inr vd5"
    "batch_rule open_closed_batch_step ids cleaned vd5 = Inr vd6"
    "batch_rule close_batch_step ids cleaned vd6 = Inr vd7"
    "batch_rule null_batch_step ids cleaned vd7 = Inr vd8"
    "test_valid_entry_format_batch ids cleaned vd8 = Inr vd'"
  using assms
  by (auto simp: run_validation_batch_def validation_tests_batch_def py_fold_fun py_bind_Inr_iff
        test_day_of_month_formatting_batch_def test_week_of_month_formatting_batch_def
        test_weekly_formatting_batch_def test_valid_hour_types_batch_def test_valid_day_of_week_batch_def
        test_valid_open_closed_hours_batch_def test_close_hour_greater_than_open_hour_batch_def
        test_all_null_values_empty_string_batch_def)

lemma run_validation_batch_sound:
  assumes "run_validation_batch ids cleaned vd = Inr vd'"
  shows "batch_certifies cleaned vd vd' (\<lambda>k value. entry_format_ok value \<and>
           (\<forall>e\<in>set (entries_of value). batch_entry_checks (dict_get ids k) (fields_of e)))"
proof -
  have n: "9 < (10::nat)" "8 < (10::nat)" by simp_all
  obtain vd1 vd2 vd3 vd4 vd5 vd6 vd7 vd8 where
    h: "batch_rule (batch_ordinal_step ''Day of Month'' 9 8) ids cleaned vd = Inr vd1"
    "batch_rule (batch_ordinal_step ''Week of Month'' 8 9) ids cleaned vd1 = Inr vd2"
    "batch_rule weekly_batch_step ids cleaned vd2 = Inr vd3"
    "batch_rule hour_types_batch_step ids cleaned vd3 = Inr vd4"
    "batch_rule day_of_week_batch_step ids cleaned vd4 = Inr vd5"
    "batch_rule open_closed_batch_step ids cleaned vd5 = Inr vd6"
    "batch_rule close_batch_step ids cleaned vd6 = Inr vd7"
    "batch_rule null_batch_step ids cleaned vd7 = Inr vd8"
    "test_valid_entry_format_batch ids cleaned vd8 = Inr vd'"
    using run_validation_batch_steps [OF assms] by blast
  let ?E = "\<lambda>P k value. \<forall>e\<in>set (entries_of value). P (dict_get ids k) (fields_of e)"
  have r1: "batch_certifies cleaned vd vd1 (?E (\<lambda>orig v. 10 < length v \<and>
              (v ! 10 = ''Day of Month'' \<longrightarrow> py_isdigit (v ! 9) \<and> v ! 8 = []) \<and> batch_ordinal_ok orig (v ! 9)))"
    by (rule batch_rule_sound [OF h(1)]) (rule batch_ordinal_step_sound [OF n])
  have r2: "batch_certifies cleaned vd1 vd2 (?E (\<lambda>orig v. 10 < length v \<and>
              (v ! 10 = ''Week of Month'' \<longrightarrow> py_isdigit (v ! 8) \<and> v ! 9 = []) \<and> batch_ordinal_ok orig (v ! 8)))"
    by (rule batch_rule_sound [OF h(2)]) (rule batch_ordinal_step_sound [OF n(2,1)])
  have r3: "batch_certifies cleaned vd2 vd3 (?E (\<lambda>orig v. 10 < length v \<and>
              (v ! 10 = ''Weekly'' \<or> v ! 10 = ''Every Other Week'' \<longrightarrow> v ! 8 = [] \<and> v ! 9 = [])))"
    by (rule batch_rule_sound [OF h(3)]) (rule weekly_batch_step_sound)
  have r4: "batch_certifies cleaned vd3 vd4 (?E (\<lambda>orig v. 10 < length v \<and> v ! 10 \<in> set HOUR_TYPES_batch))"
    by (rule batch_rule_sound [OF h(4)]) (rule hour_types_batch_step_sound)
  have r5: "batch_certifies cleaned vd4 vd5 (?E (\<lambda>orig v. 0 < length v \<and> v ! 0 \<in> set DAYS_OF_WEEK))"
    by (rule batch_rule_sound [OF h(5)]) (rule day_of_week_batch_step_sound)
  have r6: "batch_certifies cleaned vd5 vd6 (?E (\<lambda>orig v. 2 < length v \<and>
              time_regex_search (v ! 1) \<and> time_regex_search (v ! 2)))"
    by (rule batch_rule_sound [OF h(6)]) (rule open_closed_batch_step_sound)
  have r7: "batch_certifies cleaned vd6 vd7 (?E (\<lambda>orig v. 2 < length v \<and>
              (\<exists>t1 t2. strptime_hm (v ! 1) = Inr t1 \<and> strptime_hm (v ! 2) = Inr t2 \<and> time_gt t2 t1)))"
    by (rule batch_rule_sound [OF h(7)]) (rule close_batch_step_sound)
  have r8: "batch_certifies cleaned vd7 vd8 (?E (\<lambda>orig v.
              \<forall>i\<in>set [3, 4, 5, 6, 11, 12, 13]. i < length v \<and> v ! i = []))"
    by (rule batch_rule_sound [OF h(8)]) (rule null_batch_step_sound)
  have r9: "batch_certifies cleaned vd8 vd' (\<lambda>k value. entry_format_ok value)"
    by (rule entry_format_batch_sound [OF h(9)])
  note c = batch_sound_compose [OF batch_sound_compose [OF batch_sound_compose [OF batch_sound_compose [OF
             batch_sound_compose [OF batch_sound_compose [OF batch_sound_compose [OF batch_sound_compose [OF
             r1 r2] r3] r4] r5] r6] r7] r8] r9]
  show ?thesis
    by (rule batch_certifies_mono [OF c]) (elim conjE, intro conjI ballI, assumption, (rule batch_entry_checks_intro; simp))
qed

text \<open>The loop raises \<open>IndexError\<close> when the body raises only that and some entry of
  some candidate makes it raise, provided every program has a flag.\<close>

lemma batch_rule_raises:
  assumes only: "\<And>orig v acc e. step orig v acc = Inl e \<Longrightarrow> e = IndexError"
    and keys: "set (map fst cleaned) \<subseteq> set (map fst vd)"
    and kv: "(k, cv) \<in> set cleaned" and e: "e \<in> set (entries_of cv)"
    and raise: "\<And>orig acc. \<exists>err. step orig (fields_of e) acc = Inl err"
  shows "batch_rule step ids cleaned vd = Inl IndexError"
  using keys kv unfolding batch_rule_def
proof (induction cleaned arbitrary: vd)
  case (Cons kv' rest)
  obtain key c where kv': "kv' = (key, c)" by (cases kv')
  let ?inner = "py_fold (\<lambda>e acc. step (dict_get ids key) (fields_of e) acc) (entries_of c) True"
  have only': "\<And>x s err. step (dict_get ids key) (fields_of x) s = Inl err \<Longrightarrow> err = IndexError"
    using only by blast
  show ?case
  proof (cases ?inner)
    case (Inl err)
    with py_fold_Inl_only [OF only' Inl] kv' show ?thesis by simp
  next
    case (Inr ok)
    have "(k, cv) \<noteq> (key, c)"
    proof
      assume "(k, cv) = (key, c)"
      with e raise have "?inner = Inl IndexError" by (auto intro: py_fold_raises [OF only'])
      with Inr show False by simp
    qed
    with Cons.prems kv' have kr: "(k, cv) \<in> set rest" by auto
    from Cons.prems kv' have "key \<in> set (map fst vd)" by simp
    then obtain old where old: "dict_get vd key = Inr old"
      by (cases "dict_get vd key") (auto simp: dict_get_Inl)
    from Cons.prems have "set (map fst rest) \<subseteq> set (map fst (dict_set vd key (old \<and> ok)))"
      using map_fst_dict_set_old [OF dict_get_Inr_key [OF old]] by simp
    from Cons.IH [OF this kr] Inr old kv' show ?thesis by simp
  qed
qed simp

lemma batch_ordinal_step_Inl:
  "batch_ordinal_step label k other orig v acc = Inl err \<Longrightarrow> err = IndexError"
  by (auto simp: batch_ordinal_step_def py_field_eq_def py_nth_def py_bind_def py_and_def
           split: if_splits sum.splits)

lemma batch_ordinal_step_short:
  "length v \<le> 10 \<Longrightarrow> \<exists>err. batch_ordinal_step label k other orig v acc = Inl err"
  by (simp add: batch_ordinal_step_def py_field_eq_def py_nth_def)

subsection \<open>The battery in closed form\<close>

text \<open>On entries of at least fourteen fields no rule raises, and each rule body ANDs a
  pure condition into its accumulator.\<close>


lemma batch_ordinal_catch_eq:
  "py_catch_false (py_and (py_or (batch_ordinal_in orig f) (Inr (f = []))) (Inr acc)) =
     (batch_ordinal_ok orig f \<and> acc)"
proof (cases "dict_get INT_TO_DAY_OF_MONTH_batch f")
  case (Inl e)
  then have "f \<noteq> []" by (auto simp: INT_TO_DAY_OF_MONTH_batch_def split: if_splits)
  with Inl show ?thesis by (simp add: batch_ordinal_in_def batch_ordinal_ok_def)
next
  case (Inr ords)
  have nil: "f = [] \<Longrightarrow> ords = []" using Inr by (simp add: INT_TO_DAY_OF_MONTH_batch_def)
  show ?thesis
  proof (cases orig)
    case (Inl e)
    with Inr nil show ?thesis
      by (auto simp: batch_ordinal_in_def batch_ordinal_ok_def py_any_raise)
  next
    case (Inr tx)
    with \<open>dict_get INT_TO_DAY_OF_MONTH_batch f = Inr ords\<close> show ?thesis
      by (auto simp: batch_ordinal_in_def batch_ordinal_ok_def py_any_pure)
  qed
qed

lemma batch_ordinal_step_eq:
  assumes "k < 10" and "other < 10" and "13 < length v"
  shows "batch_ordinal_step label k other orig v acc =
           Inr (((v ! 10 = label \<longrightarrow> py_isdigit (v ! k) \<and> v ! other = []) \<and> batch_ordinal_ok orig (v ! k)) \<and> acc)"
  using assms batch_ordinal_catch_eq [of orig "v ! k"]
  by (cases "v ! 10 = label") (auto simp: batch_ordinal_step_def py_field_eq_def py_nth_def)

lemma weekly_batch_step_eq:
  "13 < length v \<Longrightarrow> weekly_batch_step orig v acc =
     Inr ((v ! 10 = ''Weekly'' \<or> v ! 10 = ''Every Other Week'' \<longrightarrow> v ! 8 = [] \<and> v ! 9 = []) \<and> acc)"
  by (auto simp: weekly_batch_step_def py_field_eq_def py_nth_def)

lemma null_batch_step_eq:
  "13 < length v \<Longrightarrow> null_batch_step orig v acc =
     Inr ((\<forall>i\<in>set [3, 4, 5, 6, 11, 12, 13]. v ! i = []) \<and> acc)"
  by (auto simp: null_batch_step_def fields_empty_eq)

lemma hour_types_batch_step_eq:
  "13 < length v \<Longrightarrow> hour_types_batch_step orig v acc = Inr (v ! 10 \<in> set HOUR_TYPES_batch \<and> acc)"
  by (simp add: hour_types_batch_step_def py_nth_def)

lemma day_of_week_batch_step_eq:
  "13 < length v \<Longrightarrow> day_of_week_batch_step orig v acc = Inr (v ! 0 \<in> set DAYS_OF_WEEK \<and> acc)"
  by (auto simp: day_of_week_batch_step_def py_nth_def)

lemma time_regex_search_not_Nil: "time_regex_search s \<Longrightarrow> s \<noteq> []"
  by (auto simp: time_regex_search_def)

lemma open_closed_batch_step_eq:
  "13 < length v \<Longrightarrow> open_closed_batch_step orig v acc =
     Inr ((time_regex_search (v ! 1) \<and> time_regex_search (v ! 2)) \<and> acc)"
  by (auto simp: open_closed_batch_step_def py_nth_def dest: time_regex_search_not_Nil)

lemma close_batch_step_eq:
  "13 < length v \<Longrightarrow> close_batch_step orig v acc =
     Inr ((case (strptime_hm (v ! 1), strptime_hm (v ! 2)) of
             (Inr t1, Inr t2) \<Rightarrow> time_gt t2 t1 | _ \<Rightarrow> False) \<and> acc)"
  by (auto simp: close_batch_step_def py_nth_def py_bind_def split: sum.splits)


text \<open>The per-program loop with a pure verdict \<open>Q\<close>: on distinct keys that all have
  a flag, it ANDs \<open>Q\<close> into the flag of every program that has a candidate.\<close>

lemma flag_loop_eq:
  assumes "distinct (map fst vd)" and "distinct (map fst cleaned)"
    and "set (map fst cleaned) \<subseteq> set (map fst vd)"
  shows "py_fold (\<lambda>(key, value) vd.
            py_bind (dict_get vd key) (\<lambda>old. Inr (dict_set vd key (old \<and> Q key value)))) cleaned vd =
         Inr (map (\<lambda>(k, b). (k, b \<and> (case dict_get cleaned k of Inr cv \<Rightarrow> Q k cv | Inl _ \<Rightarrow> True))) vd)"
  using assms
proof (induction cleaned arbitrary: vd)
  case Nil
  have "map (\<lambda>(k, b). (k, b)) vd = vd" by (induction vd) auto
  then show ?case by simp
next
  case (Cons kc rest)
  obtain k c where kc: "kc = (k, c)" by (cases kc)
  from Cons.prems kc obtain old where old: "dict_get vd k = Inr old"
    using dict_get_Inl [of vd k] by (cases "dict_get vd k") auto
  let ?vd1 = "map (\<lambda>(k', b). (k', if k' = k then b \<and> Q k c else b)) vd"
  have set1: "dict_set vd k (old \<and> Q k c) = ?vd1"
  proof -
    have "dict_set vd k (old \<and> Q k c) = map (\<lambda>(k', b). (k', if k' = k then old \<and> Q k c else b)) vd"
      by (rule dict_set_distinct [OF Cons.prems(1) old])
    moreover have ko: "(k, old) \<in> set vd" using dict_get_Inr_iff [OF Cons.prems(1)] old by simp
    moreover have "map (\<lambda>(k', b). (k', if k' = k then old \<and> Q k c else b)) vd = ?vd1"
    proof (rule map_cong [OF refl])
      fix x assume x: "x \<in> set vd"
      obtain k' b where xb: "x = (k', b)" by (cases x)
      show "(\<lambda>(k', b). (k', if k' = k then old \<and> Q k c else b)) x =
            (\<lambda>(k', b). (k', if k' = k then b \<and> Q k c else b)) x"
      proof (cases "k' = k")
        case True
        with x xb eq_key_imp_eq_value [OF Cons.prems(1) ko] have "b = old" by simp
        with xb True show ?thesis by simp
      qed (simp add: xb)
    qed
    ultimately show ?thesis by simp
  qed
  have keys1: "map fst ?vd1 = map fst vd" by (induction vd) auto
  have d1: "distinct (map fst ?vd1)" unfolding keys1 by (rule Cons.prems(1))
  have d2: "distinct (map fst rest)" using Cons.prems(2) kc by simp
  have s1: "set (map fst rest) \<subseteq> set (map fst ?vd1)" unfolding keys1 using Cons.prems(3) kc by simp
  note IH = Cons.IH [OF d1 d2 s1]
  have notin: "k \<notin> set (map fst rest)" using Cons.prems kc by simp
  have "map (\<lambda>(k', b). (k', b \<and> (case dict_get rest k' of Inr cv \<Rightarrow> Q k' cv | Inl _ \<Rightarrow> True))) ?vd1 =
        map (\<lambda>(k', b). (k', b \<and> (case dict_get ((k, c) # rest) k' of Inr cv \<Rightarrow> Q k' cv | Inl _ \<Rightarrow> True))) vd"
    unfolding map_map
  proof (rule map_cong [OF refl])
    fix x assume "x \<in> set vd"
    obtain k' b where xb: "x = (k', b)" by (cases x)
    have "dict_get rest k = Inl KeyError" using notin dict_get_Inl [of rest k] by simp
    then show "((\<lambda>(k', b). (k', b \<and> (case dict_get rest k' of Inr cv \<Rightarrow> Q k' cv | Inl _ \<Rightarrow> True))) \<circ>
             (\<lambda>(k', b). (k', if k' = k then b \<and> Q k c else b))) x =
          (\<lambda>(k', b). (k', b \<and> (case dict_get ((k, c) # rest) k' of Inr cv \<Rightarrow> Q k' cv | Inl _ \<Rightarrow> True))) x"
      by (cases "k' = k") (simp_all add: xb)
  qed
  with IH old set1 kc show ?case by simp
qed

lemma batch_rule_eq:
  assumes step: "\<And>orig v acc. 13 < length v \<Longrightarrow> step orig v acc = Inr (P orig v \<and> acc)"
    and dv: "distinct (map fst vd)" and dc: "distinct (map fst cleaned)"
    and sub: "set (map fst cleaned) \<subseteq> set (map fst vd)"
    and long: "\<forall>(k, cv)\<in>set cleaned. \<forall>e\<in>set (entries_of cv). 13 < length (fields_of e)"
  shows "batch_rule step ids cleaned vd =
           Inr (map (\<lambda>(k, b). (k, b \<and> (case dict_get cleaned k of
                   Inr cv \<Rightarrow> (\<forall>e\<in>set (entries_of cv). P (dict_get ids k) (fields_of e)) | Inl _ \<Rightarrow> True))) vd)"
proof -
  have inner: "py_fold (\<lambda>e acc. step orig (fields_of e) acc) es a = Inr ((\<forall>e\<in>set es. P orig (fields_of e)) \<and> a)"
    if "\<forall>e\<in>set es. 13 < length (fields_of e)" for orig es a
    using that by (induction es arbitrary: a) (auto simp: step)
  have "batch_rule step ids cleaned vd =
          py_fold (\<lambda>(key, value) vd.
            py_bind (dict_get vd key) (\<lambda>old. Inr (dict_set vd key (old \<and>
              (\<forall>e\<in>set (entries_of value). P (dict_get ids key) (fields_of e)))))) cleaned vd"
    unfolding batch_rule_def using long by (intro py_fold_cong) (auto simp: inner)
  with flag_loop_eq [OF dv dc sub] show ?thesis by simp
qed


lemma flags_and_keys: "map fst (flags_and V vd) = map fst vd"
  by (induction vd) auto

lemma flags_and_comp: "flags_and W (flags_and V vd) = flags_and (\<lambda>k. V k \<and> W k) vd"
  by (induction vd) auto

lemma batch_rule_eq_keys:
  assumes step: "\<And>orig v acc. 13 < length v \<Longrightarrow> step orig v acc = Inr (P orig v \<and> acc)"
    and keys: "map fst vd' = map fst vd"
    and dv: "distinct (map fst vd)" and dc: "distinct (map fst cleaned)"
    and sub: "set (map fst cleaned) \<subseteq> set (map fst vd)"
    and long: "\<forall>(k, cv)\<in>set cleaned. \<forall>e\<in>set (entries_of cv). 13 < length (fields_of e)"
  shows "batch_rule step ids cleaned vd' = Inr (flags_and (entries_all ids cleaned P) vd')"
  using batch_rule_eq [OF step, where vd = vd' and cleaned = cleaned and ids = ids] dv dc sub long keys by simp

lemma entry_format_batch_eq_keys:
  assumes keys: "map fst vd' = map fst vd"
    and dv: "distinct (map fst vd)" and dc: "distinct (map fst cleaned)"
    and sub: "set (map fst cleaned) \<subseteq> set (map fst vd)"
  shows "test_valid_entry_format_batch ids cleaned vd' =
           Inr (flags_and (\<lambda>k. case dict_get cleaned k of Inr cv \<Rightarrow> entry_format_ok cv | Inl _ \<Rightarrow> True) vd')"
  using flag_loop_eq [of vd' cleaned "\<lambda>_ v. entry_format_ok v"] dv dc sub keys
  by (simp add: test_valid_entry_format_batch_def)


lemma batch_entry_checks_conj:
  "13 < length v \<Longrightarrow> batch_entry_checks orig v =
     (((v ! 10 = ''Day of Month'' \<longrightarrow> py_isdigit (v ! 9) \<and> v ! 8 = []) \<and> batch_ordinal_ok orig (v ! 9)) \<and>
      ((v ! 10 = ''Week of Month'' \<longrightarrow> py_isdigit (v ! 8) \<and> v ! 9 = []) \<and> batch_ordinal_ok orig (v ! 8)) \<and>
      (v ! 10 = ''Weekly'' \<or> v ! 10 = ''Every Other Week'' \<longrightarrow> v ! 8 = [] \<and> v ! 9 = []) \<and>
      v ! 10 \<in> set HOUR_TYPES_batch \<and> v ! 0 \<in> set DAYS_OF_WEEK \<and>
      (time_regex_search (v ! 1) \<and> time_regex_search (v ! 2)) \<and>
      (case (strptime_hm (v ! 1), strptime_hm (v ! 2)) of (Inr t1, Inr t2) \<Rightarrow> time_gt t2 t1 | _ \<Rightarrow> False) \<and>
      (\<forall>i\<in>set [3, 4, 5, 6, 11, 12, 13]. v ! i = []))"
  unfolding batch_entry_checks_def list_all_iff by (simp only: conj_ac simp_thms)

lemma batch_tests_conj:
  assumes dv: "distinct (map fst vd)" and dc: "distinct (map fst cleaned)"
    and sub: "set (map fst cleaned) \<subseteq> set (map fst vd)"
    and long: "\<forall>(k, cv)\<in>set cleaned. \<forall>e\<in>set (entries_of cv). 13 < length (fields_of e)"
  shows "\<forall>t\<in>set validation_tests_batch. \<exists>V. \<forall>vd'. map fst vd' = map fst vd \<longrightarrow>
           t ids cleaned vd' = Inr (flags_and V vd')"
proof -
  have n: "9 < (10::nat)" "8 < (10::nat)" by simp_all
  note eqs = batch_rule_eq_keys [OF batch_ordinal_step_eq [OF n] _ dv dc sub long]
    batch_rule_eq_keys [OF batch_ordinal_step_eq [OF n(2,1)] _ dv dc sub long]
    batch_rule_eq_keys [OF weekly_batch_step_eq _ dv dc sub long]
    batch_rule_eq_keys [OF hour_types_batch_step_eq _ dv dc sub long]
    batch_rule_eq_keys [OF day_of_week_batch_step_eq _ dv dc sub long]
    batch_rule_eq_keys [OF open_closed_batch_step_eq _ dv dc sub long]
    batch_rule_eq_keys [OF close_batch_step_eq _ dv dc sub long]
    batch_rule_eq_keys [OF null_batch_step_eq _ dv dc sub long]
    entry_format_batch_eq_keys [OF _ dv dc sub]
  show ?thesis
    unfolding validation_tests_batch_def
      test_day_of_month_formatting_batch_def test_week_of_month_formatting_batch_def
      test_weekly_formatting_batch_def test_valid_hour_types_batch_def test_valid_day_of_week_batch_def
      test_valid_open_closed_hours_batch_def test_close_hour_greater_than_open_hour_batch_def
      test_all_null_values_empty_string_batch_def
    apply (simp only: list.set insert_iff empty_iff ball_simps)
    apply (intro conjI exI allI impI)
            apply (simp only: eqs)+
    done
qed

text \<open>A list of rules of this kind run one after the other ANDs all their verdicts.\<close>

lemma flags_fold:
  assumes "\<forall>t\<in>set ts. \<forall>vd'. map fst vd' = map fst vd \<longrightarrow> t ids cleaned vd' = Inr (flags_and (VV t) vd')"
    and "map fst vd' = map fst vd"
  shows "py_fold (\<lambda>t vd. t ids cleaned vd) ts vd' = Inr (flags_and (\<lambda>k. \<forall>t\<in>set ts. VV t k) vd')"
  using assms
proof (induction ts arbitrary: vd')
  case Nil
  have "flags_and (\<lambda>k. True) vd' = vd'" by (induction vd') auto
  then show ?case by simp
next
  case (Cons t ts)
  from Cons.prems have t: "t ids cleaned vd' = Inr (flags_and (VV t) vd')" by simp
  from Cons.prems have "map fst (flags_and (VV t) vd') = map fst vd" by (simp only: flags_and_keys)
  with Cons.prems Cons.IH [of "flags_and (VV t) vd'"] have
    "py_fold (\<lambda>t vd. t ids cleaned vd) ts (flags_and (VV t) vd') =
       Inr (flags_and (\<lambda>k. \<forall>t\<in>set ts. VV t k) (flags_and (VV t) vd'))" by simp
  moreover have "flags_and (\<lambda>k. \<forall>t'\<in>set ts. VV t' k) (flags_and (VV t) vd') =
      flags_and (\<lambda>k. \<forall>t'\<in>set (t # ts). VV t' k) vd'"
    by (simp only: flags_and_comp) simp
  ultimately show ?case using t by simp
qed

section \<open>Properties of the batch battery\<close>

text \<open>C10: when the script's nine rules return, a program still flagged valid has a
  candidate whose every entry has exactly fourteen fields, a day of the week, two
  times that the regular expression accepts and strptime parses with the close after
  the open, one of the four batch hour types, empty reserved fields, the shape of its
  hour type and ordinals found in the program's original text.\<close>

theorem run_validation_batch_accepts_sound:
  assumes "run_validation_batch ids cleaned vd = Inr vd'" and "dict_get vd' k = Inr True"
    and "dict_get cleaned k = Inr cv" and "e \<in> set (entries_of cv)"
  shows "length (fields_of e) = 14 \<and> batch_entry_checks (dict_get ids k) (fields_of e)"
proof -
  note c = run_validation_batch_sound [OF assms(1), THEN conjunct2, rule_format, OF assms(2),
             THEN conjunct2, rule_format, OF assms(3)]
  then have f: "entry_format_ok cv"
    and ok: "\<forall>e\<in>set (entries_of cv). batch_entry_checks (dict_get ids k) (fields_of e)" by simp_all
  from ok have "\<forall>e\<in>set (entries_of cv). 13 < length (fields_of e)"
    by (simp add: batch_entry_checks_def)
  from entries_exact_arity [OF f this] assms(4) ok show ?thesis by simp
qed

theorem run_validation_batch_accepts_sound_witness:
  "run_validation_batch [(''7'', ''Every Monday 3pm-5pm'')] [(''7'', ''Monday,15:00,17:00,,,,,,,,Weekly,,,'')]
     [(''7'', True)] = Inr [(''7'', True)] \<and>
   length (fields_of ''Monday,15:00,17:00,,,,,,,,Weekly,,,'') = 14"
proof -
  have h: "run_validation_batch [(''7'', ''Every Monday 3pm-5pm'')] [(''7'', ''Monday,15:00,17:00,,,,,,,,Weekly,,,'')]
     [(''7'', True)] = Inr [(''7'', True)]" by code_simp
  have k: "dict_get [(''7'', True)] ''7'' = Inr True" by simp
  have c: "dict_get [(''7'', ''Monday,15:00,17:00,,,,,,,,Weekly,,,'')] ''7'' = Inr ''Monday,15:00,17:00,,,,,,,,Weekly,,,''"
    by simp
  have e: "''Monday,15:00,17:00,,,,,,,,Weekly,,,'' \<in> set (entries_of ''Monday,15:00,17:00,,,,,,,,Weekly,,,'')"
    by code_simp
  from run_validation_batch_accepts_sound [OF h k c e] h show ?thesis by simp
qed

text \<open>C11: an entry with at most ten fields anywhere in the candidates makes the whole
  battery raise \<open>IndexError\<close> (the first rule indexes field 10 outside its
  \<open>try\<close>), whenever every program of the candidates has a flag, as in the script's
  main block. The design asks for out-of-range access to fail the rule instead.\<close>

theorem run_validation_batch_short_entry_raises:
  assumes "set (map fst cleaned) \<subseteq> set (map fst vd)" and "(k, cv) \<in> set cleaned"
    and "e \<in> set (entries_of cv)" and "length (fields_of e) \<le> 10"
  shows "run_validation_batch ids cleaned vd = Inl IndexError"
proof -
  have "test_day_of_month_formatting_batch ids cleaned vd = Inl IndexError"
    unfolding test_day_of_month_formatting_batch_def
    by (rule batch_rule_raises [OF _ assms(1-3)], erule batch_ordinal_step_Inl,
        rule batch_ordinal_step_short [OF assms(4)])
  then show ?thesis by (simp add: run_validation_batch_def validation_tests_batch_def)
qed

theorem run_validation_batch_short_entry_raises_witness:
  "run_validation_batch [(''7'', ''Mondays 9 to 5'')]
     [(''7'', ''Monday,09:00,17:00,,,,,,,,Weekly,,,;Monday,09:00'')] [(''7'', True)] = Inl IndexError"
proof -
  have e: "''Monday,09:00'' \<in> set (entries_of ''Monday,09:00,17:00,,,,,,,,Weekly,,,;Monday,09:00'')"
    by code_simp
  have l: "length (fields_of ''Monday,09:00'') \<le> 10" by code_simp
  show ?thesis
    by (rule run_validation_batch_short_entry_raises [OF _ _ e l]) simp_all
qed

text \<open>C20: the flags of the batch only fall: after the nine rules return, the flag
  dictionary has the same programs in the same order, and a program flagged valid was
  flagged valid before.\<close>

theorem run_validation_batch_monotone:
  assumes "run_validation_batch ids cleaned vd = Inr vd'"
  shows "map fst vd' = map fst vd \<and> (\<forall>k. dict_get vd' k = Inr True \<longrightarrow> dict_get vd k = Inr True)"
  using run_validation_batch_sound [OF assms] by blast

theorem run_validation_batch_monotone_witness:
  "run_validation_batch [(''1'', ''Mondays''), (''2'', ''Fridays'')]
     [(''1'', ''Monday,15:00,17:00,,,,,,,,Weekly,,,''), (''2'', ''Friday,17:00,15:00,,,,,,,,Weekly,,,'')]
     [(''1'', True), (''2'', True)] = Inr [(''1'', True), (''2'', False)] \<and>
   map fst [(''1'', True), (''2'', False)] = map fst [(''1'', True), (''2'', True)]"
proof -
  have h: "run_validation_batch [(''1'', ''Mondays''), (''2'', ''Fridays'')]
     [(''1'', ''Monday,15:00,17:00,,,,,,,,Weekly,,,''), (''2'', ''Friday,17:00,15:00,,,,,,,,Weekly,,,'')]
     [(''1'', True), (''2'', True)] = Inr [(''1'', True), (''2'', False)]" by code_simp
  from run_validation_batch_monotone [OF h] h show ?thesis by simp
qed

text \<open>C21: the batch accepts a program only if every ordinal field of its candidate
  is empty or one of the digits 1 to 5 that its ordinal table knows; a day of month
  such as 15 always fails the rule.\<close>

theorem run_validation_batch_ordinal_range:
  assumes "run_validation_batch ids cleaned vd = Inr vd'" and "dict_get vd' k = Inr True"
    and "dict_get cleaned k = Inr cv" and "e \<in> set (entries_of cv)"
  shows "fields_of e ! 8 \<in> {[], ''1'', ''2'', ''3'', ''4'', ''5''} \<and>
         fields_of e ! 9 \<in> {[], ''1'', ''2'', ''3'', ''4'', ''5''}"
proof -
  have range: "f \<in> {[], ''1'', ''2'', ''3'', ''4'', ''5''}" if "batch_ordinal_ok orig f" for orig f
    using that dict_get_Inr_key [of INT_TO_DAY_OF_MONTH_batch f]
    by (auto simp: batch_ordinal_ok_def INT_TO_DAY_OF_MONTH_batch_def split: sum.splits)
  from run_validation_batch_sound [OF assms(1)] assms(2-4)
  have "batch_entry_checks (dict_get ids k) (fields_of e)" by auto
  then have "batch_ordinal_ok (dict_get ids k) (fields_of e ! 8)" and
    "batch_ordinal_ok (dict_get ids k) (fields_of e ! 9)" by (simp_all add: batch_entry_checks_def)
  then show ?thesis using range by blast
qed

theorem run_validation_batch_ordinal_range_witness:
  "run_validation_batch [(''7'', ''3rd Tuesday of the month, 9am-10am'')]
     [(''7'', ''Tuesday,09:00,10:00,,,,,,,3,Day of Month,,,'')] [(''7'', True)] = Inr [(''7'', True)] \<and>
   run_validation_batch [(''7'', ''15th of the month, 9am-10am'')]
     [(''7'', ''Tuesday,09:00,10:00,,,,,,,15,Day of Month,,,'')] [(''7'', True)] = Inr [(''7'', False)] \<and>
   fields_of ''Tuesday,09:00,10:00,,,,,,,3,Day of Month,,,'' ! 9 = ''3''"
proof -
  have h: "run_validation_batch [(''7'', ''3rd Tuesday of the month, 9am-10am'')]
     [(''7'', ''Tuesday,09:00,10:00,,,,,,,3,Day of Month,,,'')] [(''7'', True)] = Inr [(''7'', True)]" by code_simp
  have h2: "run_validation_batch [(''7'', ''15th of the month, 9am-10am'')]
     [(''7'', ''Tuesday,09:00,10:00,,,,,,,15,Day of Month,,,'')] [(''7'', True)] = Inr [(''7'', False)]" by code_simp
  have e: "''Tuesday,09:00,10:00,,,,,,,3,Day of Month,,,'' \<in> set (entries_of ''Tuesday,09:00,10:00,,,,,,,3,Day of Month,,,'')"
    by code_simp
  from run_validation_batch_ordinal_range [OF h _ _ e] h h2 show ?thesis by code_simp
qed
text \<open>C23: the batch battery in closed form: on distinct keys, every program of the
  candidates having a flag, and entries of at least fourteen fields, no rule raises and
  the nine rules AND the verdict \<open>batch_verdict\<close> (the counting check and every entry
  check) into every flag.\<close>

theorem run_validation_batch_eq:
  assumes dv: "distinct (map fst vd)" and dc: "distinct (map fst cleaned)"
    and sub: "set (map fst cleaned) \<subseteq> set (map fst vd)"
    and long: "\<forall>(k, cv)\<in>set cleaned. \<forall>e\<in>set (entries_of cv). 13 < length (fields_of e)"
  shows "run_validation_batch ids cleaned vd = Inr (flags_and (batch_verdict ids cleaned) vd)"
proof -
  have n: "9 < (10::nat)" "8 < (10::nat)" by simp_all
  note eqs = batch_rule_eq_keys [OF batch_ordinal_step_eq [OF n] _ dv dc sub long]
    batch_rule_eq_keys [OF batch_ordinal_step_eq [OF n(2,1)] _ dv dc sub long]
    batch_rule_eq_keys [OF weekly_batch_step_eq _ dv dc sub long]
    batch_rule_eq_keys [OF hour_types_batch_step_eq _ dv dc sub long]
    batch_rule_eq_keys [OF day_of_week_batch_step_eq _ dv dc sub long]
    batch_rule_eq_keys [OF open_closed_batch_step_eq _ dv dc sub long]
    batch_rule_eq_keys [OF close_batch_step_eq _ dv dc sub long]
    batch_rule_eq_keys [OF null_batch_step_eq _ dv dc sub long]
    entry_format_batch_eq_keys [OF _ dv dc sub]
  show ?thesis
    unfolding run_validation_batch_def validation_tests_batch_def py_fold_fun
      test_day_of_month_formatting_batch_def test_week_of_month_formatting_batch_def
      test_weekly_formatting_batch_def test_valid_hour_types_batch_def test_valid_day_of_week_batch_def
      test_valid_open_closed_hours_batch_def test_close_hour_greater_than_open_hour_batch_def
      test_all_null_values_empty_string_batch_def
    apply (simp only: eqs flags_and_keys py_bind_simps flags_and_comp)
    apply (rule arg_cong [where f = Inr], rule map_cong [OF refl])
    subgoal for x
    proof (cases x)
      case (Pair k b)
      show ?thesis
      proof (cases "dict_get cleaned k")
        case (Inl e)
        with Pair show ?thesis by (simp add: batch_verdict_def)
      next
        case (Inr cv)
        with dict_get_Inr_iff [OF dc] long have "\<forall>e\<in>set (entries_of cv). 13 < length (fields_of e)"
          by fastforce
        with Inr Pair show ?thesis
          by (simp add: batch_verdict_def list_all_iff batch_entry_checks_conj ball_conj_distrib conj_ac
              cong: ball_cong)
      qed
    qed
    done
qed


theorem run_validation_batch_eq_witness:
  "run_validation_batch [(''1'', ''Mondays 3-5''), (''2'', ''Fridays 5-3'')]
     [(''1'', ''Monday,15:00,17:00,,,,,,,,Weekly,,,''), (''2'', ''Friday,17:00,15:00,,,,,,,,Weekly,,,'')]
     [(''1'', True), (''2'', True)] = Inr [(''1'', True), (''2'', False)]"
proof -
  have long: "\<forall>(k, cv)\<in>set [(''1'', ''Monday,15:00,17:00,,,,,,,,Weekly,,,''), (''2'', ''Friday,17:00,15:00,,,,,,,,Weekly,,,'')].
      \<forall>e\<in>set (entries_of cv). 13 < length (fields_of e)" by code_simp
  have v: "flags_and (batch_verdict [(''1'', ''Mondays 3-5''), (''2'', ''Fridays 5-3'')]
     [(''1'', ''Monday,15:00,17:00,,,,,,,,Weekly,,,''), (''2'', ''Friday,17:00,15:00,,,,,,,,Weekly,,,'')])
     [(''1'', True), (''2'', True)] = [(''1'', True), (''2'', False)]" by code_simp
  have d1: "distinct (map fst [(''1'', True), (''2'', True)])" by simp
  have d2: "distinct (map fst [(''1'', ''Monday,15:00,17:00,,,,,,,,Weekly,,,''), (''2'', ''Friday,17:00,15:00,,,,,,,,Weekly,,,'')])" by simp
  have d3: "set (map fst [(''1'', ''Monday,15:00,17:00,,,,,,,,Weekly,,,''), (''2'', ''Friday,17:00,15:00,,,,,,,,Weekly,,,'')]) \<subseteq> set (map fst [(''1'', True), (''2'', True)])" by simp
  from run_validation_batch_eq [OF d1 d2 d3 long] v show ?thesis by (simp only:)
qed

text \<open>C24: the order of the batch rules does not matter on such input: any list of the
  same nine rules, in any order, gives the flags of the script's order, as the design
  says of an AND-reduction.\<close>

theorem run_validation_batch_order_irrelevant:
  assumes ts: "set ts = set validation_tests_batch"
    and dv: "distinct (map fst vd)" and dc: "distinct (map fst cleaned)"
    and sub: "set (map fst cleaned) \<subseteq> set (map fst vd)"
    and long: "\<forall>(k, cv)\<in>set cleaned. \<forall>e\<in>set (entries_of cv). 13 < length (fields_of e)"
  shows "py_fold (\<lambda>t vd. t ids cleaned vd) ts vd = run_validation_batch ids cleaned vd"
proof -
  from batch_tests_conj [OF dv dc sub long, of ids] have "\<exists>VV. \<forall>t\<in>set validation_tests_batch.
      \<forall>vd'. map fst vd' = map fst vd \<longrightarrow> t ids cleaned vd' = Inr (flags_and (VV t) vd')"
    by (rule bchoice)
  then obtain VV where
    VV: "\<forall>t\<in>set validation_tests_batch. \<forall>vd'. map fst vd' = map fst vd \<longrightarrow>
           t ids cleaned vd' = Inr (flags_and (VV t) vd')"
    by blast
  with ts have "\<forall>t\<in>set ts. \<forall>vd'. map fst vd' = map fst vd \<longrightarrow>
           t ids cleaned vd' = Inr (flags_and (VV t) vd')" by simp
  from flags_fold [OF this refl] flags_fold [OF VV refl] ts show ?thesis
    by (simp add: run_validation_batch_def)
qed

theorem run_validation_batch_order_irrelevant_witness:
  "py_fold (\<lambda>t vd. t [(''1'', ''Fridays 5-3'')] [(''1'', ''Friday,17:00,15:00,,,,,,,,Weekly,,,'')] vd)
     (rev validation_tests_batch) [(''1'', True)] = Inr [(''1'', False)]"
proof -
  have h: "run_validation_batch [(''1'', ''Fridays 5-3'')] [(''1'', ''Friday,17:00,15:00,,,,,,,,Weekly,,,'')]
     [(''1'', True)] = Inr [(''1'', False)]" by code_simp
  have long: "\<forall>(k, cv)\<in>set [(''1'', ''Friday,17:00,15:00,,,,,,,,Weekly,,,'')].
      \<forall>e\<in>set (entries_of cv). 13 < length (fields_of e)" by code_simp
  have ts: "set (rev validation_tests_batch) = set validation_tests_batch" by simp
  have d1: "distinct (map fst [(''1'', True)])" by simp
  have d2: "distinct (map fst [(''1'', ''Friday,17:00,15:00,,,,,,,,Weekly,,,'')])" by simp
  have d3: "set (map fst [(''1'', ''Friday,17:00,15:00,,,,,,,,Weekly,,,'')]) \<subseteq> set (map fst [(''1'', True)])"
    by simp
  from run_validation_batch_order_irrelevant [OF ts d1 d2 d3 long] h
  show ?thesis by (simp only:)
qed

end
