(* ===== verification/Reconciliation.thy ===== *)
theory Reconciliation
  imports Batch_Rules Text_Adapter
begin

text \<open>
  The driver and the reconciliation layer of the batch script src/clean_hours.py:
  reading the programs from the bulk-upload table (\<open>create_id_hours_dict\<close>), one
  model call per program (\<open>format_hours_iteratively\<close>), the battery of
  \<open>Batch_Rules\<close>, the accept-or-revert dictionary (\<open>filter_invalid_values\<close>) and
  the expansion of accepted candidates into bulk-upload rows
  (\<open>convert_id_hours_dict_to_df\<close>), composed as in the script's main block
  (\<open>batch_main\<close>). A pandas table is a record of column names and rows of string
  cells; \<open>.loc[len(df)] = entry\<close> appends a row and raises \<open>ValueError\<close> when the
  entry's length differs from the number of columns.
\<close>

record frame =
  columns :: "string list"
  rows :: "string list list"

section \<open>Tables\<close>

text \<open>\<open>df[name]\<close>: the position of a column, \<open>KeyError\<close> when absent.\<close>

definition frame_col :: "frame \<Rightarrow> string \<Rightarrow> nat py" where
  "frame_col df name =
     (if name \<in> set (columns df) then Inr (length (takeWhile (\<lambda>c. c \<noteq> name) (columns df)))
      else Inl KeyError)"

text \<open>\<open>row[name]\<close> for a row of \<open>df.iterrows()\<close>.\<close>

definition row_get :: "frame \<Rightarrow> string list \<Rightarrow> string \<Rightarrow> string py" where
  "row_get df row name = py_bind (frame_col df name) (py_nth row)"

text \<open>\<open>out.loc[len(out)] = entry\<close>.\<close>

definition frame_append :: "frame \<Rightarrow> string list \<Rightarrow> frame py" where
  "frame_append out entry =
     (if length entry = length (columns out) then Inr (out\<lparr>rows := rows out @ [entry]\<rparr>)
      else Inl ValueError)"

text \<open>\<open>df.loc[df['Program External ID'] == id].values.tolist()[0]\<close>: the first row
  with that identifier.\<close>

definition first_row :: "frame \<Rightarrow> string \<Rightarrow> string list py" where
  "first_row df pid =
     py_bind (frame_col df ''Program External ID'') (\<lambda>i.
       py_nth (filter (\<lambda>r. r ! i = pid) (rows df)) 0)"

section \<open>The driver\<close>

text \<open>\<open>create_id_hours_dict\<close>: the right-hand side \<open>str(row["Hours Uncleaned"]).strip()\<close>
  is evaluated before the key; a repeated identifier keeps its first position and its
  last text.\<close>

definition create_id_hours_dict :: "frame \<Rightarrow> hours_dict py" where
  "create_id_hours_dict df =
     py_fold (\<lambda>row d.
        py_bind (row_get df row ''Hours Uncleaned'') (\<lambda>hrs.
        py_bind (row_get df row ''Program External ID'') (\<lambda>pid.
        Inr (dict_set d pid (py_strip hrs)))))
       (rows df) []"

text \<open>The script's \<open>call_oai\<close>: the prompt as is, the completion's text unprocessed.\<close>

definition call_oai_batch :: "generator \<Rightarrow> nat \<Rightarrow> string \<Rightarrow> string py" where
  "call_oai_batch gen n prompt = gen n prompt"

fun format_hours_loop :: "generator \<Rightarrow> nat \<Rightarrow> hours_dict \<Rightarrow> hours_dict \<Rightarrow> hours_dict py" where
  "format_hours_loop gen n [] d = Inr d"
| "format_hours_loop gen n ((key, v) # rest) d =
     py_bind (call_oai_batch gen n v) (\<lambda>nv. format_hours_loop gen (Suc n) rest (dict_set d key nv))"

definition format_hours_iteratively :: "generator \<Rightarrow> hours_dict \<Rightarrow> hours_dict py" where
  "format_hours_iteratively gen ids = format_hours_loop gen 0 ids []"

section \<open>Reconciliation\<close>

definition filter_invalid_values :: "hours_dict \<Rightarrow> hours_dict \<Rightarrow> valid_dict \<Rightarrow> hours_dict py" where
  "filter_invalid_values ids cleaned vd =
     py_fold (\<lambda>(key, _) d.
        py_bind (dict_get vd key) (\<lambda>ok.
          if ok then py_bind (dict_get cleaned key) (\<lambda>c. Inr (dict_set d key c))
          else py_bind (dict_get ids key) (\<lambda>orig. Inr (dict_set d key orig))))
       cleaned []"

text \<open>One iteration of the loop of \<open>convert_id_hours_dict_to_df\<close>: the first
  \<open>if\<close> truncates the row to its non-hours columns and builds one entry per
  candidate entry, the second appends them (falling back to fifteen empty hours cells
  when pandas rejects the length) or appends the untouched row.\<close>

definition convert_step :: "hours_dict \<Rightarrow> valid_dict \<Rightarrow> frame \<Rightarrow> string \<Rightarrow> frame \<Rightarrow> frame py" where
  "convert_step cleaned vd df pid out =
     py_bind (first_row df pid) (\<lambda>row0.
     py_bind (dict_get vd pid) (\<lambda>ok.
     py_bind (if ok then
                (let row = py_slice_to row0 (int (length (columns df)) - 15) in
                 py_bind (dict_get cleaned pid) (\<lambda>c.
                   Inr (row, map (\<lambda>e. row @ fields_of e @ [[]]) (entries_of c))))
              else Inr (row0, [])) (\<lambda>(row, new_entries).
     py_bind (dict_get vd pid) (\<lambda>ok2.
       if ok2 then
         py_fold (\<lambda>entry out.
             case frame_append out entry of
               Inl ValueError \<Rightarrow> frame_append out (row @ replicate 15 [])
             | res \<Rightarrow> res)
           new_entries out
       else frame_append out row))))"

definition convert_id_hours_dict_to_df :: "hours_dict \<Rightarrow> valid_dict \<Rightarrow> frame \<Rightarrow> frame py" where
  "convert_id_hours_dict_to_df cleaned vd df =
     py_bind (frame_col df ''Program External ID'') (\<lambda>i.
     py_bind (py_mapM (\<lambda>row. py_nth row i) (rows df)) (\<lambda>pids.
       py_fold (convert_step cleaned vd df) pids \<lparr>columns = columns df, rows = []\<rparr>))"

section \<open>The main block\<close>

definition batch_main :: "generator \<Rightarrow> frame \<Rightarrow> frame py" where
  "batch_main gen df =
     py_bind (create_id_hours_dict df) (\<lambda>ids.
     (let vd = map (\<lambda>(key, _). (key, True)) ids in
      py_bind (format_hours_iteratively gen ids) (\<lambda>cleaned.
      py_bind (run_validation_batch ids cleaned vd) (\<lambda>vd'.
      py_bind (filter_invalid_values ids cleaned vd') (\<lambda>_.
      convert_id_hours_dict_to_df cleaned vd' df)))))"

text \<open>The name of the file the table is written to:
  \<open>args.file.replace(".csv", "") + "_HOURS_CLEANED.csv"\<close>. Every occurrence of
  \<open>.csv\<close> in the path is removed, not only the extension.\<close>

definition cleaned_csv_path :: "string \<Rightarrow> string" where
  "cleaned_csv_path file = py_replace_str ''.csv'' [] file @ ''_HOURS_CLEANED.csv''"

section \<open>What reconciliation produces\<close>

text \<open>The bulk-upload rows of an accepted candidate: one per entry, the row's
  non-hours columns (all but the last fifteen), then the entry's fourteen fields and an
  empty cell; an entry of another arity gets fifteen empty cells instead. A rejected
  program keeps its row.\<close>

definition bulk_rows :: "nat \<Rightarrow> string list \<Rightarrow> string \<Rightarrow> string list list" where
  "bulk_rows ncols row c =
     map (\<lambda>e. if length (fields_of e) = 14 then take (ncols - 15) row @ fields_of e @ [[]]
              else take (ncols - 15) row @ replicate 15 [])
         (entries_of c)"

definition reconciled_rows :: "hours_dict \<Rightarrow> valid_dict \<Rightarrow> nat \<Rightarrow> nat \<Rightarrow> string list \<Rightarrow> string list list" where
  "reconciled_rows cleaned vd ncols i row =
     (case (dict_get vd (row ! i), dict_get cleaned (row ! i)) of
        (Inr True, Inr c) \<Rightarrow> bulk_rows ncols row c
      | _ \<Rightarrow> [row])"

section \<open>Lemmas\<close>

lemma py_slice_to_nonneg [simp]: "0 \<le> j \<Longrightarrow> py_slice_to xs j = take (nat j) xs"
  by (simp add: py_slice_to_def)

lemma frame_append_fits [simp]:
  "length entry = length (columns out) \<Longrightarrow> frame_append out entry = Inr (out\<lparr>rows := rows out @ [entry]\<rparr>)"
  by (simp add: frame_append_def)

lemma py_mapM_nth:
  "\<forall>r\<in>set rs. i < length r \<Longrightarrow> py_mapM (\<lambda>row. py_nth row i) rs = Inr (map (\<lambda>r. r ! i) rs)"
  by (induction rs) (auto simp: py_nth_def)

lemma filter_distinct_key:
  "distinct (map f xs) \<Longrightarrow> x \<in> set xs \<Longrightarrow> filter (\<lambda>y. f y = f x) xs = [x]"
proof (induction xs)
  case (Cons a xs)
  then show ?case
    by (cases "a = x") (auto simp: filter_empty_conv rev_image_eqI)
qed simp

lemma first_row_distinct:
  assumes "frame_col df ''Program External ID'' = Inr i" and "distinct (map (\<lambda>r. r ! i) (rows df))"
    and "r \<in> set (rows df)"
  shows "first_row df (r ! i) = Inr r"
  using assms filter_distinct_key [of "\<lambda>r. r ! i" "rows df" r]
  by (simp add: first_row_def py_nth_def)

text \<open>The inner loop of an accepted program: every entry is appended, as built when its
  length fits and as the fallback otherwise.\<close>

lemma append_entries_eq:
  assumes "length (columns out) = ncols" and "length row + 15 = ncols"
  shows "py_fold (\<lambda>entry out.
             case frame_append out entry of
               Inl ValueError \<Rightarrow> frame_append out (row @ replicate 15 [])
             | res \<Rightarrow> res) es out =
         Inr (out\<lparr>rows := rows out @ map (\<lambda>e. if length e = ncols then e else row @ replicate 15 []) es\<rparr>)"
  using assms(1)
proof (induction es arbitrary: out)
  case (Cons e es)
  then show ?case using assms(2) by (simp add: frame_append_def)
qed simp

lemma bulk_rows_built:
  assumes "15 \<le> ncols" and "length row = ncols"
  shows "map (\<lambda>e. if length e = ncols then e else take (ncols - 15) row @ replicate 15 [])
           (map (\<lambda>e. take (ncols - 15) row @ fields_of e @ [[]]) (entries_of c)) =
         bulk_rows ncols row c"
  using assms by (auto simp: bulk_rows_def)

lemma frame_col_Inr: "frame_col df name = Inr i \<Longrightarrow> i < length (columns df) \<and> columns df ! i = name"
proof -
  have "name \<in> set xs \<Longrightarrow> length (takeWhile (\<lambda>c. c \<noteq> name) xs) < length xs \<and>
          xs ! length (takeWhile (\<lambda>c. c \<noteq> name) xs) = name" for xs
    by (induction xs) auto
  then show "frame_col df name = Inr i \<Longrightarrow> i < length (columns df) \<and> columns df ! i = name"
    by (auto simp: frame_col_def split: if_splits)
qed

text \<open>One iteration on a row whose program has a flag, and a candidate when accepted.\<close>

lemma convert_step_eq:
  assumes fc: "frame_col df ''Program External ID'' = Inr i"
    and dist: "distinct (map (\<lambda>r. r ! i) (rows df))" and r: "r \<in> set (rows df)"
    and len: "length r = length (columns df)" and wide: "15 \<le> length (columns df)"
    and flag: "dict_get vd (r ! i) = Inr ok"
    and cand: "ok \<Longrightarrow> dict_get cleaned (r ! i) = Inr c"
    and out: "length (columns out) = length (columns df)"
  shows "convert_step cleaned vd df (r ! i) out =
           Inr (out\<lparr>rows := rows out @ reconciled_rows cleaned vd (length (columns df)) i r\<rparr>)"
proof (cases ok)
  case True
  let ?n = "length (columns df)"
  have sl: "py_slice_to r (int ?n - 15) = take (?n - 15) r" using wide by (simp add: nat_diff_distrib)
  have rl: "length (take (?n - 15) r) + 15 = ?n" using len wide by simp
  let ?row = "py_slice_to r (int ?n - 15)"
  have f: "py_fold (\<lambda>entry out.
             case frame_append out entry of
               Inl ValueError \<Rightarrow> frame_append out (?row @ replicate 15 [])
             | res \<Rightarrow> res) (map (\<lambda>e. ?row @ fields_of e @ [[]]) (entries_of c)) out =
           Inr (out\<lparr>rows := rows out @ bulk_rows ?n r c\<rparr>)"
    unfolding sl
    by (simp only: append_entries_eq [OF out rl] bulk_rows_built [OF wide len, symmetric])
  show ?thesis
    unfolding convert_step_def Let_def
    using first_row_distinct [OF fc dist r] flag cand True f
    by (simp add: reconciled_rows_def)
next
  case False
  then show ?thesis
    using first_row_distinct [OF fc dist r] flag len out
    by (simp add: convert_step_def reconciled_rows_def)
qed

lemma convert_fold_eq:
  assumes fc: "frame_col df ''Program External ID'' = Inr i"
    and dist: "distinct (map (\<lambda>r. r ! i) (rows df))"
    and wf: "\<forall>r\<in>set (rows df). length r = length (columns df)" and wide: "15 \<le> length (columns df)"
    and flags: "\<forall>r\<in>set (rows df). \<exists>ok. dict_get vd (r ! i) = Inr ok \<and>
                   (ok \<longrightarrow> (\<exists>c. dict_get cleaned (r ! i) = Inr c))"
    and sub: "set rs \<subseteq> set (rows df)" and out: "length (columns out) = length (columns df)"
  shows "py_fold (convert_step cleaned vd df) (map (\<lambda>r. r ! i) rs) out =
           Inr (out\<lparr>rows := rows out @ concat (map (reconciled_rows cleaned vd (length (columns df)) i) rs)\<rparr>)"
  using sub out
proof (induction rs arbitrary: out)
  case (Cons r rs)
  then have r: "r \<in> set (rows df)" by simp
  with flags obtain ok c where flag: "dict_get vd (r ! i) = Inr ok"
    and cand: "ok \<Longrightarrow> dict_get cleaned (r ! i) = Inr c" by blast
  from wf r have len: "length r = length (columns df)" by blast
  note step = convert_step_eq [OF fc dist r len wide flag cand Cons.prems(2)]
  from Cons.prems have "set rs \<subseteq> set (rows df)" by simp
  from Cons.IH [OF this] Cons.prems(2) step show ?case by simp
qed simp

text \<open>The table read by the driver, when the identifiers are distinct: one pair per
  row, in row order, with the stripped text of the hours column.\<close>

lemma create_id_hours_dict_eq:
  assumes fi: "frame_col df ''Program External ID'' = Inr i" and fh: "frame_col df ''Hours Uncleaned'' = Inr h"
    and wf: "\<forall>r\<in>set (rows df). length r = length (columns df)"
    and dist: "distinct (map (\<lambda>r. r ! i) (rows df))"
  shows "create_id_hours_dict df = Inr (map (\<lambda>r. (r ! i, py_strip (r ! h))) (rows df))"
proof -
  from frame_col_Inr [OF fi] frame_col_Inr [OF fh] wf
  have ix: "\<forall>r\<in>set (rows df). i < length r \<and> h < length r" by simp
  show ?thesis unfolding create_id_hours_dict_def
    using py_fold_dict_set_fresh [where K = "\<lambda>r. r ! i" and V = "\<lambda>r. py_strip (r ! h)" and acc = "[]"]
      ix dist fi fh by (simp add: row_get_def py_nth_def)
qed

text \<open>One model call per program, in the dictionary's order: the candidates have the
  programs' keys in the same order, and a failing call ends the run.\<close>

lemma format_hours_loop_keys:
  "format_hours_loop gen n xs d = Inr d' \<Longrightarrow> distinct (map fst xs) \<Longrightarrow>
     set (map fst xs) \<inter> set (map fst d) = {} \<Longrightarrow> map fst d' = map fst d @ map fst xs"
proof (induction gen n xs d rule: format_hours_loop.induct)
  case (2 gen n key v rest d)
  then obtain nv where "call_oai_batch gen n v = Inr nv"
    and "format_hours_loop gen (Suc n) rest (dict_set d key nv) = Inr d'"
    by (auto simp: py_bind_Inr_iff)
  with 2 show ?case by (auto simp: dict_set_new)
qed simp

lemma format_hours_loop_raises:
  "m < length xs \<Longrightarrow> gen (n + m) (snd (xs ! m)) = Inl e \<Longrightarrow>
     (\<forall>j<m. \<exists>t. gen (n + j) (snd (xs ! j)) = Inr t) \<Longrightarrow> format_hours_loop gen n xs d = Inl e"
proof (induction gen n xs d arbitrary: m rule: format_hours_loop.induct)
  case (2 gen n key v rest d)
  show ?case
  proof (cases m)
    case 0
    with 2 show ?thesis by (simp add: call_oai_batch_def)
  next
    case (Suc m')
    from 2(4) Suc obtain t where t: "gen n v = Inr t" by (metis add_0_right nth_Cons_0 snd_conv zero_less_Suc)
    have a: "call_oai_batch gen n v = Inr t" by (simp add: call_oai_batch_def t)
    have b: "m' < length rest" using 2(2) Suc by simp
    have c: "gen (Suc n + m') (snd (rest ! m')) = Inl e" using 2(3) Suc by simp
    have d: "\<forall>j<m'. \<exists>t. gen (Suc n + j) (snd (rest ! j)) = Inr t"
      using 2(4) Suc by (metis Suc_less_eq add_Suc_shift nth_Cons_Suc)
    have "format_hours_loop gen (Suc n) rest (dict_set d key t) = Inl e" by (rule 2(1) [OF b c d])
    with a show ?thesis by simp
  qed
qed simp

text \<open>The accept-or-revert dictionary over fresh keys.\<close>

lemma filter_invalid_values_fold:
  assumes "distinct (map fst xs)" and "set (map fst xs) \<inter> set (map fst d0) = {}"
    and "\<forall>(k, c)\<in>set xs. dict_get cleaned k = Inr c \<and>
            (dict_get vd k = Inr True \<or> (dict_get vd k = Inr False \<and> k \<in> set (map fst ids)))"
  shows "py_fold (\<lambda>(key, _) d.
            py_bind (dict_get vd key) (\<lambda>ok.
              if ok then py_bind (dict_get cleaned key) (\<lambda>c. Inr (dict_set d key c))
              else py_bind (dict_get ids key) (\<lambda>orig. Inr (dict_set d key orig)))) xs d0 =
         Inr (d0 @ map (\<lambda>(k, c). (k, if dict_get vd k = Inr True then c else projr (dict_get ids k))) xs)"
  using assms
proof (induction xs arbitrary: d0)
  case (Cons kc xs)
  obtain k c where kc: "kc = (k, c)" by (cases kc)
  from Cons.prems kc have fresh: "k \<notin> set (map fst d0)" by auto
  from Cons.prems kc have c: "dict_get cleaned k = Inr c" by auto
  show ?case
  proof (cases "dict_get vd k = Inr True")
    case True
    from Cons.prems kc have "set (map fst xs) \<inter> set (map fst (d0 @ [(k, c)])) = {}" by auto
    with Cons True kc c fresh show ?thesis by (simp add: dict_set_new)
  next
    case False
    with Cons.prems kc have f: "dict_get vd k = Inr False" and "k \<in> set (map fst ids)" by auto
    then obtain o' where o: "dict_get ids k = Inr o'"
      by (cases "dict_get ids k") (auto simp: dict_get_Inl)
    from Cons.prems kc have "set (map fst xs) \<inter> set (map fst (d0 @ [(k, o')])) = {}" by auto
    with Cons f kc o fresh show ?thesis by (simp add: dict_set_new)
  qed
qed simp

lemma convert_eq:
  assumes fc: "frame_col df ''Program External ID'' = Inr i"
    and wf: "\<forall>r\<in>set (rows df). length r = length (columns df)" and wide: "15 \<le> length (columns df)"
    and dist: "distinct (map (\<lambda>r. r ! i) (rows df))"
    and flags: "\<forall>r\<in>set (rows df). \<exists>ok. dict_get vd (r ! i) = Inr ok \<and>
                   (ok \<longrightarrow> (\<exists>c. dict_get cleaned (r ! i) = Inr c))"
  shows "convert_id_hours_dict_to_df cleaned vd df =
           Inr \<lparr>columns = columns df,
                rows = concat (map (reconciled_rows cleaned vd (length (columns df)) i) (rows df))\<rparr>"
proof -
  from frame_col_Inr [OF fc] wf have "\<forall>r\<in>set (rows df). i < length r" by simp
  from py_mapM_nth [OF this] convert_fold_eq [OF fc dist wf wide flags, of "rows df"] fc
  show ?thesis by (simp add: convert_id_hours_dict_to_df_def)
qed

lemma dict_get_key_Inr: "k \<in> set (map fst d) \<Longrightarrow> \<exists>v. dict_get d k = Inr v"
  by (cases "dict_get d k") (auto simp: dict_get_Inl)

lemma reconciled_rows_not_Nil: "reconciled_rows cleaned vd ncols i r \<noteq> []"
  by (simp add: reconciled_rows_def bulk_rows_def split: sum.splits bool.splits)

text \<open>The bulk-upload rows of a candidate whose entries all have fourteen fields are
  built without the fallback.\<close>

lemma bulk_rows_exact:
  "\<forall>e\<in>set (entries_of c). length (fields_of e) = 14 \<Longrightarrow>
     bulk_rows ncols row c = map (\<lambda>e. take (ncols - 15) row @ fields_of e @ [[]]) (entries_of c)"
  by (simp add: bulk_rows_def)

subsection \<open>The output file\<close>

text \<open>A path whose only \<open>.csv\<close> is its extension gets the suffix in place of the
  extension.\<close>

lemma cleaned_csv_path_extension:
  "\<not> py_contains ''.csv'' (p @ ''.cs'') \<Longrightarrow> cleaned_csv_path (p @ ''.csv'') = p @ ''_HOURS_CLEANED.csv''"
  using py_replace_str_suffix [of "''.csv''" p "[]"] by (simp add: cleaned_csv_path_def)

text \<open>A \<open>.csv\<close> elsewhere in the path is removed as well: the table of
  \<open>exports.csv_old/hours.csv\<close> is written into another directory,
  \<open>exports_old\<close>.\<close>

lemma cleaned_csv_path_inner_occurrence:
  "cleaned_csv_path ''exports.csv_old/hours.csv'' = ''exports_old/hours_HOURS_CLEANED.csv''"
  by code_simp

section \<open>Properties of reconciliation\<close>

text \<open>C12: on a table with a rectangular shape, at least fifteen columns and distinct
  program identifiers, where every program has a flag and every accepted program a
  candidate, \<open>convert_id_hours_dict_to_df\<close> returns the table whose rows are, row
  by row, the bulk-upload rows of the accepted candidate or the untouched row of a
  rejected program.\<close>

theorem convert_id_hours_dict_to_df_eq:
  assumes fc: "frame_col df ''Program External ID'' = Inr i"
    and wf: "\<forall>r\<in>set (rows df). length r = length (columns df)" and wide: "15 \<le> length (columns df)"
    and dist: "distinct (map (\<lambda>r. r ! i) (rows df))"
    and flags: "\<forall>r\<in>set (rows df). \<exists>ok. dict_get vd (r ! i) = Inr ok \<and>
                   (ok \<longrightarrow> (\<exists>c. dict_get cleaned (r ! i) = Inr c))"
  shows "convert_id_hours_dict_to_df cleaned vd df =
           Inr \<lparr>columns = columns df,
                rows = concat (map (reconciled_rows cleaned vd (length (columns df)) i) (rows df))\<rparr>"
  by (rule convert_eq [OF fc wf wide dist flags])

theorem convert_id_hours_dict_to_df_eq_witness:
  "convert_id_hours_dict_to_df
     [(''P1'', ''Monday,15:00,17:00,,,,,,,,Weekly,,,;Friday,09:00,10:00,,,,,,,,Weekly,,,''), (''P2'', ''Monday'')]
     [(''P1'', True), (''P2'', False)]
     \<lparr>columns = [''Program External ID'', ''Name'', ''Hours Uncleaned''] @ replicate 14 ''Hours'',
      rows = [[''P1'', ''Pantry'', ''Mon 3-5, Fri 9-10''] @ replicate 14 [],
              [''P2'', ''Shelf'', ''ask us''] @ replicate 14 []]\<rparr> =
   Inr \<lparr>columns = [''Program External ID'', ''Name'', ''Hours Uncleaned''] @ replicate 14 ''Hours'',
        rows = [[''P1'', ''Pantry''] @ fields_of ''Monday,15:00,17:00,,,,,,,,Weekly,,,'' @ [[]],
                [''P1'', ''Pantry''] @ fields_of ''Friday,09:00,10:00,,,,,,,,Weekly,,,'' @ [[]],
                [''P2'', ''Shelf'', ''ask us''] @ replicate 14 []]\<rparr>"
proof -
  let ?df = "\<lparr>columns = [''Program External ID'', ''Name'', ''Hours Uncleaned''] @ replicate 14 ''Hours'',
      rows = [[''P1'', ''Pantry'', ''Mon 3-5, Fri 9-10''] @ replicate 14 [],
              [''P2'', ''Shelf'', ''ask us''] @ replicate 14 []]\<rparr>"
  let ?cl = "[(''P1'', ''Monday,15:00,17:00,,,,,,,,Weekly,,,;Friday,09:00,10:00,,,,,,,,Weekly,,,''), (''P2'', ''Monday'')]"
  let ?vd = "[(''P1'', True), (''P2'', False)]"
  have fc: "frame_col ?df ''Program External ID'' = Inr 0" by (simp add: frame_col_def)
  have wf: "\<forall>r\<in>set (rows ?df). length r = length (columns ?df)" by simp
  have wide: "15 \<le> length (columns ?df)" by simp
  have dist: "distinct (map (\<lambda>r. r ! 0) (rows ?df))" by simp
  have flags: "\<forall>r\<in>set (rows ?df). \<exists>ok. dict_get ?vd (r ! 0) = Inr ok \<and>
                  (ok \<longrightarrow> (\<exists>c. dict_get ?cl (r ! 0) = Inr c))" by auto
  have rr: "concat (map (reconciled_rows ?cl ?vd (length (columns ?df)) 0) (rows ?df)) =
              [[''P1'', ''Pantry''] @ fields_of ''Monday,15:00,17:00,,,,,,,,Weekly,,,'' @ [[]],
               [''P1'', ''Pantry''] @ fields_of ''Friday,09:00,10:00,,,,,,,,Weekly,,,'' @ [[]],
               [''P2'', ''Shelf'', ''ask us''] @ replicate 14 []]" by code_simp
  from convert_id_hours_dict_to_df_eq [OF fc wf wide dist flags] rr show ?thesis by simp
qed

text \<open>C13: \<open>filter_invalid_values\<close> keeps every program of the candidates, in their
  order, with its candidate when its flag is true and with its original text when the
  flag is false (a program with a false flag must have an original text).\<close>

theorem filter_invalid_values_eq:
  assumes "distinct (map fst cleaned)"
    and "\<forall>(k, c)\<in>set cleaned. dict_get vd k = Inr True \<or>
            (dict_get vd k = Inr False \<and> k \<in> set (map fst ids))"
  shows "filter_invalid_values ids cleaned vd =
           Inr (map (\<lambda>(k, c). (k, if dict_get vd k = Inr True then c else projr (dict_get ids k))) cleaned)"
proof -
  from assms(1) have "\<forall>(k, c)\<in>set cleaned. dict_get cleaned k = Inr c"
    by (auto intro: dict_get_distinct_member)
  with assms have "\<forall>(k, c)\<in>set cleaned. dict_get cleaned k = Inr c \<and>
            (dict_get vd k = Inr True \<or> (dict_get vd k = Inr False \<and> k \<in> set (map fst ids)))"
    by auto
  from filter_invalid_values_fold [OF assms(1) _ this, of "[]"] show ?thesis
    by (simp add: filter_invalid_values_def)
qed

theorem filter_invalid_values_eq_witness:
  "filter_invalid_values [(''P1'', ''Every Monday, from 3pm-5pm''), (''P2'', ''3rd Tuesday'')]
     [(''P1'', ''Monday,15:00,17:00,,,,,,,,Weekly,,,''), (''P2'', ''Tuesday,09:00'')]
     [(''P1'', True), (''P2'', False)] =
   Inr [(''P1'', ''Monday,15:00,17:00,,,,,,,,Weekly,,,''), (''P2'', ''3rd Tuesday'')]"
  using filter_invalid_values_eq [of "[(''P1'', ''Monday,15:00,17:00,,,,,,,,Weekly,,,''), (''P2'', ''Tuesday,09:00'')]"
      "[(''P1'', True), (''P2'', False)]" "[(''P1'', ''Every Monday, from 3pm-5pm''), (''P2'', ''3rd Tuesday'')]"]
  by simp

text \<open>C14: a failing model call aborts the whole batch: when the call for the \<open>m\<close>-th
  program raises and the calls before it succeed, the main block raises that exception
  and no table is produced, for the programs before and after it as well. The design
  asks that one row's failure not abort the batch.\<close>

theorem batch_main_generator_failure:
  assumes "create_id_hours_dict df = Inr ids" and "m < length ids"
    and "gen m (snd (ids ! m)) = Inl e" and "\<forall>j<m. \<exists>t. gen j (snd (ids ! j)) = Inr t"
  shows "batch_main gen df = Inl e"
  using assms format_hours_loop_raises [of m ids gen 0 e "[]"]
  by (simp add: batch_main_def format_hours_iteratively_def)

theorem batch_main_generator_failure_witness:
  "batch_main (\<lambda>n p. if n = 0 then Inr ''Monday,15:00,17:00,,,,,,,,Weekly,,,'' else Inl UpstreamError)
     \<lparr>columns = [''Program External ID'', ''Hours Uncleaned''] @ replicate 14 ''Hours'',
      rows = [[''P1'', ''Mondays 3-5''] @ replicate 14 [], [''P2'', ''Fridays 9-10''] @ replicate 14 []]\<rparr> =
   Inl UpstreamError"
proof -
  have c: "create_id_hours_dict
     \<lparr>columns = [''Program External ID'', ''Hours Uncleaned''] @ replicate 14 ''Hours'',
      rows = [[''P1'', ''Mondays 3-5''] @ replicate 14 [], [''P2'', ''Fridays 9-10''] @ replicate 14 []]\<rparr> =
     Inr [(''P1'', ''Mondays 3-5''), (''P2'', ''Fridays 9-10'')]" by code_simp
  show ?thesis
    by (rule batch_main_generator_failure [OF c, of 1]) simp_all
qed

text \<open>C15: reconciliation never loses a row: on a table that meets the conditions of
  C12 the output has at least as many rows as the input, one per rejected program and
  one per entry of an accepted candidate.\<close>

theorem convert_rows_length:
  assumes fc: "frame_col df ''Program External ID'' = Inr i"
    and wf: "\<forall>r\<in>set (rows df). length r = length (columns df)" and wide: "15 \<le> length (columns df)"
    and dist: "distinct (map (\<lambda>r. r ! i) (rows df))"
    and flags: "\<forall>r\<in>set (rows df). \<exists>ok. dict_get vd (r ! i) = Inr ok \<and>
                   (ok \<longrightarrow> (\<exists>c. dict_get cleaned (r ! i) = Inr c))"
  shows "\<exists>out. convert_id_hours_dict_to_df cleaned vd df = Inr out \<and> length (rows df) \<le> length (rows out)"
proof -
  have "length rs \<le> length (concat (map (reconciled_rows cleaned vd (length (columns df)) i) rs))" for rs
  proof (induction rs)
    case (Cons r rs)
    then show ?case using reconciled_rows_not_Nil [of cleaned vd "length (columns df)" i r]
      by (cases "reconciled_rows cleaned vd (length (columns df)) i r") simp_all
  qed simp
  with convert_eq [OF fc wf wide dist flags] show ?thesis by simp
qed

theorem convert_rows_length_witness:
  "convert_id_hours_dict_to_df [(''P1'', ''Monday,15:00,17:00,,,,,,,,Weekly,,,'')] [(''P1'', True)]
     \<lparr>columns = [''Program External ID'', ''Hours Uncleaned''] @ replicate 14 ''Hours'',
      rows = [[''P1'', ''Mondays 3-5''] @ replicate 14 []]\<rparr> =
   Inr \<lparr>columns = [''Program External ID'', ''Hours Uncleaned''] @ replicate 14 ''Hours'',
        rows = [[''P1''] @ fields_of ''Monday,15:00,17:00,,,,,,,,Weekly,,,'' @ [[]]]\<rparr>"
proof -
  let ?df = "\<lparr>columns = [''Program External ID'', ''Hours Uncleaned''] @ replicate 14 ''Hours'',
      rows = [[''P1'', ''Mondays 3-5''] @ replicate 14 []]\<rparr>"
  let ?cl = "[(''P1'', ''Monday,15:00,17:00,,,,,,,,Weekly,,,'')]"
  let ?vd = "[(''P1'', True)]"
  have fc: "frame_col ?df ''Program External ID'' = Inr 0" by (simp add: frame_col_def)
  have wf: "\<forall>r\<in>set (rows ?df). length r = length (columns ?df)" by simp
  have wide: "15 \<le> length (columns ?df)" by simp
  have dist: "distinct (map (\<lambda>r. r ! 0) (rows ?df))" by simp
  have flags: "\<forall>r\<in>set (rows ?df). \<exists>ok. dict_get ?vd (r ! 0) = Inr ok \<and>
                  (ok \<longrightarrow> (\<exists>c. dict_get ?cl (r ! 0) = Inr c))" by auto
  obtain out where "convert_id_hours_dict_to_df ?cl ?vd ?df = Inr out"
    and "length (rows ?df) \<le> length (rows out)"
    using convert_rows_length [OF fc wf wide dist flags] by blast
  moreover have "convert_id_hours_dict_to_df [(''P1'', ''Monday,15:00,17:00,,,,,,,,Weekly,,,'')] [(''P1'', True)] ?df =
     Inr \<lparr>columns = [''Program External ID'', ''Hours Uncleaned''] @ replicate 14 ''Hours'',
          rows = [[''P1''] @ fields_of ''Monday,15:00,17:00,,,,,,,,Weekly,,,'' @ [[]]]\<rparr>" by code_simp
  ultimately show ?thesis by simp
qed

text \<open>C16: the script end to end: on a rectangular table with at least fifteen columns,
  both named columns and distinct program identifiers, a run of the main block that
  produces a table keeps the columns, keeps the row of every rejected program, and
  replaces the row of every accepted program by one row per entry of its candidate (the
  non-hours columns, the fourteen fields, an empty cell: the fallback of fifteen empty
  cells is never taken), where every such entry passed all the rules against the
  program's stripped original text.\<close>

theorem batch_main_rows:
  assumes fi: "frame_col df ''Program External ID'' = Inr i" and fh: "frame_col df ''Hours Uncleaned'' = Inr h"
    and wf: "\<forall>r\<in>set (rows df). length r = length (columns df)" and wide: "15 \<le> length (columns df)"
    and dist: "distinct (map (\<lambda>r. r ! i) (rows df))"
    and run: "batch_main gen df = Inr out"
  shows "columns out = columns df \<and>
    (\<exists>cleaned vd.
       rows out = concat (map (\<lambda>r. if dict_get vd (r ! i) = Inr True
           then map (\<lambda>e. take (length (columns df) - 15) r @ fields_of e @ [[]])
                    (entries_of (projr (dict_get cleaned (r ! i))))
           else [r]) (rows df)) \<and>
       (\<forall>r\<in>set (rows df). dict_get vd (r ! i) = Inr True \<longrightarrow>
          (\<forall>e\<in>set (entries_of (projr (dict_get cleaned (r ! i)))).
             length (fields_of e) = 14 \<and> batch_entry_checks (Inr (py_strip (r ! h))) (fields_of e))))"
proof -
  let ?ids = "map (\<lambda>r. (r ! i, py_strip (r ! h))) (rows df)"
  let ?vd = "map (\<lambda>(key, _). (key, True)) ?ids"
  note ids = create_id_hours_dict_eq [OF fi fh wf dist]
  from run ids obtain cleaned vd' fl where
    fmt: "format_hours_iteratively gen ?ids = Inr cleaned" and
    val: "run_validation_batch ?ids cleaned ?vd = Inr vd'" and
    conv: "convert_id_hours_dict_to_df cleaned vd' df = Inr out"
    by (auto simp: batch_main_def py_bind_Inr_iff Let_def)
  have dk: "distinct (map fst ?ids)" using dist by (simp add: comp_def)
  from format_hours_loop_keys [OF fmt [unfolded format_hours_iteratively_def] dk]
  have ck: "map fst cleaned = map (\<lambda>r. r ! i) (rows df)" by simp
  note sound = run_validation_batch_sound [OF val]
  from sound have vk: "map fst vd' = map (\<lambda>r. r ! i) (rows df)" by (simp add: comp_def case_prod_beta)
  have flags: "\<forall>r\<in>set (rows df). \<exists>ok. dict_get vd' (r ! i) = Inr ok \<and>
                  (ok \<longrightarrow> (\<exists>c. dict_get cleaned (r ! i) = Inr c))"
    using vk ck dict_get_key_Inr [of _ vd'] dict_get_key_Inr [of _ cleaned] by (metis image_eqI list.set_map)
  note out = convert_eq [OF fi wf wide dist flags] conv
  have acc: "\<forall>e\<in>set (entries_of (projr (dict_get cleaned (r ! i)))).
               length (fields_of e) = 14 \<and> batch_entry_checks (Inr (py_strip (r ! h))) (fields_of e)"
    if r: "r \<in> set (rows df)" and t: "dict_get vd' (r ! i) = Inr True" for r
  proof -
    from flags r t obtain c where c: "dict_get cleaned (r ! i) = Inr c" by fastforce
    from dict_get_distinct_member [OF dk] r have o: "dict_get ?ids (r ! i) = Inr (py_strip (r ! h))" by auto
    from sound t c have f: "entry_format_ok c"
      and ok: "\<forall>e\<in>set (entries_of c). batch_entry_checks (dict_get ?ids (r ! i)) (fields_of e)" by auto
    from ok have "\<forall>e\<in>set (entries_of c). 13 < length (fields_of e)" by (simp add: batch_entry_checks_def)
    from entries_exact_arity [OF f this] ok o c show ?thesis by simp
  qed
  have rows_eq: "reconciled_rows cleaned vd' (length (columns df)) i r =
      (if dict_get vd' (r ! i) = Inr True
       then map (\<lambda>e. take (length (columns df) - 15) r @ fields_of e @ [[]]) (entries_of (projr (dict_get cleaned (r ! i))))
       else [r])" if r: "r \<in> set (rows df)" for r
  proof (cases "dict_get vd' (r ! i) = Inr True")
    case True
    from flags r True obtain c where c: "dict_get cleaned (r ! i) = Inr c" by fastforce
    from acc [OF r True] c have "\<forall>e\<in>set (entries_of c). length (fields_of e) = 14" by simp
    from bulk_rows_exact [OF this] True c show ?thesis by (simp add: reconciled_rows_def)
  next
    case False
    then show ?thesis by (simp add: reconciled_rows_def split: sum.splits bool.splits)
  qed
  from out have "columns out = columns df" by auto
  moreover from out rows_eq have "rows out = concat (map (\<lambda>r. if dict_get vd' (r ! i) = Inr True
           then map (\<lambda>e. take (length (columns df) - 15) r @ fields_of e @ [[]])
                    (entries_of (projr (dict_get cleaned (r ! i))))
           else [r]) (rows df))" by (auto intro: arg_cong [where f = concat])
  ultimately show ?thesis using acc by blast
qed

theorem batch_main_rows_witness:
  "batch_main (\<lambda>n p. Inr (if n = 0 then ''Monday,15:00,17:00,,,,,,,,Weekly,,,;Friday,09:00,10:00,,,,,,,,Weekly,,,''
                          else ''Mursday,09:00,10:00,,,,,,,,Weekly,,,''))
     \<lparr>columns = [''Program External ID'', ''Hours Uncleaned''] @ replicate 14 ''Hours'',
      rows = [[''P1'', '' Mon 3-5, Fri 9-10 ''] @ replicate 14 [], [''P2'', ''Thursdays''] @ replicate 14 []]\<rparr> =
   Inr \<lparr>columns = [''Program External ID'', ''Hours Uncleaned''] @ replicate 14 ''Hours'',
        rows = [[''P1''] @ fields_of ''Monday,15:00,17:00,,,,,,,,Weekly,,,'' @ [[]],
                [''P1''] @ fields_of ''Friday,09:00,10:00,,,,,,,,Weekly,,,'' @ [[]],
                [''P2'', ''Thursdays''] @ replicate 14 []]\<rparr>"
proof -
  let ?df = "\<lparr>columns = [''Program External ID'', ''Hours Uncleaned''] @ replicate 14 ''Hours'',
      rows = [[''P1'', '' Mon 3-5, Fri 9-10 ''] @ replicate 14 [], [''P2'', ''Thursdays''] @ replicate 14 []]\<rparr>"
  have fi: "frame_col ?df ''Program External ID'' = Inr 0" by (simp add: frame_col_def)
  have fh: "frame_col ?df ''Hours Uncleaned'' = Inr 1" by (simp add: frame_col_def)
  have wf: "\<forall>r\<in>set (rows ?df). length r = length (columns ?df)" by simp
  have wide: "15 \<le> length (columns ?df)" by simp
  have dist: "distinct (map (\<lambda>r. r ! 0) (rows ?df))" by simp
  have run: "batch_main (\<lambda>n p. Inr (if n = 0 then ''Monday,15:00,17:00,,,,,,,,Weekly,,,;Friday,09:00,10:00,,,,,,,,Weekly,,,''
                          else ''Mursday,09:00,10:00,,,,,,,,Weekly,,,'')) ?df =
   Inr \<lparr>columns = [''Program External ID'', ''Hours Uncleaned''] @ replicate 14 ''Hours'',
        rows = [[''P1''] @ fields_of ''Monday,15:00,17:00,,,,,,,,Weekly,,,'' @ [[]],
                [''P1''] @ fields_of ''Friday,09:00,10:00,,,,,,,,Weekly,,,'' @ [[]],
                [''P2'', ''Thursdays''] @ replicate 14 []]\<rparr>" by code_simp
  from batch_main_rows [OF fi fh wf wide dist run] run show ?thesis by simp
qed

end
