(* ===== verification/Primary_Contact.thy ===== *)
theory Primary_Contact
  imports Reconciliation
begin

text \<open>
  The script src/primary_contact.py: it reads a table, joins the contact columns of
  every row into one text per program (\<open>create_id_contacts_dict\<close>), and sends each
  text to a completion model (\<open>format_contacts_iteratively\<close>); the main block ends
  with the dictionary of answers. The table is the \<open>frame\<close> of \<open>Reconciliation\<close>,
  the model the same generator parameter as the other scripts. The sleep after each
  call and the prints have no effect on values.
\<close>

section \<open>Definitions\<close>

text \<open>The \<open>type=\<close> of the \<open>--columns\<close> argument.\<close>

definition list_of_strings :: "string \<Rightarrow> string list" where
  "list_of_strings arg = py_split CHR '','' arg"

text \<open>\<open>row[contact_columns].tolist()\<close>: the cells of the named columns, in the order of
  the names; a missing column raises \<open>KeyError\<close>.\<close>

definition row_select :: "frame \<Rightarrow> string list \<Rightarrow> string list \<Rightarrow> string list py" where
  "row_select df row names = py_mapM (row_get df row) names"

text \<open>The right-hand side \<open>", ".join(...).strip()\<close> is evaluated before the key
  \<open>row[primary_key]\<close>; a repeated key keeps its first position and its last text.\<close>

definition create_id_contacts_dict :: "frame \<Rightarrow> string \<Rightarrow> string list \<Rightarrow> hours_dict py" where
  "create_id_contacts_dict df primary_key contact_columns =
     py_fold (\<lambda>row d.
        py_bind (row_select df row contact_columns) (\<lambda>cs.
        py_bind (row_get df row primary_key) (\<lambda>pid.
        Inr (dict_set d pid (py_strip (py_join_str '', '' cs))))))
       (rows df) []"

definition call_oai_contact :: "generator \<Rightarrow> nat \<Rightarrow> string \<Rightarrow> string py" where
  "call_oai_contact gen n prompt = gen n prompt"

fun format_contacts_loop :: "generator \<Rightarrow> nat \<Rightarrow> hours_dict \<Rightarrow> hours_dict \<Rightarrow> hours_dict py" where
  "format_contacts_loop gen n [] d = Inr d"
| "format_contacts_loop gen n ((key, v) # rest) d =
     py_bind (call_oai_contact gen n v) (\<lambda>nv. format_contacts_loop gen (Suc n) rest (dict_set d key nv))"

definition format_contacts_iteratively :: "generator \<Rightarrow> hours_dict \<Rightarrow> hours_dict py" where
  "format_contacts_iteratively gen ids = format_contacts_loop gen 0 ids []"

text \<open>The main block from the parsed arguments to the dictionary of answers; the flag
  dictionary it builds is never read.\<close>

definition contact_main :: "generator \<Rightarrow> frame \<Rightarrow> string \<Rightarrow> string \<Rightarrow> hours_dict py" where
  "contact_main gen df primary_key columns_arg =
     (let contact_columns = list_of_strings columns_arg in
      py_bind (create_id_contacts_dict df primary_key contact_columns) (\<lambda>ids.
      (let is_valid_contact_dict = map (\<lambda>(key, _). (key, True)) ids in
       format_contacts_iteratively gen ids)))"

section \<open>Lemmas\<close>

lemma row_select_eq:
  "\<forall>c\<in>set names. frame_col df c = Inr (ix c) \<and> ix c < length row \<Longrightarrow>
     row_select df row names = Inr (map (\<lambda>c. row ! ix c) names)"
  by (induction names) (auto simp: row_select_def row_get_def py_nth_def)

text \<open>On a row as long as the header, a name that is not a column raises \<open>KeyError\<close>
  and no other exception is possible.\<close>

lemma row_select_missing:
  "length row = length (columns df) \<Longrightarrow> \<exists>c\<in>set names. c \<notin> set (columns df) \<Longrightarrow>
     row_select df row names = Inl KeyError"
proof (induction names)
  case (Cons c cs)
  show ?case
  proof (cases "c \<in> set (columns df)")
    case True
    then obtain j where j: "frame_col df c = Inr j" by (simp add: frame_col_def)
    from Cons.prems True have "\<exists>c\<in>set cs. c \<notin> set (columns df)" by auto
    with Cons.IH Cons.prems(1) have "row_select df row cs = Inl KeyError" by simp
    with frame_col_Inr [OF j] j Cons.prems(1) show ?thesis
      by (simp add: row_select_def row_get_def py_nth_def)
  qed (simp add: row_select_def row_get_def frame_col_def)
qed simp

text \<open>The two scripts call the model the same way: the contact loop is the hours loop.\<close>

lemma format_contacts_loop_eq: "format_contacts_loop gen n xs d = format_hours_loop gen n xs d"
  by (induction gen n xs d rule: format_contacts_loop.induct)
     (simp_all add: call_oai_contact_def call_oai_batch_def)

text \<open>With a model that always answers, the loop answers every program, in order, and
  call \<open>n\<close> is the one for the \<open>n\<close>-th program.\<close>

lemma format_hours_loop_total:
  assumes "\<forall>j<length xs. gen (n + j) (snd (xs ! j)) = Inr (ans (n + j))"
    and "distinct (map fst xs)" and "set (map fst xs) \<inter> set (map fst d) = {}"
  shows "format_hours_loop gen n xs d = Inr (d @ map (\<lambda>j. (fst (xs ! j), ans (n + j))) [0..<length xs])"
  using assms
proof (induction gen n xs d rule: format_hours_loop.induct)
  case (2 gen n key v rest d)
  from "2.prems"(1) have g: "gen n v = Inr (ans n)" by (metis add_0_right length_Cons nth_Cons_0 snd_conv zero_less_Suc)
  have "\<forall>j<length rest. gen (Suc n + j) (snd (rest ! j)) = Inr (ans (Suc n + j))"
    using "2.prems"(1) by (metis Suc_less_eq add_Suc_shift length_Cons nth_Cons_Suc)
  moreover from "2.prems" have "distinct (map fst rest)"
    "set (map fst rest) \<inter> set (map fst (dict_set d key (ans n))) = {}" by (auto simp: dict_set_new)
  ultimately have "format_hours_loop gen (Suc n) rest (dict_set d key (ans n)) =
      Inr (dict_set d key (ans n) @ map (\<lambda>j. (fst (rest ! j), ans (Suc n + j))) [0..<length rest])"
    using "2.IH" g by (simp add: call_oai_batch_def)
  moreover have "map (\<lambda>j. (fst (((key, v) # rest) ! j), ans (n + j))) [0..<Suc (length rest)] =
      (key, ans n) # map (\<lambda>j. (fst (rest ! j), ans (Suc n + j))) [0..<length rest]"
    by (simp add: map_upt_Suc del: upt_Suc)
  ultimately show ?case using "2.prems" g by (simp add: call_oai_batch_def dict_set_new)
qed simp


text \<open>The dictionary of \<open>create_id_contacts_dict\<close> in closed form: one entry per row, in
  row order, the key the row's primary key and the value the row's contact cells in the
  order of the names, joined by a comma and a space and stripped.\<close>

lemma create_id_contacts_dict_rows:
  assumes fi: "frame_col df primary_key = Inr i"
    and fc: "\<forall>c\<in>set cols. frame_col df c = Inr (ix c)"
    and wf: "\<forall>r\<in>set (rows df). length r = length (columns df)"
    and dist: "distinct (map (\<lambda>r. r ! i) (rows df))"
  shows "create_id_contacts_dict df primary_key cols =
    Inr (map (\<lambda>r. (r ! i, py_strip (py_join_str '', '' (map (\<lambda>c. r ! ix c) cols)))) (rows df))"
proof -
  have ix: "\<forall>r\<in>set (rows df). i < length r \<and> (\<forall>c\<in>set cols. ix c < length r)"
    using frame_col_Inr [OF fi] frame_col_Inr fc wf by fastforce
  then have sel: "\<forall>r\<in>set (rows df). row_select df r cols = Inr (map (\<lambda>c. r ! ix c) cols)"
    using fc by (simp add: row_select_eq)
  show ?thesis unfolding create_id_contacts_dict_def
    using py_fold_dict_set_fresh [where K = "\<lambda>r. r ! i" and acc = "[]"
        and V = "\<lambda>r. py_strip (py_join_str '', '' (map (\<lambda>c. r ! ix c) cols))"]
      ix sel dist fi by (simp add: row_get_def py_nth_def)
qed

section \<open>Properties\<close>

text \<open>C25: on a rectangular table whose primary key and contact columns exist and whose
  keys are distinct, \<open>create_id_contacts_dict\<close> maps every row's key to the row's contact
  cells, in the order the names were given, joined by \<open>", "\<close> and stripped.\<close>

theorem create_id_contacts_dict_eq:
  assumes "frame_col df primary_key = Inr i"
    and "\<forall>c\<in>set cols. frame_col df c = Inr (ix c)"
    and "\<forall>r\<in>set (rows df). length r = length (columns df)"
    and "distinct (map (\<lambda>r. r ! i) (rows df))"
  shows "create_id_contacts_dict df primary_key cols =
    Inr (map (\<lambda>r. (r ! i, py_strip (py_join_str '', '' (map (\<lambda>c. r ! ix c) cols)))) (rows df))"
  using assms by (rule create_id_contacts_dict_rows)

theorem create_id_contacts_dict_eq_witness:
  "create_id_contacts_dict
     \<lparr>columns = [''ID'', ''Phone'', ''Email''],
      rows = [[''P1'', ''555-0100'', ''a@b.org ''], [''P2'', '' 555-0199'', '''']]\<rparr>
     ''ID'' [''Email'', ''Phone''] =
   Inr [(''P1'', ''a@b.org , 555-0100''), (''P2'', '',  555-0199'')]"
proof -
  let ?df = "\<lparr>columns = [''ID'', ''Phone'', ''Email''],
      rows = [[''P1'', ''555-0100'', ''a@b.org ''], [''P2'', '' 555-0199'', '''']]\<rparr>"
  let ?ix = "\<lambda>c. if c = ''Email'' then 2 else (1::nat)"
  have fi: "frame_col ?df ''ID'' = Inr 0" by (simp add: frame_col_def)
  have fc: "\<forall>c\<in>set [''Email'', ''Phone'']. frame_col ?df c = Inr (?ix c)" by (simp add: frame_col_def)
  have wf: "\<forall>r\<in>set (rows ?df). length r = length (columns ?df)" by simp
  have dist: "distinct (map (\<lambda>r. r ! 0) (rows ?df))" by simp
  have s1: "py_strip (py_join_str '', '' [''a@b.org '', ''555-0100'']) = ''a@b.org , 555-0100''"
    by code_simp
  have s2: "py_strip (py_join_str '', '' ['''', '' 555-0199'']) = '',  555-0199''"
    by code_simp
  show ?thesis
    using create_id_contacts_dict_eq [OF fi fc wf dist] s1 s2 by simp
qed

text \<open>C26: a missing column raises: on a non-empty rectangular table, when the primary
  key or one of the contact columns is not a column of the table, \<open>create_id_contacts_dict\<close>
  raises \<open>KeyError\<close> (on the first row) and no dictionary is built.\<close>

theorem create_id_contacts_dict_missing_column:
  assumes "rows df \<noteq> []" and "\<forall>r\<in>set (rows df). length r = length (columns df)"
    and "\<exists>c\<in>set (primary_key # cols). c \<notin> set (columns df)"
  shows "create_id_contacts_dict df primary_key cols = Inl KeyError"
proof -
  obtain r rs where r: "rows df = r # rs" using assms(1) by (cases "rows df") auto
  with assms(2) have len: "length r = length (columns df)" by simp
  show ?thesis
  proof (cases "\<exists>c\<in>set cols. c \<notin> set (columns df)")
    case True
    with row_select_missing [OF len] r show ?thesis by (simp add: create_id_contacts_dict_def)
  next
    case False
    with assms(3) have "primary_key \<notin> set (columns df)" by simp
    moreover have "\<forall>c\<in>set cols. frame_col df c = Inr (projr (frame_col df c)) \<and>
        projr (frame_col df c) < length r"
    proof
      fix c assume "c \<in> set cols"
      with False obtain j where j: "frame_col df c = Inr j" by (auto simp: frame_col_def)
      with frame_col_Inr [OF j] len show "frame_col df c = Inr (projr (frame_col df c)) \<and>
        projr (frame_col df c) < length r" by simp
    qed
    then obtain cs where "row_select df r cols = Inr cs" by (drule_tac row_select_eq) blast
    ultimately show ?thesis using r by (simp add: create_id_contacts_dict_def row_get_def frame_col_def)
  qed
qed

theorem create_id_contacts_dict_missing_column_witness:
  "create_id_contacts_dict \<lparr>columns = [''ID'', ''Phone''], rows = [[''P1'', ''555-0100'']]\<rparr>
     ''ID'' [''Phone'', ''Email''] = Inl KeyError"
  by (rule create_id_contacts_dict_missing_column) simp_all

text \<open>C27: the script answers every program: on a rectangular table whose key and contact
  columns (the \<open>--columns\<close> argument split at commas) exist and whose keys are distinct,
  when the model answers every prompt it is sent, the main block returns and its
  dictionary maps the key of the \<open>j\<close>-th row to the \<open>j\<close>-th answer, in row order, where the
  \<open>j\<close>-th prompt is the \<open>j\<close>-th row's joined contact text.\<close>

theorem contact_main_answers_every_program:
  assumes fi: "frame_col df primary_key = Inr i"
    and fc: "\<forall>c\<in>set (list_of_strings arg). frame_col df c = Inr (ix c)"
    and wf: "\<forall>r\<in>set (rows df). length r = length (columns df)"
    and dist: "distinct (map (\<lambda>r. r ! i) (rows df))"
    and gen: "\<forall>j<length (rows df).
       gen j (py_strip (py_join_str '', '' (map (\<lambda>c. rows df ! j ! ix c) (list_of_strings arg)))) = Inr (ans j)"
  shows "contact_main gen df primary_key arg = Inr (map (\<lambda>j. (rows df ! j ! i, ans j)) [0..<length (rows df)])"
proof -
  let ?ids = "map (\<lambda>r. (r ! i, py_strip (py_join_str '', '' (map (\<lambda>c. r ! ix c) (list_of_strings arg))))) (rows df)"
  have ids: "create_id_contacts_dict df primary_key (list_of_strings arg) = Inr ?ids"
    by (rule create_id_contacts_dict_rows [OF fi fc wf dist])
  have "format_hours_loop gen 0 ?ids [] = Inr ([] @ map (\<lambda>j. (fst (?ids ! j), ans (0 + j))) [0..<length ?ids])"
    by (rule format_hours_loop_total) (use gen dist in \<open>simp_all add: comp_def\<close>)
  then show ?thesis using ids
    by (simp add: contact_main_def format_contacts_iteratively_def format_contacts_loop_eq)
qed

theorem contact_main_answers_every_program_witness:
  "contact_main (\<lambda>n p. Inr (''Primary: '' @ p))
     \<lparr>columns = [''ID'', ''Phone'', ''Email''],
      rows = [[''P1'', ''555-0100'', ''a@b.org''], [''P2'', ''555-0199'', ''c@d.org'']]\<rparr>
     ''ID'' ''Phone,Email'' =
   Inr [(''P1'', ''Primary: 555-0100, a@b.org''), (''P2'', ''Primary: 555-0199, c@d.org'')]"
proof -
  have l: "list_of_strings ''Phone,Email'' = [''Phone'', ''Email'']" by (simp add: list_of_strings_def)
  show ?thesis
    using contact_main_answers_every_program [of "\<lparr>columns = [''ID'', ''Phone'', ''Email''],
      rows = [[''P1'', ''555-0100'', ''a@b.org''], [''P2'', ''555-0199'', ''c@d.org'']]\<rparr>"
      "''ID''" 0 "''Phone,Email''" "\<lambda>c. if c = ''Phone'' then 1 else 2"
      "\<lambda>n p. Inr (''Primary: '' @ p)"
      "\<lambda>j. if j = 0 then ''Primary: 555-0100, a@b.org'' else ''Primary: 555-0199, c@d.org''"]
    by (simp add: l frame_col_def py_strip_def py_isspace_def less_Suc_eq)
qed

end
