(* ===== verification/Spec2Isabelle.thy ===== *)
theory Spec2Isabelle
  imports Service_App Primary_Contact
begin

text \<open>
  \<^bold>\<open>A verification library for ViveryAIDataCleanser's hours canonicalisation.\<close>

  \<^emph>\<open>The program.\<close> Free-text opening hours are sent, one semicolon-separated clause
  at a time, to an external completion model; the answers are joined into one candidate
  string of fourteen-field entries (\<open>;\<close> between entries, \<open>,\<close> between fields) and a
  battery of rules decides whether the candidate is accepted. Two copies of the logic
  exist: the service (src/clean-hours/server/normalizeHours.py, called by the Flask
  route of src/clean-hours/server/app.py) and the batch script (src/clean_hours.py,
  which also expands accepted rows into bulk-upload rows). src/primary_contact.py has
  the same call-the-model shape: it joins each row's contact columns into one prompt
  and collects the model's answers per program.

  \<^emph>\<open>Theories and what they model.\<close>
  \<^item> \<open>Prelude\<close>: Python's semantics as the sources use it: exceptions as
    \<open>exn + 'a\<close> (\<open>py_bind\<close>), short-circuit \<open>and\<close>/\<open>or\<close> over computations that
    may raise (\<open>py_and\<close>, \<open>py_or\<close>), a bare \<open>except\<close> (\<open>py_catch_false\<close>),
    indexing that raises (\<open>py_nth\<close>, \<open>py_list_set\<close>), \<open>for\<close> loops and
    comprehensions (\<open>py_fold\<close>, \<open>py_mapM\<close>, \<open>py_any\<close>), the string methods
    (\<open>py_split\<close>, \<open>py_join\<close>, \<open>count\<close>, \<open>py_strip\<close>, \<open>py_replace\<close>,
    \<open>py_join_str\<close>, \<open>py_replace_str\<close> (\<open>str.replace\<close> with a string pattern), \<open>py_lower\<close>, \<open>py_isdigit\<close>, \<open>py_contains\<close>) and insertion-ordered dicts
    (\<open>dict_get\<close>, \<open>dict_set\<close>), with their round trips (split/join),
    counting lemmas and the loop lemma the components share
    (\<open>py_fold_dict_set_fresh\<close>: a loop that stores one fresh key per element). Characters are bytes; Unicode case, digits and whitespace beyond
    ASCII are not modelled.
  \<^item> \<open>Time_Format\<close>: the \<open>HH:MM\<close> regular expression of rule 3
    (\<open>time_regex_search\<close>, with Python's \<open>$\<close> before a final line feed) and
    \<open>datetime.strptime(s, "%H:%M")\<close> of rule 4 (\<open>strptime_hm\<close>, CPython's
    regex \<open>2[0-3]|[0-1]\d|\d\<close> : \<open>[0-5]\d|\d\<close> with the unconverted-data check).
  \<^item> \<open>Schedule_Schema\<close>: the module constants (\<open>DAYS_OF_WEEK\<close>,
    \<open>HOUR_TYPES\<close>, \<open>INT_TO_DAY_OF_MONTH\<close> and their batch variants; the two
    weekday lists agree, the other two differ), the wire
    format (\<open>entries_of\<close>, \<open>fields_of\<close>), the counting check of rule 1
    (\<open>entry_format_ok\<close>, shared by both sources).
  \<^item> \<open>Text_Adapter\<close>: \<open>preprocess_string\<close>, \<open>postprocess_string\<close>,
    \<open>call_oai\<close> and \<open>format_input_string\<close> of the service. The completion model is
    a parameter \<open>gen :: nat \<Rightarrow> string \<Rightarrow> string py\<close> (call number and
    prompt to answer or exception); every theorem holds for every \<open>gen\<close>.
  \<^item> \<open>Server_Rules\<close>: the ten \<open>test_*\<close> functions of the service on the
    response record \<open>\<lparr>base, formatted, isValid\<rparr>\<close>, each the whole Python function
    (early return, both splits, the loop, every \<open>try\<close>/\<open>except\<close>, the final
    assignment), and for each a lemma computing its result as a pure predicate.
  \<^item> \<open>Server_Pipeline\<close>: \<open>normalize_input_string\<close> (format, then the ten rules
    in the source's order) and \<open>run_validation_eq\<close>, the closed form of the battery
    as \<open>isValid \<and> server_verdict formatted\<close>.
  \<^item> \<open>Service_App\<close>: app.py: the routes \<open>root\<close> and \<open>normalize_hours\<close>, the
    handlers \<open>bad_request\<close>, \<open>not_found\<close> and \<open>internal_server_error\<close>, and
    \<open>app_dispatch\<close>, Werkzeug's dispatch of a \<open>GET\<close> path to the two rules with
    its defaults (one non-empty segment for \<open><inputString>\<close>; a path with repeated
    slashes redirected with 308 to its merged form when that matches; 404 otherwise).
    A reply is a status code and a body; the text \<open>str(e)\<close> of a Python exception
    is a parameter \<open>exn_str\<close>, since the raising library chooses it.
  \<^item> \<open>Batch_Rules\<close>: the nine \<open>test_*\<close> functions of src/clean_hours.py over
    the dictionaries keyed by program id (\<open>batch_rule\<close> is their shared loop over
    programs and entries, each \<open>*_batch_step\<close> the body of one rule, with the indexing
    that lies outside any \<open>try\<close>), and \<open>run_validation_batch\<close>, the list of the
    main block in its order. \<open>batch_entry_checks\<close> states what the rules certify of an
    entry, and \<open>run_validation_batch_sound\<close> proves that they certify it.
  \<^item> \<open>Reconciliation\<close>: the table as a record of column names and string rows
    (\<open>frame\<close>, with \<open>frame_append\<close> raising \<open>ValueError\<close> on a row of the wrong
    length as pandas does), \<open>create_id_hours_dict\<close>, \<open>format_hours_iteratively\<close>
    (one call per program, the call number passed to the generator),
    \<open>filter_invalid_values\<close>, \<open>convert_id_hours_dict_to_df\<close> (one \<open>convert_step\<close>
    per identifier, with the \<open>except ValueError\<close> fallback) and \<open>batch_main\<close>, the
    main block from the table read to the table written. \<open>bulk_rows\<close> and
    \<open>reconciled_rows\<close> describe the rows the design asks for;
    \<open>cleaned_csv_path\<close> is the name of the file the table is written to, which
    loses every \<open>.csv\<close> of the path and not only its extension
    (\<open>cleaned_csv_path_inner_occurrence\<close>).
  \<^item> \<open>Primary_Contact\<close>: src/primary_contact.py: \<open>list_of_strings\<close> (the
    \<open>--columns\<close> parser), \<open>create_id_contacts_dict\<close> (with \<open>row_select\<close> for
    \<open>row[contact_columns].tolist()\<close>), \<open>format_contacts_iteratively\<close> and
    \<open>contact_main\<close>; it reuses the table of \<open>Reconciliation\<close>, and its loop is
    proved equal to the hours loop (\<open>format_contacts_loop_eq\<close>).

  \<^emph>\<open>What is proved.\<close> The battery never raises (C1) and accepts only candidates of
  the canonical shape (C2, exact arity from rules 1 and 9 together); it only lowers the
  flag and keeps text and candidate (C8). \<open>postprocess_string\<close> raises on short
  generator output (C6), and the route turns exactly the exceptions of formatting into
  400 and everything else into 200 (C17). Rule 1's two-branch boolean is a comma count
  (C5); what rule 3 accepts rule 4 parses (C9), except that rule 3 also accepts any such
  time followed by a line feed, which rule 4 rejects (C22); the Call-for-Information
  correction of the adapter fires on field 7 alone (C7) but not when the generator also
  wrote an hour type (C19). Two defects of the service are theorems: every Day-of-Month
  entry is rejected because the rule reads the missing key \<open>"original"\<close> (C3), and
  the day-of-week rule lets the last entry mask invalid days in the entries before it
  (C4). The open-before-close rule on its own is not total: a short entry with an
  unparseable close time makes it raise (C18), which only the order of the battery
  hides.
  For the batch script: a program still flagged valid after the nine rules has entries
  of fourteen fields that pass every rule (C10); one entry of at most ten fields makes
  the script raise instead (C11); the flags only fall (C20) and an accepted ordinal is
  one of the digits 1 to 5 (C21); on distinct keys and long enough entries the battery
  is exactly "AND the verdict into every flag" (C23), so the order of the nine rules
  does not matter (C24). Reconciliation returns, row by row, the bulk-upload rows of an
  accepted candidate or the untouched row (C12) and never loses a row (C15);
  \<open>filter_invalid_values\<close> picks candidate or original text by the flag (C13); one
  failing model call aborts the whole run (C14); and end to end every output row is
  either an input row of a rejected program or a row built from an entry that passed
  all rules, without the fallback (C16).
  For the contact script: the contact text of each row is its cells in the order of the
  names, joined by a comma and a space (C25); a missing column raises \<open>KeyError\<close>
  (C26); when the model answers, the script answers every program in order (C27).

  \<^emph>\<open>No fuel, no bounds.\<close> Every loop of the sources is a \<open>for\<close> over a finite list,
  modelled by structural recursion; every function of the model is total and
  executable, and the witnesses evaluate them with \<open>code_simp\<close>. What can keep a
  script from finishing is an exception, a value of the model: C27 states when the
  contact script returns, C14 and C26 when a script raises.

  \<^emph>\<open>Not modelled, and why.\<close> The completion service itself (a black box: a
  parameter), CSV reading and writing (the table written and the file name are
  modelled, the bytes of the file are pandas'), argument parsing, configuration loading, the
  prints and the rate-limit sleep (no effect on values), CORS, \<open>app.run\<close> and
  requests other than \<open>GET\<close> in app.py (Flask's own behaviour), URL decoding of the
  path, pandas' missing values and numeric parsing (cells are strings), and a run of
  the contact script without \<open>--columns\<close> (\<open>args.columns\<close> is \<open>None\<close>). What
  remains of the sources outside the model is imports, docstrings, two constants of
  normalizeHours.py that nothing reads (\<open>UNCLEANED_HOURS_COLUMN\<close>,
  \<open>INVALID_CHARACTERS\<close>), the empty \<open>PROMPT\<close> of primary_contact.py, and this I/O;
  for that reason the batch driver is only partly modelled.
\<close>

end
